theory Spec2Isabelle
  imports Main "HOL-Library.Sublist" "HOL-Library.AList"
begin

section \<open>The doctor command of gql.tada: \<open>commands/doctor/runner.ts\<close>\<close>

text \<open>
  The runner is an asynchronous generator.  It yields display events, awaits a pacing
  delay, a file read, the configuration resolver and the schema loader, and ends either
  by returning or by throwing.  The model below keeps all of that: a run is the list of
  steps the generator performs, in order, together with the way it ends.
\<close>

subsection \<open>The version comparator \<open>semiverComply\<close>\<close>

text \<open>
  \<^verbatim>\<open>const match = version.match(/\d+\.\d+\.\d+/);\<close>

  \<open>\d\<close> is an ASCII digit.  A string is a list of \<open>char\<close>; the bytes of a
  character outside ASCII are neither digits nor dots, so they behave like any other
  character for this pattern.
\<close>

definition digit :: "char \<Rightarrow> bool" where
  "digit c = (c \<in> set ''0123456789'')"

text \<open>
  The pattern tried at one start position.  \<open>\d+\<close> is greedy, and giving back digits
  never helps, because the character after a shorter run is a digit and not the dot the
  pattern wants next; so each \<open>\d+\<close> takes the whole run of digits in front of it.
\<close>

definition match_here :: "string \<Rightarrow> string option" where
  "match_here s =
     (let d1 = takeWhile digit s; r1 = dropWhile digit s in
      if d1 = [] then None
      else case r1 of
        [] \<Rightarrow> None
      | c1 # s2 \<Rightarrow>
          if c1 \<noteq> CHR ''.'' then None
          else let d2 = takeWhile digit s2; r2 = dropWhile digit s2 in
            if d2 = [] then None
            else case r2 of
              [] \<Rightarrow> None
            | c2 # s3 \<Rightarrow>
                if c2 \<noteq> CHR ''.'' then None
                else let d3 = takeWhile digit s3 in
                  if d3 = [] then None
                  else Some (d1 @ [CHR ''.''] @ d2 @ [CHR ''.''] @ d3))"

text \<open>
  \<open>String.prototype.match\<close> with a pattern that has no \<open>g\<close> flag: the start positions
  are tried from the left, and the first one where the pattern matches gives
  \<open>match[0]\<close>; \<open>None\<close> is JavaScript's \<open>null\<close>.
\<close>

fun match_triple :: "string \<Rightarrow> string option" where
  "match_triple [] = None"
| "match_triple (c # cs) =
     (case match_here (c # cs) of
        Some m \<Rightarrow> Some m
      | None \<Rightarrow> match_triple cs)"

text \<open>
  \<^verbatim>\<open>return match ? semiver(match[0], compare) >= 0 : false;\<close>

  \<open>semiver\<close> is a package this repository imports; its code is not part of the
  repository, so the comparator is a parameter of the model.
\<close>

definition semiverComply :: "(string \<Rightarrow> string \<Rightarrow> int) \<Rightarrow> string \<Rightarrow> string \<Rightarrow> bool" where
  "semiverComply semiver version compare =
     (case match_triple version of
        Some m \<Rightarrow> semiver m compare \<ge> 0
      | None \<Rightarrow> False)"

subsection \<open>What the specification says about versions\<close>

text \<open>
  A dotted triple of digits, \<open>\d+\.\d+\.\d+\<close>, said directly: three non-empty runs of
  digits with one dot between them.
\<close>

fun split_dot :: "string \<Rightarrow> string list" where
  "split_dot [] = [[]]"
| "split_dot (c # cs) =
     (if c = CHR ''.'' then [] # split_dot cs
      else (case split_dot cs of
              [] \<Rightarrow> [[c]]
            | p # ps \<Rightarrow> (c # p) # ps))"

definition digits :: "string \<Rightarrow> bool" where
  "digits s = (s \<noteq> [] \<and> list_all digit s)"

definition triple :: "string \<Rightarrow> bool" where
  "triple t = (case split_dot t of
                 [a, b, c] \<Rightarrow> digits a \<and> digits b \<and> digits c
               | _ \<Rightarrow> False)"

text \<open>The numeric value of a run of digits, and of a dotted triple.\<close>

definition digit_val :: "char \<Rightarrow> nat" where
  "digit_val c = of_char c - 48"

definition number :: "string \<Rightarrow> nat" where
  "number s = foldl (\<lambda>n c. 10 * n + digit_val c) 0 s"

definition parse_version :: "string \<Rightarrow> (nat \<times> nat \<times> nat) option" where
  "parse_version t =
     (if triple t
      then (case split_dot t of
              [a, b, c] \<Rightarrow> Some (number a, number b, number c)
            | _ \<Rightarrow> None)
      else None)"

definition compare_nat :: "nat \<Rightarrow> nat \<Rightarrow> int" where
  "compare_nat a b = (if a < b then - 1 else if a = b then 0 else 1)"

fun compare_version :: "nat \<times> nat \<times> nat \<Rightarrow> nat \<times> nat \<times> nat \<Rightarrow> int" where
  "compare_version (a, b, c) (x, y, z) =
     (if compare_nat a x \<noteq> 0 then compare_nat a x
      else if compare_nat b y \<noteq> 0 then compare_nat b y
      else compare_nat c z)"

fun version_ge :: "nat \<times> nat \<times> nat \<Rightarrow> nat \<times> nat \<times> nat \<Rightarrow> bool" where
  "version_ge (a, b, c) (x, y, z) =
     (a > x \<or> (a = x \<and> (b > y \<or> (b = y \<and> c \<ge> z))))"

text \<open>
  Modelled from the spec: the package \<open>semiver\<close> is imported by the runner and its code
  is not in the repository.  The specification (4.1) describes it as "a standard
  three-component numeric version comparison"; \<open>numeric_comparator\<close> is that contract
  for a comparator, on the arguments where it has a meaning, two dotted triples.
\<close>

definition numeric_comparator :: "(string \<Rightarrow> string \<Rightarrow> int) \<Rightarrow> bool" where
  "numeric_comparator semiver =
     (\<forall>t m v w. parse_version t = Some v \<and> parse_version m = Some w \<longrightarrow>
        semiver t m = compare_version v w)"

text \<open>
  Modelled from the spec: one comparator that meets the contract.  The specification is
  silent on arguments that are not dotted triples; this instance answers \<open>- 1\<close> there.
  The theorems are stated for an arbitrary comparator and do not depend on that answer.
\<close>

definition semiver_numeric :: "string \<Rightarrow> string \<Rightarrow> int" where
  "semiver_numeric a b =
     (case (parse_version a, parse_version b) of
        (Some v, Some w) \<Rightarrow> compare_version v w
      | _ \<Rightarrow> - 1)"

text \<open>
  "The first dotted triple found anywhere in \<open>discovered\<close>": an occurrence of a triple
  such that no triple starts further left, and no triple starting at the same place is
  longer.
\<close>

definition contains_triple :: "string \<Rightarrow> bool" where
  "contains_triple s = (\<exists>t. sublist t s \<and> triple t)"

definition first_triple :: "string \<Rightarrow> string \<Rightarrow> bool" where
  "first_triple s t =
     (triple t \<and>
      (\<exists>pre post. s = pre @ t @ post \<and>
         (\<forall>pre' t' post'. s = pre' @ t' @ post' \<and> triple t' \<longrightarrow>
            length pre < length pre' \<or>
            (length pre = length pre' \<and> length t' \<le> length t))))"


subsection \<open>What the runner yields and throws\<close>

text \<open>
  Modelled from the spec: the module \<open>./logger\<close> is not under \<open>src/\<close>.  The runner only
  builds values with its functions and yields or throws them, so each function is a
  constructor named after it.  In the words of the specification (3), \<open>runningTask\<close>,
  \<open>completedTask\<close> and \<open>failedTask\<close> are the CheckOutcome variants Running(label),
  Completed(label, final) and Failed(label); \<open>completedTask\<close> called with the label
  alone has final = false.  \<open>title\<close> is the heading and \<open>success\<close> the success sentinel.
\<close>

datatype event =
    title string string
  | runningTask string
  | completedTask string bool
  | failedTask string
  | success

text \<open>
  Modelled from the spec: a thrown value is an exception of a collaborator, or one of the
  two PipelineError variants (3): \<open>errorMessage\<close> is UserError(message) and
  \<open>externalError\<close> is ExternalError(message, cause).
\<close>

datatype 'x thrown =
    exception 'x
  | errorMessage string
  | externalError string "'x thrown"

text \<open>
  The steps of a run, in the order the generator performs them: an event handed to the
  consumer, a timer of the pacing delay, and the three awaited calls to the outside.
\<close>

datatype step =
    Yield event
  | Sleep nat
  | ReadFile string
  | LoadConfig
  | LoadIntrospection

text \<open>A piece of the generator's body: the steps it performs, then a throw or a value.\<close>

type_synonym ('x, 'a) gen = "step list \<times> ('x thrown + 'a)"

definition pure :: "'a \<Rightarrow> ('x, 'a) gen" where
  "pure a = ([], Inr a)"

definition yield :: "event \<Rightarrow> ('x, unit) gen" where
  "yield e = ([Yield e], Inr ())"

definition throw :: "'x thrown \<Rightarrow> ('x, 'a) gen" where
  "throw x = ([], Inl x)"

definition raised :: "'x + 'a \<Rightarrow> 'x thrown + 'a" where
  "raised r = (case r of Inl x \<Rightarrow> Inl (exception x) | Inr a \<Rightarrow> Inr a)"

definition call :: "'x + 'a \<Rightarrow> ('x, 'a) gen" where
  "call r = ([], raised r)"

definition await :: "step \<Rightarrow> 'x + 'a \<Rightarrow> ('x, 'a) gen" where
  "await s r = ([s], raised r)"

definition bind :: "('x, 'a) gen \<Rightarrow> ('a \<Rightarrow> ('x, 'b) gen) \<Rightarrow> ('x, 'b) gen" where
  "bind m f =
     (case m of
        (t, Inl x) \<Rightarrow> (t, Inl x)
      | (t, Inr a) \<Rightarrow> (case f a of (t', r) \<Rightarrow> (t @ t', r)))"

definition try_catch :: "('x, 'a) gen \<Rightarrow> ('x thrown \<Rightarrow> ('x, 'a) gen) \<Rightarrow> ('x, 'a) gen" where
  "try_catch m h =
     (case m of
        (t, Inl x) \<Rightarrow> (case h x of (t', r) \<Rightarrow> (t @ t', r))
      | (t, Inr a) \<Rightarrow> (t, Inr a))"

fun events :: "step list \<Rightarrow> event list" where
  "events [] = []"
| "events (Yield e # t) = e # events t"
| "events (_ # t) = events t"

subsection \<open>The collaborators\<close>

text \<open>
  The manifest as the runner declares it:
  \<^verbatim>\<open>{ dependencies: Record<string, string>; devDependencies: Record<string, string> }\<close>.
  An object is the list of its entries, in the order \<open>Object.entries\<close> gives them.
\<close>

type_synonym object = "(string \<times> string) list"

record package_json =
  dependencies :: object
  devDependencies :: object

text \<open>
  Modelled from the spec: the types \<open>LoadConfigResult\<close> and \<open>GraphQLSPConfig\<close> of
  \<open>@gql.tada/internal\<close> are not under \<open>src/\<close>.  The specification (6) gives
  \<open>loadConfig() -> { pluginConfigRaw, configPath }\<close> and
  \<open>parseConfig(raw) -> { schema?: string | object, ... }\<close>; the runner reads the fields
  \<open>pluginConfig\<close>, \<open>configPath\<close> and \<open>schema\<close>.
\<close>

record 'r LoadConfigResult =
  pluginConfig :: 'r
  configPath :: string

datatype 'o schema_origin = SchemaString string | SchemaObject 'o

record 'o GraphQLSPConfig =
  schema :: "'o schema_origin option"

text \<open>
  Modelled from the spec: \<open>load({ origin, rootPath }) -> loader\<close> and
  \<open>loader.loadIntrospection() -> schema-data | absent\<close>, which may fail (6).
\<close>

record ('x, 'i) loader =
  loadIntrospection :: "'x + 'i option"

text \<open>
  Everything the runner reads from outside: the process (\<open>process.env.CI\<close>,
  \<open>process.cwd()\<close>), \<open>node:path\<close>, \<open>node:fs/promises\<close>, \<open>JSON.parse\<close>, \<open>semiver\<close>,
  \<open>@gql.tada/internal\<close>, and the three text decorations of \<open>./logger\<close>.  A call that
  can throw returns \<open>Inl\<close> of what it throws.
\<close>

record ('x, 'r, 'o, 'i) env =
  CI :: "string option"
  cwd :: string
  resolve :: "string list \<Rightarrow> string"
  dirname :: "string \<Rightarrow> string"
  readFile :: "string \<Rightarrow> 'x + string"
  JSON_parse :: "string \<Rightarrow> 'x + package_json"
  semiver :: "string \<Rightarrow> string \<Rightarrow> int"
  loadConfig :: "'x + 'r LoadConfigResult"
  parseConfig :: "'r \<Rightarrow> 'x + 'o GraphQLSPConfig"
  load :: "'o schema_origin option \<Rightarrow> string \<Rightarrow> ('x, 'i) loader"
  code :: "string \<Rightarrow> string"
  hint :: "string \<Rightarrow> string"
  bold :: "string \<Rightarrow> string"

subsection \<open>JavaScript in the runner\<close>

text \<open>Truthiness: of \<open>process.env.CI\<close>, a string or undefined, and of \<open>schema\<close>.\<close>

fun truthy_string :: "string option \<Rightarrow> bool" where
  "truthy_string None = False"
| "truthy_string (Some s) = (s \<noteq> [])"

fun truthy_schema :: "'o schema_origin option \<Rightarrow> bool" where
  "truthy_schema None = False"
| "truthy_schema (Some (SchemaString s)) = (s \<noteq> [])"
| "truthy_schema (Some (SchemaObject _)) = True"

text \<open>
  \<^verbatim>\<open>{ ...a, ...b }\<close>: the properties of each source are copied in turn into a new
  object; a key already there keeps its place and takes the new value, a new key goes to
  the end.  (JavaScript lists keys that look like array indices first; package names are
  looked up by key below, so their order plays no part.)
\<close>

definition assign :: "object \<Rightarrow> object \<Rightarrow> object" where
  "assign target source = foldl (\<lambda>acc (k, v). AList.update k v acc) target source"

definition spread :: "object list \<Rightarrow> object" where
  "spread sources = foldl assign [] sources"

text \<open>An object has each key once.\<close>

definition is_object :: "object \<Rightarrow> bool" where
  "is_object obj = distinct (map fst obj)"

definition Object_entries :: "object \<Rightarrow> (string \<times> string) list" where
  "Object_entries obj = obj"

subsection \<open>The runner\<close>

text \<open>
  \<^verbatim>\<open>const delay = (ms = 700) => { if (process.env.CI) { return Promise.resolve(); }
     else { return new Promise((resolve) => { setTimeout(resolve, ms); }); } };\<close>
  Every call in the runner is \<open>delay()\<close>, that is \<open>delay 700\<close>.
\<close>

definition delay :: "('x, 'r, 'o, 'i) env \<Rightarrow> nat \<Rightarrow> ('x, unit) gen" where
  "delay env ms = (if truthy_string (CI env) then pure () else ([Sleep ms], Inr ()))"

definition TITLE :: string where "TITLE = ''Doctor''"
definition DESCRIPTION :: string where "DESCRIPTION = ''Detects problems with your setup''"
definition CHECK_TS_VERSION :: string where "CHECK_TS_VERSION = ''Checking TypeScript version''"
definition CHECK_DEPENDENCIES :: string where "CHECK_DEPENDENCIES = ''Checking installed dependencies''"
definition CHECK_TSCONFIG :: string where "CHECK_TSCONFIG = ''Checking tsconfig.json''"
definition CHECK_SCHEMA :: string where "CHECK_SCHEMA = ''Checking schema''"

record minimum_versions =
  typescript :: string
  tada :: string
  lsp :: string

definition MINIMUM_VERSIONS :: minimum_versions where
  "MINIMUM_VERSIONS = \<lparr>typescript = ''4.1.0'', tada = ''1.0.0'', lsp = ''1.0.0''\<rparr>"

text \<open>The twelve messages, as the template strings of the runner build them.\<close>

definition msg_no_manifest :: "('x, 'r, 'o, 'i) env \<Rightarrow> string" where
  "msg_no_manifest env =
     ''A '' @ code env ''package.json''
       @ '' file was not found in the current working directory.\<newline>''
       @ hint env ''Try running the doctor command in your workspace folder.''"

definition msg_no_typescript :: "('x, 'r, 'o, 'i) env \<Rightarrow> string" where
  "msg_no_typescript env =
     ''A version of '' @ code env ''typescript''
       @ '' was not found in your dependencies.\<newline>''
       @ hint env (''Is '' @ code env ''typescript'' @ '' installed in this package?'')"

definition msg_old_typescript :: "('x, 'r, 'o, 'i) env \<Rightarrow> string" where
  "msg_old_typescript env =
     ''The version of '' @ code env ''typescript''
       @ '' in your dependencies is out of date.\<newline>''
       @ hint env (code env ''gql.tada'' @ '' requires at least ''
                     @ bold env (typescript MINIMUM_VERSIONS))"

definition msg_no_graphqlsp :: "('x, 'r, 'o, 'i) env \<Rightarrow> string" where
  "msg_no_graphqlsp env =
     ''A version of '' @ code env ''@0no-co/graphqlsp''
       @ '' was not found in your dependencies.\<newline>''
       @ hint env (''Is '' @ code env ''@0no-co/graphqlsp'' @ '' installed?'')"

definition msg_old_graphqlsp :: "('x, 'r, 'o, 'i) env \<Rightarrow> string" where
  "msg_old_graphqlsp env =
     ''The version of '' @ code env ''@0no-co/graphqlsp''
       @ '' in your dependencies is out of date.\<newline>''
       @ hint env (code env ''gql.tada'' @ '' requires at least ''
                     @ bold env (lsp MINIMUM_VERSIONS))"

definition msg_no_tada :: "('x, 'r, 'o, 'i) env \<Rightarrow> string" where
  "msg_no_tada env =
     ''A version of '' @ code env ''gql.tada''
       @ '' was not found in your dependencies.\<newline>''
       @ hint env (''Is '' @ code env ''gql.tada'' @ '' installed?'')"

definition msg_old_tada :: "('x, 'r, 'o, 'i) env \<Rightarrow> string" where
  "msg_old_tada env =
     ''The version of '' @ code env ''gql.tada''
       @ '' in your dependencies is out of date.\<newline>''
       @ hint env (''It's recommended to upgrade '' @ code env ''gql.tada''
                     @ '' to at least '' @ bold env (lsp MINIMUM_VERSIONS))"

definition msg_no_tsconfig :: "('x, 'r, 'o, 'i) env \<Rightarrow> string" where
  "msg_no_tsconfig env =
     ''A '' @ code env ''tsconfig.json''
       @ '' file was not found in the current working directory.''"

definition msg_invalid_config :: "('x, 'r, 'o, 'i) env \<Rightarrow> string" where
  \<open>msg_invalid_config env =
     ''The plugin configuration for '' @ code env ''"@0no-co/graphqlsp"''
       @ '' seems to be invalid.''\<close>

definition msg_no_schema :: "('x, 'r, 'o, 'i) env \<Rightarrow> string" where
  \<open>msg_no_schema env =
     ''No '' @ code env ''"schema"''
       @ '' option was found in your configuration.\<newline>''
       @ hint env ''Have you specified your SDL file or URL in your configuration yet?''\<close>

definition msg_load_failed :: string where
  "msg_load_failed = ''Failed to load schema.''"


text \<open>
  \<^verbatim>\<open>const deps = Object.entries({ ...packageJsonContents.dependencies,
     ...packageJsonContents.devDependencies });\<close>
\<close>

definition dependency_entries :: "package_json \<Rightarrow> (string \<times> string) list" where
  "dependency_entries packageJsonContents =
     Object_entries (spread [dependencies packageJsonContents,
                             devDependencies packageJsonContents])"

text \<open>
  The body of \<open>run\<close> is cut at its four checks; each part begins where the runner yields
  \<open>runningTask\<close> for the check and ends where it yields \<open>completedTask\<close> for it.

  Lines 45 to 90, the TypeScript version.  The part hands \<open>deps\<close> on.
\<close>

definition check_ts_version ::
  "('x, 'r, 'o, 'i) env \<Rightarrow> ('x, (string \<times> string) list) gen" where
  "check_ts_version env =
     bind (yield (runningTask CHECK_TS_VERSION)) (\<lambda>_.
     bind (delay env 700) (\<lambda>_.
     let packageJsonPath = resolve env [cwd env, ''package.json''] in
     bind (try_catch
             (let file = resolve env [packageJsonPath] in
              bind (await (ReadFile file) (readFile env file)) (\<lambda>contents.
              call (JSON_parse env contents)))
             (\<lambda>error.
                bind (yield (failedTask CHECK_TS_VERSION)) (\<lambda>_.
                throw (errorMessage (msg_no_manifest env))))) (\<lambda>packageJsonContents.
     let deps = dependency_entries packageJsonContents in
     let typeScriptVersion = find (\<lambda>x. fst x = ''typescript'') deps in
     bind (case typeScriptVersion of
             None \<Rightarrow>
               bind (yield (failedTask CHECK_TS_VERSION)) (\<lambda>_.
               throw (errorMessage (msg_no_typescript env)))
           | Some v \<Rightarrow>
               if \<not> semiverComply (semiver env) (snd v) (typescript MINIMUM_VERSIONS)
               then bind (yield (failedTask CHECK_TS_VERSION)) (\<lambda>_.
                    throw (errorMessage (msg_old_typescript env)))
               else pure ()) (\<lambda>_.
     bind (yield (completedTask CHECK_TS_VERSION False)) (\<lambda>_.
     pure deps)))))"

text \<open>Lines 91 to 130, the installed dependencies.\<close>

definition check_dependencies ::
  "('x, 'r, 'o, 'i) env \<Rightarrow> (string \<times> string) list \<Rightarrow> ('x, unit) gen" where
  "check_dependencies env deps =
     bind (yield (runningTask CHECK_DEPENDENCIES)) (\<lambda>_.
     bind (delay env 700) (\<lambda>_.
     let gqlspVersion = find (\<lambda>x. fst x = ''@0no-co/graphqlsp'') deps in
     bind (case gqlspVersion of
             None \<Rightarrow>
               bind (yield (failedTask CHECK_DEPENDENCIES)) (\<lambda>_.
               throw (errorMessage (msg_no_graphqlsp env)))
           | Some v \<Rightarrow>
               if \<not> semiverComply (semiver env) (snd v) (lsp MINIMUM_VERSIONS)
               then bind (yield (failedTask CHECK_DEPENDENCIES)) (\<lambda>_.
                    throw (errorMessage (msg_old_graphqlsp env)))
               else pure ()) (\<lambda>_.
     let gqlTadaVersion = find (\<lambda>x. fst x = ''gql.tada'') deps in
     bind (case gqlTadaVersion of
             None \<Rightarrow>
               bind (yield (failedTask CHECK_DEPENDENCIES)) (\<lambda>_.
               throw (errorMessage (msg_no_tada env)))
           | Some v \<Rightarrow>
               if \<not> semiverComply (semiver env) (snd v) ''1.0.0''
               then bind (yield (failedTask CHECK_DEPENDENCIES)) (\<lambda>_.
                    throw (errorMessage (msg_old_tada env)))
               else pure ()) (\<lambda>_.
     yield (completedTask CHECK_DEPENDENCIES False)))))"

text \<open>
  Lines 131 to 163, the configuration.  The part hands \<open>configResult\<close> and the parsed
  plugin configuration on; the latter is \<open>pluginConfig'\<close> here, \<open>pluginConfig\<close> being
  the field of \<open>configResult\<close>.
\<close>

definition check_tsconfig ::
  "('x, 'r, 'o, 'i) env \<Rightarrow> ('x, 'r LoadConfigResult \<times> 'o GraphQLSPConfig) gen" where
  "check_tsconfig env =
     bind (yield (runningTask CHECK_TSCONFIG)) (\<lambda>_.
     bind (delay env 700) (\<lambda>_.
     bind (try_catch
             (await LoadConfig (loadConfig env))
             (\<lambda>error.
                bind (yield (failedTask CHECK_TSCONFIG)) (\<lambda>_.
                throw (externalError (msg_no_tsconfig env) error)))) (\<lambda>configResult.
     bind (try_catch
             (call (parseConfig env (pluginConfig configResult)))
             (\<lambda>error.
                throw (externalError (msg_invalid_config env) error))) (\<lambda>pluginConfig'.
     bind (if \<not> truthy_schema (schema pluginConfig')
           then bind (yield (failedTask CHECK_TSCONFIG)) (\<lambda>_.
                throw (errorMessage (msg_no_schema env)))
           else pure ()) (\<lambda>_.
     bind (yield (completedTask CHECK_TSCONFIG False)) (\<lambda>_.
     pure (configResult, pluginConfig')))))))"

text \<open>
  Lines 164 to 185, the schema.  \<open>!!(await loader.loadIntrospection())\<close> is true when
  the loader gives schema data and false when it gives nothing.
\<close>

definition check_schema ::
  "('x, 'r, 'o, 'i) env \<Rightarrow> 'r LoadConfigResult \<Rightarrow> 'o GraphQLSPConfig \<Rightarrow> ('x, unit) gen" where
  "check_schema env configResult pluginConfig' =
     bind (yield (runningTask CHECK_SCHEMA)) (\<lambda>_.
     bind (delay env 700) (\<lambda>_.
     let loader = load env (schema pluginConfig') (dirname env (configPath configResult)) in
     bind (try_catch
             (bind (await LoadIntrospection (loadIntrospection loader)) (\<lambda>introspection.
              pure (introspection \<noteq> None)))
             (\<lambda>error.
                throw (externalError msg_load_failed error))) (\<lambda>hasSchema.
     bind (if \<not> hasSchema then throw (errorMessage msg_load_failed) else pure ()) (\<lambda>_.
     bind (yield (completedTask CHECK_SCHEMA True)) (\<lambda>_.
     bind (delay env 700) (\<lambda>_.
     yield success))))))"

definition run :: "('x, 'r, 'o, 'i) env \<Rightarrow> ('x, unit) gen" where
  "run env =
     bind (yield (title TITLE DESCRIPTION)) (\<lambda>_.
     bind (check_ts_version env) (\<lambda>deps.
     bind (check_dependencies env deps) (\<lambda>_.
     bind (check_tsconfig env) (\<lambda>(configResult, pluginConfig').
     check_schema env configResult pluginConfig'))))"


subsection \<open>Vocabulary for the statements\<close>

text \<open>The file the runner reads, and the steps of one pacing delay.\<close>

definition packageJsonFile :: "('x, 'r, 'o, 'i) env \<Rightarrow> string" where
  "packageJsonFile env = resolve env [resolve env [cwd env, ''package.json'']]"

definition pacing :: "('x, 'r, 'o, 'i) env \<Rightarrow> step list" where
  "pacing env = fst (delay env 700 :: ('x, unit) gen)"

text \<open>
  The manifest the \<open>try\<close> block of check 1 obtains: nothing when \<open>fs.readFile\<close> rejects
  or \<open>JSON.parse\<close> throws.
\<close>

definition manifest :: "('x, 'r, 'o, 'i) env \<Rightarrow> package_json option" where
  "manifest env =
     (case readFile env (packageJsonFile env) of
        Inl _ \<Rightarrow> None
      | Inr contents \<Rightarrow>
          (case JSON_parse env contents of
             Inl _ \<Rightarrow> None
           | Inr packageJsonContents \<Rightarrow> Some packageJsonContents))"

text \<open>A package passes when it has an entry and the entry's version complies.\<close>

definition package_found :: "(string \<times> string) list \<Rightarrow> string \<Rightarrow> bool" where
  "package_found deps name = (find (\<lambda>x. fst x = name) deps \<noteq> None)"

definition package_complies ::
  "('x, 'r, 'o, 'i) env \<Rightarrow> (string \<times> string) list \<Rightarrow> string \<Rightarrow> string \<Rightarrow> bool" where
  "package_complies env deps name minimum =
     (case find (\<lambda>x. fst x = name) deps of
        None \<Rightarrow> False
      | Some v \<Rightarrow> semiverComply (semiver env) (snd v) minimum)"

text \<open>
  The DependencyMap of the specification (3): from package name to declared version
  string, the regular and the development dependencies merged, the later source, the
  development dependencies, winning where both have the name.
\<close>

definition DependencyMap :: "package_json \<Rightarrow> string \<rightharpoonup> string" where
  "DependencyMap p = map_of (dependencies p) ++ map_of (devDependencies p)"

text \<open>What it is for each of the four checks to succeed.\<close>

definition ts_version_ok :: "('x, 'r, 'o, 'i) env \<Rightarrow> bool" where
  "ts_version_ok env =
     (case manifest env of
        None \<Rightarrow> False
      | Some p \<Rightarrow>
          package_complies env (dependency_entries p) ''typescript''
            (typescript MINIMUM_VERSIONS))"

definition dependencies_ok :: "('x, 'r, 'o, 'i) env \<Rightarrow> bool" where
  "dependencies_ok env =
     (case manifest env of
        None \<Rightarrow> False
      | Some p \<Rightarrow>
          package_complies env (dependency_entries p) ''@0no-co/graphqlsp''
            (lsp MINIMUM_VERSIONS)
          \<and> package_complies env (dependency_entries p) ''gql.tada'' ''1.0.0'')"

definition tsconfig_ok :: "('x, 'r, 'o, 'i) env \<Rightarrow> bool" where
  "tsconfig_ok env =
     (case loadConfig env of
        Inl _ \<Rightarrow> False
      | Inr configResult \<Rightarrow>
          (case parseConfig env (pluginConfig configResult) of
             Inl _ \<Rightarrow> False
           | Inr pluginConfig' \<Rightarrow> truthy_schema (schema pluginConfig')))"

text \<open>What the schema loader answers for the configuration the resolver found.\<close>

definition introspection :: "('x, 'r, 'o, 'i) env \<Rightarrow> ('x + 'i option) option" where
  "introspection env =
     (case loadConfig env of
        Inl _ \<Rightarrow> None
      | Inr configResult \<Rightarrow>
          (case parseConfig env (pluginConfig configResult) of
             Inl _ \<Rightarrow> None
           | Inr pluginConfig' \<Rightarrow>
               Some (loadIntrospection
                       (load env (schema pluginConfig')
                          (dirname env (configPath configResult))))))"

definition schema_ok :: "('x, 'r, 'o, 'i) env \<Rightarrow> bool" where
  "schema_ok env =
     (case introspection env of
        Some (Inr (Some _)) \<Rightarrow> True
      | _ \<Rightarrow> False)"

text \<open>The events of a run and the way it ends.\<close>

definition run_events :: "('x, 'r, 'o, 'i) env \<Rightarrow> event list" where
  "run_events env = events (fst (run env))"

definition run_outcome :: "('x, 'r, 'o, 'i) env \<Rightarrow> 'x thrown + unit" where
  "run_outcome env = snd (run env)"

text \<open>
  The lifecycle of one check in a list of events, as the specification (3) puts it:
  Running, then exactly one of Completed and Failed, and nothing more about the check.
  A check that never started has no event at all.
\<close>

fun concerns :: "string \<Rightarrow> event \<Rightarrow> bool" where
  "concerns l (runningTask l') = (l = l')"
| "concerns l (completedTask l' _) = (l = l')"
| "concerns l (failedTask l') = (l = l')"
| "concerns l _ = False"

fun terminal :: "string \<Rightarrow> event \<Rightarrow> bool" where
  "terminal l (completedTask l' _) = (l = l')"
| "terminal l (failedTask l') = (l = l')"
| "terminal l _ = False"

definition lifecycle :: "string \<Rightarrow> event list \<Rightarrow> bool" where
  "lifecycle l es =
     (case filter (concerns l) es of
        [] \<Rightarrow> True
      | [r, t] \<Rightarrow> r = runningTask l \<and> terminal l t
      | _ \<Rightarrow> False)"

text \<open>
  One check at a time: reading the events from the left, Running is only yielded while no
  check is running, and Completed or Failed only for the check that is running.
\<close>

fun sequential :: "string option \<Rightarrow> event list \<Rightarrow> bool" where
  "sequential cur [] = True"
| "sequential cur (title _ _ # es) = sequential cur es"
| "sequential cur (success # es) = sequential cur es"
| "sequential cur (runningTask l # es) = (cur = None \<and> sequential (Some l) es)"
| "sequential cur (completedTask l _ # es) = (cur = Some l \<and> sequential None es)"
| "sequential cur (failedTask l # es) = (cur = Some l \<and> sequential None es)"

text \<open>The steps of a run that are not timers of the pacing delay.\<close>

fun is_Sleep :: "step \<Rightarrow> bool" where
  "is_Sleep (Sleep _) = True"
| "is_Sleep _ = False"

definition unpaced :: "step list \<Rightarrow> step list" where
  "unpaced t = filter (\<lambda>s. \<not> is_Sleep s) t"

subsection \<open>An environment to run in\<close>

text \<open>
  A project in \<open>/workspace\<close> whose manifest declares the three packages, with a
  configuration that names a schema and a schema that loads.
\<close>

definition example_manifest :: package_json where
  "example_manifest =
     \<lparr>dependencies = [(''gql.tada'', ''^1.0.3''), (''typescript'', ''3.9.0'')],
      devDependencies = [(''typescript'', ''^5.3.3''), (''@0no-co/graphqlsp'', ''~1.1.0'')]\<rparr>"

definition example_env :: "(string, string, unit, string) env" where
  "example_env =
     \<lparr>CI = None,
      cwd = ''/workspace'',
      resolve = (\<lambda>segments. case segments of
                   [dir, name] \<Rightarrow> dir @ ''/'' @ name
                 | [file] \<Rightarrow> file
                 | _ \<Rightarrow> []),
      dirname = (\<lambda>file. ''/workspace''),
      readFile = (\<lambda>file. if file = ''/workspace/package.json''
                          then Inr ''manifest'' else Inl ''ENOENT''),
      JSON_parse = (\<lambda>contents. if contents = ''manifest''
                                then Inr example_manifest else Inl ''SyntaxError''),
      semiver = semiver_numeric,
      loadConfig = Inr \<lparr>pluginConfig = ''plugin'', configPath = ''/workspace/tsconfig.json''\<rparr>,
      parseConfig = (\<lambda>raw. Inr \<lparr>schema = Some (SchemaString ''./schema.graphql'')\<rparr>),
      load = (\<lambda>origin rootPath. \<lparr>loadIntrospection = Inr (Some ''introspection'')\<rparr>),
      code = (\<lambda>s. s),
      hint = (\<lambda>s. s),
      bold = (\<lambda>s. s)\<rparr>"

text \<open>The same project with another manifest.\<close>

definition example_project :: "package_json \<Rightarrow> (string, string, unit, string) env" where
  "example_project m = example_env\<lparr>JSON_parse := (\<lambda>contents. Inr m)\<rparr>"

section \<open>Properties of the version comparator\<close>

lemma digit_dot [simp]: "\<not> digit (CHR ''.'')"
  by (simp add: digit_def)

lemma digits_no_dot: "digits a \<Longrightarrow> CHR ''.'' \<notin> set a"
  by (auto simp: digits_def list_all_iff)

lemma split_dot_not_Nil [simp]: "split_dot s \<noteq> []"
  by (induction s) (auto split: list.splits)

lemma split_dot_append: "CHR ''.'' \<notin> set a \<Longrightarrow> split_dot (a @ CHR ''.'' # r) = a # split_dot r"
  by (induction a) (auto split: list.splits)

lemma split_dot_single: "CHR ''.'' \<notin> set a \<Longrightarrow> split_dot a = [a]"
  by (induction a) (auto split: list.splits)

lemma split_dot_Cons:
  "split_dot s = a # rest \<Longrightarrow>
     CHR ''.'' \<notin> set a \<and>
     (if rest = [] then s = a else (\<exists>r. s = a @ CHR ''.'' # r \<and> split_dot r = rest))"
proof (induction s arbitrary: a rest)
  case Nil
  then show ?case by simp
next
  case (Cons c cs)
  show ?case
  proof (cases "c = CHR ''.''")
    case True
    with Cons.prems show ?thesis by auto
  next
    case False
    then obtain p ps where sp: "split_dot cs = p # ps" and a: "a = c # p" and r: "rest = ps"
      using Cons.prems by (auto split: list.splits)
    from Cons.IH[OF sp] show ?thesis using False a r by auto
  qed
qed

lemma triple_iff:
  "triple t \<longleftrightarrow> (\<exists>a b c. digits a \<and> digits b \<and> digits c \<and> t = a @ CHR ''.'' # b @ CHR ''.'' # c)"
proof
  assume "triple t"
  then obtain a b c where s: "split_dot t = [a, b, c]" and d: "digits a" "digits b" "digits c"
    by (auto simp: triple_def split: list.splits)
  from split_dot_Cons[OF s] obtain r where t: "t = a @ CHR ''.'' # r" and r: "split_dot r = [b, c]"
    by auto
  from split_dot_Cons[OF r] obtain r' where r': "r = b @ CHR ''.'' # r'" and c: "split_dot r' = [c]"
    by auto
  from split_dot_Cons[OF c] have "r' = c" by simp
  with t r' d show "\<exists>a b c. digits a \<and> digits b \<and> digits c \<and> t = a @ CHR ''.'' # b @ CHR ''.'' # c"
    by blast
next
  assume "\<exists>a b c. digits a \<and> digits b \<and> digits c \<and> t = a @ CHR ''.'' # b @ CHR ''.'' # c"
  then obtain a b c where d: "digits a" "digits b" "digits c" and t: "t = a @ CHR ''.'' # b @ CHR ''.'' # c"
    by blast
  have "split_dot t = [a, b, c]"
    using d t by (simp add: split_dot_append split_dot_single digits_no_dot)
  with d show "triple t" by (simp add: triple_def)
qed

lemma takeWhile_digits:
  "list_all digit a \<Longrightarrow> (r = [] \<or> \<not> digit (hd r)) \<Longrightarrow> takeWhile digit (a @ r) = a"
  by (induction a) (auto, cases r, auto)

lemma dropWhile_digits:
  "list_all digit a \<Longrightarrow> (r = [] \<or> \<not> digit (hd r)) \<Longrightarrow> dropWhile digit (a @ r) = r"
  by (induction a) (auto, cases r, auto)

lemma takeWhile_digits_more:
  "list_all digit a \<Longrightarrow> takeWhile digit (a @ r) = a @ takeWhile digit r"
  by (induction a) auto

lemma match_here_triple:
  assumes "digits a" "digits b" "digits c"
  shows "match_here (a @ CHR ''.'' # b @ CHR ''.'' # c @ r)
           = Some (a @ CHR ''.'' # b @ CHR ''.'' # c @ takeWhile digit r)"
proof -
  have a: "takeWhile digit (a @ CHR ''.'' # b @ CHR ''.'' # c @ r) = a"
      "dropWhile digit (a @ CHR ''.'' # b @ CHR ''.'' # c @ r) = CHR ''.'' # b @ CHR ''.'' # c @ r"
    using assms(1) by (simp_all add: takeWhile_digits dropWhile_digits digits_def)
  have b: "takeWhile digit (b @ CHR ''.'' # c @ r) = b"
      "dropWhile digit (b @ CHR ''.'' # c @ r) = CHR ''.'' # c @ r"
    using assms(2) by (simp_all add: takeWhile_digits dropWhile_digits digits_def)
  have c: "takeWhile digit (c @ r) = c @ takeWhile digit r"
    using assms(3) by (simp add: takeWhile_digits_more digits_def)
  show ?thesis
    using assms by (simp add: match_here_def a b c digits_def)
qed

lemma match_here_Some:
  assumes "match_here s = Some m"
  shows "\<exists>a b c r. digits a \<and> digits b \<and> digits c \<and> m = a @ CHR ''.'' # b @ CHR ''.'' # c
            \<and> s = m @ r \<and> (r = [] \<or> \<not> digit (hd r))"
proof -
  define d1 where "d1 = takeWhile digit s"
  define r1 where "r1 = dropWhile digit s"
  have s1: "s = d1 @ r1" by (simp add: d1_def r1_def)
  from assms have n1: "d1 \<noteq> []"
    by (auto simp: match_here_def d1_def Let_def split: if_splits)
  from assms n1 obtain s2 where r1: "r1 = CHR ''.'' # s2"
    by (auto simp: match_here_def d1_def r1_def Let_def split: if_splits list.splits)
  define d2 where "d2 = takeWhile digit s2"
  define r2 where "r2 = dropWhile digit s2"
  have s2: "s2 = d2 @ r2" by (simp add: d2_def r2_def)
  from assms n1 r1 have n2: "d2 \<noteq> []"
    by (auto simp: match_here_def d1_def[symmetric] r1_def[symmetric] d2_def Let_def split: if_splits)
  from assms n1 r1 n2 obtain s3 where r2: "r2 = CHR ''.'' # s3"
    by (auto simp: match_here_def d1_def[symmetric] r1_def[symmetric] d2_def[symmetric] r2_def[symmetric]
        Let_def split: if_splits list.splits)
  define d3 where "d3 = takeWhile digit s3"
  define r3 where "r3 = dropWhile digit s3"
  have s3: "s3 = d3 @ r3" by (simp add: d3_def r3_def)
  from assms n1 r1 n2 r2 have n3: "d3 \<noteq> []" and m: "m = d1 @ CHR ''.'' # d2 @ CHR ''.'' # d3"
    by (auto simp: match_here_def d1_def[symmetric] r1_def[symmetric] d2_def[symmetric] r2_def[symmetric]
        d3_def[symmetric] Let_def split: if_splits)
  have dd: "digits d1" "digits d2" "digits d3"
    using n1 n2 n3 by (auto simp: digits_def d1_def d2_def d3_def list_all_iff dest: set_takeWhileD)
  have r3: "r3 = [] \<or> \<not> digit (hd r3)"
    unfolding r3_def by (metis hd_dropWhile)
  have "s = m @ r3" using s1 r1 s2 r2 s3 m by simp
  with dd m r3 show ?thesis by blast
qed


lemma match_here_prefix:
  assumes "triple t"
  shows "match_here (t @ post) = Some (t @ takeWhile digit post)"
proof -
  from assms obtain a b c where d: "digits a" "digits b" "digits c"
    and t: "t = a @ CHR ''.'' # b @ CHR ''.'' # c"
    by (auto simp: triple_iff)
  show ?thesis using match_here_triple[OF d, of post] t by simp
qed

lemma match_here_self: "triple t \<Longrightarrow> match_here t = Some t"
  using match_here_prefix[of t "[]"] by simp

lemma match_here_Some_triple:
  assumes "match_here s = Some m"
  shows "triple m" and "\<exists>r. s = m @ r"
  using match_here_Some[OF assms] by (auto simp: triple_iff)

lemma match_here_None_iff:
  "match_here s = None \<longleftrightarrow> (\<forall>t post. s = t @ post \<longrightarrow> \<not> triple t)"
proof
  assume n: "match_here s = None"
  show "\<forall>t post. s = t @ post \<longrightarrow> \<not> triple t"
  proof (intro allI impI notI)
    fix t post assume "s = t @ post" "triple t"
    then have "match_here s \<noteq> None" by (simp add: match_here_prefix)
    with n show False by simp
  qed
next
  assume a: "\<forall>t post. s = t @ post \<longrightarrow> \<not> triple t"
  show "match_here s = None"
  proof (cases "match_here s")
    case None then show ?thesis .
  next
    case (Some m)
    from match_here_Some_triple[OF Some] a show ?thesis by blast
  qed
qed

lemma triple_not_Nil: "triple t \<Longrightarrow> t \<noteq> []"
  by (auto simp: triple_iff)

lemma match_triple_None_iff:
  "match_triple s = None \<longleftrightarrow> (\<forall>pre t post. s = pre @ t @ post \<longrightarrow> \<not> triple t)"
proof (induction s)
  case Nil
  show ?case by (auto dest: triple_not_Nil)
next
  case (Cons c cs)
  show ?case
  proof
    assume n: "match_triple (c # cs) = None"
    then have h: "match_here (c # cs) = None" and r: "match_triple cs = None"
      by (auto split: option.splits)
    show "\<forall>pre t post. c # cs = pre @ t @ post \<longrightarrow> \<not> triple t"
    proof (intro allI impI)
      fix pre t post assume e: "c # cs = pre @ t @ post"
      show "\<not> triple t"
      proof (cases pre)
        case Nil
        with e h show ?thesis by (auto simp: match_here_None_iff)
      next
        case (Cons p ps)
        with e have "cs = ps @ t @ post" by simp
        with r Cons.IH show ?thesis by blast
      qed
    qed
  next
    assume a: "\<forall>pre t post. c # cs = pre @ t @ post \<longrightarrow> \<not> triple t"
    have h: "match_here (c # cs) = None"
      unfolding match_here_None_iff
    proof (intro allI impI)
      fix t post assume "c # cs = t @ post"
      then have "c # cs = [] @ t @ post" by simp
      with a show "\<not> triple t" by blast
    qed
    have "\<forall>pre t post. cs = pre @ t @ post \<longrightarrow> \<not> triple t"
    proof (intro allI impI)
      fix pre t post assume "cs = pre @ t @ post"
      then have "c # cs = (c # pre) @ t @ post" by simp
      with a show "\<not> triple t" by blast
    qed
    with Cons.IH have "match_triple cs = None" by simp
    with h show "match_triple (c # cs) = None" by simp
  qed
qed

lemma match_triple_None_contains: "match_triple s = None \<longleftrightarrow> \<not> contains_triple s"
  by (auto simp: match_triple_None_iff contains_triple_def sublist_def)

lemma match_triple_first: "match_triple s = Some m \<Longrightarrow> first_triple s m"
proof (induction s)
  case Nil
  then show ?case by simp
next
  case (Cons c cs)
  show ?case
  proof (cases "match_here (c # cs)")
    case (Some m')
    with Cons.prems have mm: "m' = m" by simp
    from match_here_Some_triple[OF Some] mm obtain r where tm: "triple m" and s: "c # cs = m @ r"
      by auto
    have "\<forall>pre' t' post'. c # cs = pre' @ t' @ post' \<and> triple t' \<longrightarrow>
            length ([]::string) < length pre' \<or> (length ([]::string) = length pre' \<and> length t' \<le> length m)"
    proof (intro allI impI)
      fix pre' t' post' assume a: "c # cs = pre' @ t' @ post' \<and> triple t'"
      show "length ([]::string) < length pre' \<or> (length ([]::string) = length pre' \<and> length t' \<le> length m)"
      proof (cases pre')
        case Nil
        with a have "match_here (c # cs) = Some (t' @ takeWhile digit post')"
          by (simp add: match_here_prefix)
        with Some mm have "m = t' @ takeWhile digit post'" by simp
        with Nil show ?thesis by simp
      next
        case (Cons p ps)
        then show ?thesis by simp
      qed
    qed
    moreover have "c # cs = [] @ m @ r" using s by simp
    ultimately show ?thesis unfolding first_triple_def using tm by blast
  next
    case None
    with Cons.prems have "match_triple cs = Some m" by simp
    from Cons.IH[OF this] obtain pre post where tm: "triple m" and s: "cs = pre @ m @ post"
      and least: "\<forall>pre' t' post'. cs = pre' @ t' @ post' \<and> triple t' \<longrightarrow>
            length pre < length pre' \<or> (length pre = length pre' \<and> length t' \<le> length m)"
      unfolding first_triple_def by blast
    have "\<forall>pre' t' post'. c # cs = pre' @ t' @ post' \<and> triple t' \<longrightarrow>
            length (c # pre) < length pre' \<or> (length (c # pre) = length pre' \<and> length t' \<le> length m)"
    proof (intro allI impI)
      fix pre' t' post' assume a: "c # cs = pre' @ t' @ post' \<and> triple t'"
      show "length (c # pre) < length pre' \<or> (length (c # pre) = length pre' \<and> length t' \<le> length m)"
      proof (cases pre')
        case Nil
        with a None show ?thesis by (auto simp: match_here_None_iff)
      next
        case (Cons p ps)
        with a have "cs = ps @ t' @ post' \<and> triple t'" by simp
        with least have "length pre < length ps \<or> (length pre = length ps \<and> length t' \<le> length m)"
          by blast
        with Cons show ?thesis by auto
      qed
    qed
    moreover have "c # cs = (c # pre) @ m @ post" using s by simp
    ultimately show ?thesis unfolding first_triple_def using tm by blast
  qed
qed

lemma first_triple_unique:
  assumes "first_triple s t" "first_triple s u"
  shows "t = u"
proof -
  from assms(1) obtain p1 q1 where 1: "triple t" "s = p1 @ t @ q1"
    and l1: "\<forall>pre' t' post'. s = pre' @ t' @ post' \<and> triple t' \<longrightarrow>
            length p1 < length pre' \<or> (length p1 = length pre' \<and> length t' \<le> length t)"
    unfolding first_triple_def by blast
  from assms(2) obtain p2 q2 where 2: "triple u" "s = p2 @ u @ q2"
    and l2: "\<forall>pre' t' post'. s = pre' @ t' @ post' \<and> triple t' \<longrightarrow>
            length p2 < length pre' \<or> (length p2 = length pre' \<and> length t' \<le> length u)"
    unfolding first_triple_def by blast
  from l1 2 have a: "length p1 < length p2 \<or> (length p1 = length p2 \<and> length u \<le> length t)" by blast
  from l2 1 have b: "length p2 < length p1 \<or> (length p2 = length p1 \<and> length t \<le> length u)" by blast
  from a b have lp: "length p1 = length p2" and lt: "length t = length u" by auto
  from 1(2) 2(2) have "p1 @ t @ q1 = p2 @ u @ q2" by simp
  with lp have "t @ q1 = u @ q2" by simp
  with lt show ?thesis by simp
qed

lemma match_triple_iff_first: "match_triple s = Some m \<longleftrightarrow> first_triple s m"
proof
  assume "match_triple s = Some m" then show "first_triple s m" by (rule match_triple_first)
next
  assume f: "first_triple s m"
  then have "contains_triple s"
    unfolding first_triple_def contains_triple_def sublist_def by blast
  then obtain m' where m': "match_triple s = Some m'"
    using match_triple_None_contains[of s] by (cases "match_triple s") auto
  from match_triple_first[OF m'] f have "m' = m" by (rule first_triple_unique)
  with m' show "match_triple s = Some m" by simp
qed

lemma match_triple_self: "triple t \<Longrightarrow> match_triple t = Some t"
  by (cases t) (auto simp: match_here_self dest: triple_not_Nil)

lemma compare_version_ge: "compare_version v w \<ge> 0 \<longleftrightarrow> version_ge v w"
  by (cases v, cases w) (auto simp: compare_nat_def)

lemma semiver_numeric_ok: "numeric_comparator semiver_numeric"
  by (simp add: numeric_comparator_def semiver_numeric_def)

section \<open>The paths through the runner\<close>

text \<open>Each check, on each way through it.\<close>

lemmas gen_defs = bind_def yield_def throw_def pure_def call_def await_def raised_def try_catch_def

lemma delay_pacing: "delay env 700 = (pacing env, Inr ())"
  by (simp add: pacing_def delay_def pure_def)

lemma pacing_cases: "pacing env = (if truthy_string (CI env) then [] else [Sleep 700])"
  by (simp add: pacing_def delay_def pure_def)

lemma check_ts_version_no_manifest:
  assumes "manifest env = None"
  shows "check_ts_version env =
           (Yield (runningTask CHECK_TS_VERSION) # pacing env
              @ [ReadFile (packageJsonFile env), Yield (failedTask CHECK_TS_VERSION)],
            Inl (errorMessage (msg_no_manifest env)))"
  using assms
  by (simp add: check_ts_version_def gen_defs delay_pacing manifest_def packageJsonFile_def
      split: sum.splits)

lemma check_ts_version_no_typescript:
  assumes "manifest env = Some p"
    and "find (\<lambda>x. fst x = ''typescript'') (dependency_entries p) = None"
  shows "check_ts_version env =
           (Yield (runningTask CHECK_TS_VERSION) # pacing env
              @ [ReadFile (packageJsonFile env), Yield (failedTask CHECK_TS_VERSION)],
            Inl (errorMessage (msg_no_typescript env)))"
  using assms
  by (simp add: check_ts_version_def gen_defs delay_pacing manifest_def packageJsonFile_def
      split: sum.splits)

lemma check_ts_version_old_typescript:
  assumes "manifest env = Some p"
    and "find (\<lambda>x. fst x = ''typescript'') (dependency_entries p) = Some v"
    and "\<not> semiverComply (semiver env) (snd v) (typescript MINIMUM_VERSIONS)"
  shows "check_ts_version env =
           (Yield (runningTask CHECK_TS_VERSION) # pacing env
              @ [ReadFile (packageJsonFile env), Yield (failedTask CHECK_TS_VERSION)],
            Inl (errorMessage (msg_old_typescript env)))"
  using assms
  by (simp add: check_ts_version_def gen_defs delay_pacing manifest_def packageJsonFile_def
      split: sum.splits)

lemma check_ts_version_ok:
  assumes "manifest env = Some p"
    and "package_complies env (dependency_entries p) ''typescript'' (typescript MINIMUM_VERSIONS)"
  shows "check_ts_version env =
           (Yield (runningTask CHECK_TS_VERSION) # pacing env
              @ [ReadFile (packageJsonFile env), Yield (completedTask CHECK_TS_VERSION False)],
            Inr (dependency_entries p))"
  using assms
  by (simp add: check_ts_version_def gen_defs delay_pacing manifest_def packageJsonFile_def
      package_complies_def split: sum.splits option.splits)

lemma check_dependencies_no_graphqlsp:
  assumes "find (\<lambda>x. fst x = ''@0no-co/graphqlsp'') deps = None"
  shows "check_dependencies env deps =
           (Yield (runningTask CHECK_DEPENDENCIES) # pacing env
              @ [Yield (failedTask CHECK_DEPENDENCIES)],
            Inl (errorMessage (msg_no_graphqlsp env)))"
  using assms by (simp add: check_dependencies_def gen_defs delay_pacing)

lemma check_dependencies_old_graphqlsp:
  assumes "find (\<lambda>x. fst x = ''@0no-co/graphqlsp'') deps = Some v"
    and "\<not> semiverComply (semiver env) (snd v) (lsp MINIMUM_VERSIONS)"
  shows "check_dependencies env deps =
           (Yield (runningTask CHECK_DEPENDENCIES) # pacing env
              @ [Yield (failedTask CHECK_DEPENDENCIES)],
            Inl (errorMessage (msg_old_graphqlsp env)))"
  using assms by (simp add: check_dependencies_def gen_defs delay_pacing)

lemma check_dependencies_no_tada:
  assumes "package_complies env deps ''@0no-co/graphqlsp'' (lsp MINIMUM_VERSIONS)"
    and "find (\<lambda>x. fst x = ''gql.tada'') deps = None"
  shows "check_dependencies env deps =
           (Yield (runningTask CHECK_DEPENDENCIES) # pacing env
              @ [Yield (failedTask CHECK_DEPENDENCIES)],
            Inl (errorMessage (msg_no_tada env)))"
  using assms
  by (auto simp: check_dependencies_def gen_defs delay_pacing package_complies_def
      split: option.splits)

lemma check_dependencies_old_tada:
  assumes "package_complies env deps ''@0no-co/graphqlsp'' (lsp MINIMUM_VERSIONS)"
    and "find (\<lambda>x. fst x = ''gql.tada'') deps = Some v"
    and "\<not> semiverComply (semiver env) (snd v) ''1.0.0''"
  shows "check_dependencies env deps =
           (Yield (runningTask CHECK_DEPENDENCIES) # pacing env
              @ [Yield (failedTask CHECK_DEPENDENCIES)],
            Inl (errorMessage (msg_old_tada env)))"
  using assms
  by (auto simp: check_dependencies_def gen_defs delay_pacing package_complies_def
      split: option.splits)

lemma check_dependencies_ok:
  assumes "package_complies env deps ''@0no-co/graphqlsp'' (lsp MINIMUM_VERSIONS)"
    and "package_complies env deps ''gql.tada'' ''1.0.0''"
  shows "check_dependencies env deps =
           (Yield (runningTask CHECK_DEPENDENCIES) # pacing env
              @ [Yield (completedTask CHECK_DEPENDENCIES False)],
            Inr ())"
  using assms
  by (auto simp: check_dependencies_def gen_defs delay_pacing package_complies_def
      split: option.splits)

lemma check_tsconfig_no_tsconfig:
  assumes "loadConfig env = Inl x"
  shows "check_tsconfig env =
           (Yield (runningTask CHECK_TSCONFIG) # pacing env
              @ [LoadConfig, Yield (failedTask CHECK_TSCONFIG)],
            Inl (externalError (msg_no_tsconfig env) (exception x)))"
  using assms by (simp add: check_tsconfig_def gen_defs delay_pacing)

lemma check_tsconfig_invalid:
  assumes "loadConfig env = Inr configResult"
    and "parseConfig env (pluginConfig configResult) = Inl x"
  shows "check_tsconfig env =
           (Yield (runningTask CHECK_TSCONFIG) # pacing env @ [LoadConfig],
            Inl (externalError (msg_invalid_config env) (exception x)))"
  using assms by (simp add: check_tsconfig_def gen_defs delay_pacing)

lemma check_tsconfig_no_schema:
  assumes "loadConfig env = Inr configResult"
    and "parseConfig env (pluginConfig configResult) = Inr pluginConfig'"
    and "\<not> truthy_schema (schema pluginConfig')"
  shows "check_tsconfig env =
           (Yield (runningTask CHECK_TSCONFIG) # pacing env
              @ [LoadConfig, Yield (failedTask CHECK_TSCONFIG)],
            Inl (errorMessage (msg_no_schema env)))"
  using assms by (simp add: check_tsconfig_def gen_defs delay_pacing)

lemma check_tsconfig_ok:
  assumes "loadConfig env = Inr configResult"
    and "parseConfig env (pluginConfig configResult) = Inr pluginConfig'"
    and "truthy_schema (schema pluginConfig')"
  shows "check_tsconfig env =
           (Yield (runningTask CHECK_TSCONFIG) # pacing env
              @ [LoadConfig, Yield (completedTask CHECK_TSCONFIG False)],
            Inr (configResult, pluginConfig'))"
  using assms by (simp add: check_tsconfig_def gen_defs delay_pacing)

lemma check_schema_exception:
  assumes "loadIntrospection (load env (schema pluginConfig') (dirname env (configPath configResult))) = Inl x"
  shows "check_schema env configResult pluginConfig' =
           (Yield (runningTask CHECK_SCHEMA) # pacing env @ [LoadIntrospection],
            Inl (externalError msg_load_failed (exception x)))"
  using assms by (simp add: check_schema_def gen_defs delay_pacing)

lemma check_schema_nothing:
  assumes "loadIntrospection (load env (schema pluginConfig') (dirname env (configPath configResult))) = Inr None"
  shows "check_schema env configResult pluginConfig' =
           (Yield (runningTask CHECK_SCHEMA) # pacing env @ [LoadIntrospection],
            Inl (errorMessage msg_load_failed))"
  using assms by (simp add: check_schema_def gen_defs delay_pacing)

lemma check_schema_ok:
  assumes "loadIntrospection (load env (schema pluginConfig') (dirname env (configPath configResult))) = Inr (Some i)"
  shows "check_schema env configResult pluginConfig' =
           (Yield (runningTask CHECK_SCHEMA) # pacing env
              @ [LoadIntrospection, Yield (completedTask CHECK_SCHEMA True)]
              @ pacing env @ [Yield success],
            Inr ())"
  using assms by (simp add: check_schema_def gen_defs delay_pacing)

text \<open>The whole run, on each way through it.\<close>

lemma run_steps:
  "run env =
     (case check_ts_version env of
        (t1, Inl x) \<Rightarrow> (Yield (title TITLE DESCRIPTION) # t1, Inl x)
      | (t1, Inr deps) \<Rightarrow>
          (case check_dependencies env deps of
             (t2, Inl x) \<Rightarrow> (Yield (title TITLE DESCRIPTION) # t1 @ t2, Inl x)
           | (t2, Inr _) \<Rightarrow>
               (case check_tsconfig env of
                  (t3, Inl x) \<Rightarrow> (Yield (title TITLE DESCRIPTION) # t1 @ t2 @ t3, Inl x)
                | (t3, Inr (configResult, pluginConfig')) \<Rightarrow>
                    (case check_schema env configResult pluginConfig' of
                       (t4, r) \<Rightarrow> (Yield (title TITLE DESCRIPTION) # t1 @ t2 @ t3 @ t4, r)))))"
  by (simp add: run_def bind_def yield_def split: prod.splits sum.splits)

lemma events_append [simp]: "events (s @ t) = events s @ events t"
  by (induction s rule: events.induct) auto

lemma events_pacing [simp]: "events (pacing env) = []"
  by (simp add: pacing_cases)

lemma ts_version_okD:
  "ts_version_ok env \<Longrightarrow> \<exists>p. manifest env = Some p \<and>
     package_complies env (dependency_entries p) ''typescript'' (typescript MINIMUM_VERSIONS)"
  by (auto simp: ts_version_ok_def split: option.splits)

lemma not_package_found:
  "\<not> package_found deps name \<Longrightarrow> find (\<lambda>x. fst x = name) deps = None"
  unfolding package_found_def by blast

lemma run_no_manifest:
  assumes "manifest env = None"
  shows "run_events env = [title TITLE DESCRIPTION, runningTask CHECK_TS_VERSION, failedTask CHECK_TS_VERSION]"
    and "run_outcome env = Inl (errorMessage (msg_no_manifest env))"
  using assms
  by (simp_all add: run_events_def run_outcome_def run_steps check_ts_version_no_manifest)

lemma run_no_typescript:
  assumes "manifest env = Some p"
    and "\<not> package_found (dependency_entries p) ''typescript''"
  shows "run_events env = [title TITLE DESCRIPTION, runningTask CHECK_TS_VERSION, failedTask CHECK_TS_VERSION]"
    and "run_outcome env = Inl (errorMessage (msg_no_typescript env))"
proof -
  from assms(2) have v: "find (\<lambda>x. fst x = ''typescript'') (dependency_entries p) = None"
    by (rule not_package_found)
  show "run_events env = [title TITLE DESCRIPTION, runningTask CHECK_TS_VERSION, failedTask CHECK_TS_VERSION]"
    and "run_outcome env = Inl (errorMessage (msg_no_typescript env))"
    by (simp_all add: run_events_def run_outcome_def run_steps
        check_ts_version_no_typescript[OF assms(1) v])
qed

lemma run_old_typescript:
  assumes "manifest env = Some p"
    and "package_found (dependency_entries p) ''typescript''"
    and "\<not> package_complies env (dependency_entries p) ''typescript'' (typescript MINIMUM_VERSIONS)"
  shows "run_events env = [title TITLE DESCRIPTION, runningTask CHECK_TS_VERSION, failedTask CHECK_TS_VERSION]"
    and "run_outcome env = Inl (errorMessage (msg_old_typescript env))"
proof -
  from assms(2) obtain v where v: "find (\<lambda>x. fst x = ''typescript'') (dependency_entries p) = Some v"
    by (auto simp: package_found_def)
  with assms(3) have n: "\<not> semiverComply (semiver env) (snd v) (typescript MINIMUM_VERSIONS)"
    by (simp add: package_complies_def)
  show "run_events env = [title TITLE DESCRIPTION, runningTask CHECK_TS_VERSION, failedTask CHECK_TS_VERSION]"
    and "run_outcome env = Inl (errorMessage (msg_old_typescript env))"
    by (simp_all add: run_events_def run_outcome_def run_steps
        check_ts_version_old_typescript[OF assms(1) v n])
qed


lemma run_no_graphqlsp:
  assumes "ts_version_ok env" and "manifest env = Some p"
    and "\<not> package_found (dependency_entries p) ''@0no-co/graphqlsp''"
  shows "run_events env = [title TITLE DESCRIPTION,
           runningTask CHECK_TS_VERSION, completedTask CHECK_TS_VERSION False,
           runningTask CHECK_DEPENDENCIES, failedTask CHECK_DEPENDENCIES]"
    and "run_outcome env = Inl (errorMessage (msg_no_graphqlsp env))"
proof -
  from assms(1,2) have c1: "package_complies env (dependency_entries p) ''typescript'' (typescript MINIMUM_VERSIONS)"
    by (simp add: ts_version_ok_def)
  from assms(3) have v: "find (\<lambda>x. fst x = ''@0no-co/graphqlsp'') (dependency_entries p) = None"
    by (rule not_package_found)
  show "run_events env = [title TITLE DESCRIPTION,
           runningTask CHECK_TS_VERSION, completedTask CHECK_TS_VERSION False,
           runningTask CHECK_DEPENDENCIES, failedTask CHECK_DEPENDENCIES]"
    and "run_outcome env = Inl (errorMessage (msg_no_graphqlsp env))"
    by (simp_all add: run_events_def run_outcome_def run_steps
        check_ts_version_ok[OF assms(2) c1] check_dependencies_no_graphqlsp[OF v])
qed

lemma run_old_graphqlsp:
  assumes "ts_version_ok env" and "manifest env = Some p"
    and "package_found (dependency_entries p) ''@0no-co/graphqlsp''"
    and "\<not> package_complies env (dependency_entries p) ''@0no-co/graphqlsp'' (lsp MINIMUM_VERSIONS)"
  shows "run_events env = [title TITLE DESCRIPTION,
           runningTask CHECK_TS_VERSION, completedTask CHECK_TS_VERSION False,
           runningTask CHECK_DEPENDENCIES, failedTask CHECK_DEPENDENCIES]"
    and "run_outcome env = Inl (errorMessage (msg_old_graphqlsp env))"
proof -
  from assms(1,2) have c1: "package_complies env (dependency_entries p) ''typescript'' (typescript MINIMUM_VERSIONS)"
    by (simp add: ts_version_ok_def)
  from assms(3) obtain v where v: "find (\<lambda>x. fst x = ''@0no-co/graphqlsp'') (dependency_entries p) = Some v"
    by (auto simp: package_found_def)
  with assms(4) have n: "\<not> semiverComply (semiver env) (snd v) (lsp MINIMUM_VERSIONS)"
    by (simp add: package_complies_def)
  show "run_events env = [title TITLE DESCRIPTION,
           runningTask CHECK_TS_VERSION, completedTask CHECK_TS_VERSION False,
           runningTask CHECK_DEPENDENCIES, failedTask CHECK_DEPENDENCIES]"
    and "run_outcome env = Inl (errorMessage (msg_old_graphqlsp env))"
    by (simp_all add: run_events_def run_outcome_def run_steps
        check_ts_version_ok[OF assms(2) c1] check_dependencies_old_graphqlsp[OF v n])
qed

lemma run_no_tada:
  assumes "ts_version_ok env" and "manifest env = Some p"
    and "package_complies env (dependency_entries p) ''@0no-co/graphqlsp'' (lsp MINIMUM_VERSIONS)"
    and "\<not> package_found (dependency_entries p) ''gql.tada''"
  shows "run_events env = [title TITLE DESCRIPTION,
           runningTask CHECK_TS_VERSION, completedTask CHECK_TS_VERSION False,
           runningTask CHECK_DEPENDENCIES, failedTask CHECK_DEPENDENCIES]"
    and "run_outcome env = Inl (errorMessage (msg_no_tada env))"
proof -
  from assms(1,2) have c1: "package_complies env (dependency_entries p) ''typescript'' (typescript MINIMUM_VERSIONS)"
    by (simp add: ts_version_ok_def)
  from assms(4) have v: "find (\<lambda>x. fst x = ''gql.tada'') (dependency_entries p) = None"
    by (rule not_package_found)
  show "run_events env = [title TITLE DESCRIPTION,
           runningTask CHECK_TS_VERSION, completedTask CHECK_TS_VERSION False,
           runningTask CHECK_DEPENDENCIES, failedTask CHECK_DEPENDENCIES]"
    and "run_outcome env = Inl (errorMessage (msg_no_tada env))"
    by (simp_all add: run_events_def run_outcome_def run_steps
        check_ts_version_ok[OF assms(2) c1] check_dependencies_no_tada[OF assms(3) v])
qed

lemma run_old_tada:
  assumes "ts_version_ok env" and "manifest env = Some p"
    and "package_complies env (dependency_entries p) ''@0no-co/graphqlsp'' (lsp MINIMUM_VERSIONS)"
    and "package_found (dependency_entries p) ''gql.tada''"
    and "\<not> package_complies env (dependency_entries p) ''gql.tada'' ''1.0.0''"
  shows "run_events env = [title TITLE DESCRIPTION,
           runningTask CHECK_TS_VERSION, completedTask CHECK_TS_VERSION False,
           runningTask CHECK_DEPENDENCIES, failedTask CHECK_DEPENDENCIES]"
    and "run_outcome env = Inl (errorMessage (msg_old_tada env))"
proof -
  from assms(1,2) have c1: "package_complies env (dependency_entries p) ''typescript'' (typescript MINIMUM_VERSIONS)"
    by (simp add: ts_version_ok_def)
  from assms(4) obtain v where v: "find (\<lambda>x. fst x = ''gql.tada'') (dependency_entries p) = Some v"
    by (auto simp: package_found_def)
  with assms(5) have n: "\<not> semiverComply (semiver env) (snd v) ''1.0.0''"
    by (simp add: package_complies_def)
  show "run_events env = [title TITLE DESCRIPTION,
           runningTask CHECK_TS_VERSION, completedTask CHECK_TS_VERSION False,
           runningTask CHECK_DEPENDENCIES, failedTask CHECK_DEPENDENCIES]"
    and "run_outcome env = Inl (errorMessage (msg_old_tada env))"
    by (simp_all add: run_events_def run_outcome_def run_steps
        check_ts_version_ok[OF assms(2) c1] check_dependencies_old_tada[OF assms(3) v n])
qed

lemma run_after_dependencies:
  assumes "ts_version_ok env" and "dependencies_ok env"
  shows "run env =
     (case check_tsconfig env of
        (t3, Inl x) \<Rightarrow>
          (Yield (title TITLE DESCRIPTION) # Yield (runningTask CHECK_TS_VERSION) # pacing env
             @ [ReadFile (packageJsonFile env), Yield (completedTask CHECK_TS_VERSION False),
                Yield (runningTask CHECK_DEPENDENCIES)] @ pacing env
             @ [Yield (completedTask CHECK_DEPENDENCIES False)] @ t3, Inl x)
      | (t3, Inr (configResult, pluginConfig')) \<Rightarrow>
          (case check_schema env configResult pluginConfig' of
             (t4, r) \<Rightarrow>
               (Yield (title TITLE DESCRIPTION) # Yield (runningTask CHECK_TS_VERSION) # pacing env
                  @ [ReadFile (packageJsonFile env), Yield (completedTask CHECK_TS_VERSION False),
                     Yield (runningTask CHECK_DEPENDENCIES)] @ pacing env
                  @ [Yield (completedTask CHECK_DEPENDENCIES False)] @ t3 @ t4, r)))"
proof -
  from assms(1) obtain p where p: "manifest env = Some p"
    and c1: "package_complies env (dependency_entries p) ''typescript'' (typescript MINIMUM_VERSIONS)"
    by (auto simp: ts_version_ok_def split: option.splits)
  from assms(2) p have c2: "package_complies env (dependency_entries p) ''@0no-co/graphqlsp'' (lsp MINIMUM_VERSIONS)"
    and c3: "package_complies env (dependency_entries p) ''gql.tada'' ''1.0.0''"
    by (simp_all add: dependencies_ok_def)
  show ?thesis
    by (simp add: run_steps check_ts_version_ok[OF p c1] check_dependencies_ok[OF c2 c3]
        split: prod.splits sum.splits)
qed

lemma run_no_tsconfig:
  assumes "ts_version_ok env" and "dependencies_ok env" and "loadConfig env = Inl x"
  shows "run_events env = [title TITLE DESCRIPTION,
           runningTask CHECK_TS_VERSION, completedTask CHECK_TS_VERSION False,
           runningTask CHECK_DEPENDENCIES, completedTask CHECK_DEPENDENCIES False,
           runningTask CHECK_TSCONFIG, failedTask CHECK_TSCONFIG]"
    and "run_outcome env = Inl (externalError (msg_no_tsconfig env) (exception x))"
  by (simp_all add: run_events_def run_outcome_def run_after_dependencies[OF assms(1,2)]
      check_tsconfig_no_tsconfig[OF assms(3)])

lemma run_invalid_config:
  assumes "ts_version_ok env" and "dependencies_ok env"
    and "loadConfig env = Inr configResult"
    and "parseConfig env (pluginConfig configResult) = Inl x"
  shows "run_events env = [title TITLE DESCRIPTION,
           runningTask CHECK_TS_VERSION, completedTask CHECK_TS_VERSION False,
           runningTask CHECK_DEPENDENCIES, completedTask CHECK_DEPENDENCIES False,
           runningTask CHECK_TSCONFIG]"
    and "run_outcome env = Inl (externalError (msg_invalid_config env) (exception x))"
  by (simp_all add: run_events_def run_outcome_def run_after_dependencies[OF assms(1,2)]
      check_tsconfig_invalid[OF assms(3,4)])

lemma run_no_schema:
  assumes "ts_version_ok env" and "dependencies_ok env"
    and "loadConfig env = Inr configResult"
    and "parseConfig env (pluginConfig configResult) = Inr pluginConfig'"
    and "\<not> truthy_schema (schema pluginConfig')"
  shows "run_events env = [title TITLE DESCRIPTION,
           runningTask CHECK_TS_VERSION, completedTask CHECK_TS_VERSION False,
           runningTask CHECK_DEPENDENCIES, completedTask CHECK_DEPENDENCIES False,
           runningTask CHECK_TSCONFIG, failedTask CHECK_TSCONFIG]"
    and "run_outcome env = Inl (errorMessage (msg_no_schema env))"
  by (simp_all add: run_events_def run_outcome_def run_after_dependencies[OF assms(1,2)]
      check_tsconfig_no_schema[OF assms(3,4,5)])

lemma tsconfig_okD:
  assumes "tsconfig_ok env"
  obtains configResult pluginConfig' where "loadConfig env = Inr configResult"
    and "parseConfig env (pluginConfig configResult) = Inr pluginConfig'"
    and "truthy_schema (schema pluginConfig')"
    and "introspection env = Some (loadIntrospection
           (load env (schema pluginConfig') (dirname env (configPath configResult))))"
  using assms by (auto simp: tsconfig_ok_def introspection_def split: sum.splits)

lemma run_schema_exception:
  assumes "ts_version_ok env" and "dependencies_ok env" and "tsconfig_ok env"
    and "introspection env = Some (Inl x)"
  shows "run_events env = [title TITLE DESCRIPTION,
           runningTask CHECK_TS_VERSION, completedTask CHECK_TS_VERSION False,
           runningTask CHECK_DEPENDENCIES, completedTask CHECK_DEPENDENCIES False,
           runningTask CHECK_TSCONFIG, completedTask CHECK_TSCONFIG False,
           runningTask CHECK_SCHEMA]"
    and "run_outcome env = Inl (externalError msg_load_failed (exception x))"
proof -
  from assms(3) obtain c pc where c: "loadConfig env = Inr c"
    and pc: "parseConfig env (pluginConfig c) = Inr pc" and t: "truthy_schema (schema pc)"
    and i: "introspection env = Some (loadIntrospection (load env (schema pc) (dirname env (configPath c))))"
    by (rule tsconfig_okD)
  from i assms(4) have l: "loadIntrospection (load env (schema pc) (dirname env (configPath c))) = Inl x"
    by simp
  show "run_events env = [title TITLE DESCRIPTION,
           runningTask CHECK_TS_VERSION, completedTask CHECK_TS_VERSION False,
           runningTask CHECK_DEPENDENCIES, completedTask CHECK_DEPENDENCIES False,
           runningTask CHECK_TSCONFIG, completedTask CHECK_TSCONFIG False,
           runningTask CHECK_SCHEMA]"
    and "run_outcome env = Inl (externalError msg_load_failed (exception x))"
    by (simp_all add: run_events_def run_outcome_def run_after_dependencies[OF assms(1,2)]
      check_tsconfig_ok[OF c pc t] check_schema_exception[OF l])
qed

lemma run_schema_nothing:
  assumes "ts_version_ok env" and "dependencies_ok env" and "tsconfig_ok env"
    and "introspection env = Some (Inr None)"
  shows "run_events env = [title TITLE DESCRIPTION,
           runningTask CHECK_TS_VERSION, completedTask CHECK_TS_VERSION False,
           runningTask CHECK_DEPENDENCIES, completedTask CHECK_DEPENDENCIES False,
           runningTask CHECK_TSCONFIG, completedTask CHECK_TSCONFIG False,
           runningTask CHECK_SCHEMA]"
    and "run_outcome env = Inl (errorMessage msg_load_failed)"
proof -
  from assms(3) obtain c pc where c: "loadConfig env = Inr c"
    and pc: "parseConfig env (pluginConfig c) = Inr pc" and t: "truthy_schema (schema pc)"
    and i: "introspection env = Some (loadIntrospection (load env (schema pc) (dirname env (configPath c))))"
    by (rule tsconfig_okD)
  from i assms(4) have l: "loadIntrospection (load env (schema pc) (dirname env (configPath c))) = Inr None"
    by simp
  show "run_events env = [title TITLE DESCRIPTION,
           runningTask CHECK_TS_VERSION, completedTask CHECK_TS_VERSION False,
           runningTask CHECK_DEPENDENCIES, completedTask CHECK_DEPENDENCIES False,
           runningTask CHECK_TSCONFIG, completedTask CHECK_TSCONFIG False,
           runningTask CHECK_SCHEMA]"
    and "run_outcome env = Inl (errorMessage msg_load_failed)"
    by (simp_all add: run_events_def run_outcome_def run_after_dependencies[OF assms(1,2)]
      check_tsconfig_ok[OF c pc t] check_schema_nothing[OF l])
qed

lemma run_all_ok:
  assumes "ts_version_ok env" and "dependencies_ok env" and "tsconfig_ok env"
    and "schema_ok env"
  shows "run_events env = [title TITLE DESCRIPTION,
           runningTask CHECK_TS_VERSION, completedTask CHECK_TS_VERSION False,
           runningTask CHECK_DEPENDENCIES, completedTask CHECK_DEPENDENCIES False,
           runningTask CHECK_TSCONFIG, completedTask CHECK_TSCONFIG False,
           runningTask CHECK_SCHEMA, completedTask CHECK_SCHEMA True,
           success]"
    and "run_outcome env = Inr ()"
proof -
  from assms(3) obtain c pc where c: "loadConfig env = Inr c"
    and pc: "parseConfig env (pluginConfig c) = Inr pc" and t: "truthy_schema (schema pc)"
    and i: "introspection env = Some (loadIntrospection (load env (schema pc) (dirname env (configPath c))))"
    by (rule tsconfig_okD)
  from i assms(4) obtain d where l: "loadIntrospection (load env (schema pc) (dirname env (configPath c))) = Inr (Some d)"
    by (auto simp: schema_ok_def split: option.splits sum.splits)
  show "run_events env = [title TITLE DESCRIPTION,
           runningTask CHECK_TS_VERSION, completedTask CHECK_TS_VERSION False,
           runningTask CHECK_DEPENDENCIES, completedTask CHECK_DEPENDENCIES False,
           runningTask CHECK_TSCONFIG, completedTask CHECK_TSCONFIG False,
           runningTask CHECK_SCHEMA, completedTask CHECK_SCHEMA True,
           success]"
    and "run_outcome env = Inr ()"
    by (simp_all add: run_events_def run_outcome_def run_after_dependencies[OF assms(1,2)]
      check_tsconfig_ok[OF c pc t] check_schema_ok[OF l])
qed

section \<open>The example project\<close>

lemmas example_defs =
  manifest_def packageJsonFile_def example_env_def example_project_def example_manifest_def
  dependency_entries_def Object_entries_def spread_def assign_def
  package_found_def package_complies_def ts_version_ok_def dependencies_ok_def
  tsconfig_ok_def introspection_def schema_ok_def
  semiverComply_def match_here_def digit_def semiver_numeric_def parse_version_def
  triple_def digits_def number_def digit_val_def compare_nat_def MINIMUM_VERSIONS_def

lemma example_env_checks:
  "ts_version_ok example_env" "dependencies_ok example_env"
  "tsconfig_ok example_env" "schema_ok example_env"
  by (simp_all add: example_defs)

section \<open>The dependency map\<close>

lemma find_key: "find (\<lambda>x. fst x = k) al = map_option (Pair k) (map_of al k)"
  by (induction al) auto

lemma map_of_assign:
  "distinct (map fst source) \<Longrightarrow> map_of (assign target source) = map_of target ++ map_of source"
proof (induction source arbitrary: target)
  case Nil
  then show ?case by (simp add: assign_def)
next
  case (Cons e source)
  obtain k v where e: "e = (k, v)" by (cases e)
  from Cons.prems e have d: "distinct (map fst source)" and k: "k \<notin> fst ` set source" by auto
  have "assign target (e # source) = assign (AList.update k v target) source"
    by (simp add: assign_def e)
  then have "map_of (assign target (e # source)) = map_of (AList.update k v target) ++ map_of source"
    using Cons.IH[OF d] by simp
  also have "\<dots> = map_of target ++ map_of (e # source)"
  proof (rule ext)
    fix x
    from k have "map_of source k = None" by (simp add: map_of_eq_None_iff)
    then show "(map_of (AList.update k v target) ++ map_of source) x = (map_of target ++ map_of (e # source)) x"
      by (auto simp: e update_conv' map_add_def split: option.splits)
  qed
  finally show ?case .
qed

lemma distinct_assign:
  "distinct (map fst target) \<Longrightarrow> distinct (map fst (assign target source))"
proof (induction source arbitrary: target)
  case Nil
  then show ?case by (simp add: assign_def)
next
  case (Cons e source)
  obtain k v where e: "e = (k, v)" by (cases e)
  have "assign target (e # source) = assign (AList.update k v target) source"
    by (simp add: assign_def e)
  with Cons show ?case by (simp add: distinct_update)
qed

lemma map_of_dependency_entries:
  assumes "distinct (map fst (dependencies p))" "distinct (map fst (devDependencies p))"
  shows "map_of (dependency_entries p) = map_of (dependencies p) ++ map_of (devDependencies p)"
  using assms
  by (simp add: dependency_entries_def Object_entries_def spread_def map_of_assign)

lemma example_entries:
  "dependency_entries example_manifest =
     [(''gql.tada'', ''^1.0.3''), (''typescript'', ''^5.3.3''), (''@0no-co/graphqlsp'', ''~1.1.0'')]"
  by (simp add: dependency_entries_def example_manifest_def Object_entries_def spread_def assign_def)

lemma run_through_dependencies:
  assumes "ts_version_ok env" and "dependencies_ok env"
  shows "\<exists>rest. run_events env = [title TITLE DESCRIPTION,
                        runningTask CHECK_TS_VERSION, completedTask CHECK_TS_VERSION False,
                        runningTask CHECK_DEPENDENCIES, completedTask CHECK_DEPENDENCIES False] @ rest"
proof (cases "check_tsconfig env")
  case (Pair t3 r3)
  show ?thesis
  proof (cases r3)
    case (Inl x)
    with Pair show ?thesis
      by (simp add: run_events_def run_after_dependencies[OF assms])
  next
    case (Inr cp)
    obtain c pc where cp: "cp = (c, pc)" by (cases cp)
    obtain t4 r4 where r: "check_schema env c pc = (t4, r4)" by (cases "check_schema env c pc")
    from Pair Inr cp r show ?thesis
      by (simp add: run_events_def run_after_dependencies[OF assms])
  qed
qed

text \<open>
  Claim C7.  The DependencyMap is the manifest's regular dependencies merged with its
  development dependencies, the development version winning where both mappings have the
  name, and it is what every lookup of the run consults: a lookup in the entries the
  runner builds finds exactly what the map holds for the name, and the run goes through
  checks 1 and 2 as the map's versions of typescript, @0no-co/graphqlsp and gql.tada
  decide, in that order.
\<close>

theorem run_consults_DependencyMap:
  assumes "manifest env = Some p"
    and "is_object (dependencies p)" and "is_object (devDependencies p)"
  shows "find (\<lambda>x. fst x = name) (dependency_entries p)
       = map_option (Pair name) (DependencyMap p name)
   \<and> (map_of (dependencies p) name = Some v \<and> map_of (devDependencies p) name = Some w \<longrightarrow>
      DependencyMap p name = Some w)
   \<and> (DependencyMap p ''typescript'' = None \<longrightarrow>
      run_events env = [title TITLE DESCRIPTION, runningTask CHECK_TS_VERSION,
                        failedTask CHECK_TS_VERSION]
      \<and> run_outcome env = Inl (errorMessage (msg_no_typescript env)))
   \<and> (DependencyMap p ''typescript'' = Some t
        \<and> \<not> semiverComply (semiver env) t (typescript MINIMUM_VERSIONS) \<longrightarrow>
      run_events env = [title TITLE DESCRIPTION, runningTask CHECK_TS_VERSION,
                        failedTask CHECK_TS_VERSION]
      \<and> run_outcome env = Inl (errorMessage (msg_old_typescript env)))
   \<and> (DependencyMap p ''typescript'' = Some t
        \<and> semiverComply (semiver env) t (typescript MINIMUM_VERSIONS)
        \<and> DependencyMap p ''@0no-co/graphqlsp'' = None \<longrightarrow>
      run_events env = [title TITLE DESCRIPTION,
                        runningTask CHECK_TS_VERSION, completedTask CHECK_TS_VERSION False,
                        runningTask CHECK_DEPENDENCIES, failedTask CHECK_DEPENDENCIES]
      \<and> run_outcome env = Inl (errorMessage (msg_no_graphqlsp env)))
   \<and> (DependencyMap p ''typescript'' = Some t
        \<and> semiverComply (semiver env) t (typescript MINIMUM_VERSIONS)
        \<and> DependencyMap p ''@0no-co/graphqlsp'' = Some g
        \<and> \<not> semiverComply (semiver env) g (lsp MINIMUM_VERSIONS) \<longrightarrow>
      run_events env = [title TITLE DESCRIPTION,
                        runningTask CHECK_TS_VERSION, completedTask CHECK_TS_VERSION False,
                        runningTask CHECK_DEPENDENCIES, failedTask CHECK_DEPENDENCIES]
      \<and> run_outcome env = Inl (errorMessage (msg_old_graphqlsp env)))
   \<and> (DependencyMap p ''typescript'' = Some t
        \<and> semiverComply (semiver env) t (typescript MINIMUM_VERSIONS)
        \<and> DependencyMap p ''@0no-co/graphqlsp'' = Some g
        \<and> semiverComply (semiver env) g (lsp MINIMUM_VERSIONS)
        \<and> DependencyMap p ''gql.tada'' = None \<longrightarrow>
      run_events env = [title TITLE DESCRIPTION,
                        runningTask CHECK_TS_VERSION, completedTask CHECK_TS_VERSION False,
                        runningTask CHECK_DEPENDENCIES, failedTask CHECK_DEPENDENCIES]
      \<and> run_outcome env = Inl (errorMessage (msg_no_tada env)))
   \<and> (DependencyMap p ''typescript'' = Some t
        \<and> semiverComply (semiver env) t (typescript MINIMUM_VERSIONS)
        \<and> DependencyMap p ''@0no-co/graphqlsp'' = Some g
        \<and> semiverComply (semiver env) g (lsp MINIMUM_VERSIONS)
        \<and> DependencyMap p ''gql.tada'' = Some d
        \<and> \<not> semiverComply (semiver env) d ''1.0.0'' \<longrightarrow>
      run_events env = [title TITLE DESCRIPTION,
                        runningTask CHECK_TS_VERSION, completedTask CHECK_TS_VERSION False,
                        runningTask CHECK_DEPENDENCIES, failedTask CHECK_DEPENDENCIES]
      \<and> run_outcome env = Inl (errorMessage (msg_old_tada env)))
   \<and> (DependencyMap p ''typescript'' = Some t
        \<and> semiverComply (semiver env) t (typescript MINIMUM_VERSIONS)
        \<and> DependencyMap p ''@0no-co/graphqlsp'' = Some g
        \<and> semiverComply (semiver env) g (lsp MINIMUM_VERSIONS)
        \<and> DependencyMap p ''gql.tada'' = Some d
        \<and> semiverComply (semiver env) d ''1.0.0'' \<longrightarrow>
      (\<exists>rest. run_events env = [title TITLE DESCRIPTION,
                        runningTask CHECK_TS_VERSION, completedTask CHECK_TS_VERSION False,
                        runningTask CHECK_DEPENDENCIES, completedTask CHECK_DEPENDENCIES False] @ rest))"
proof -
  have F: "find (\<lambda>x. fst x = n) (dependency_entries p)
             = map_option (Pair n) (DependencyMap p n)" for n
    using assms(2,3)
    by (simp add: find_key map_of_dependency_entries is_object_def DependencyMap_def)
  have pf: "package_found (dependency_entries p) n \<longleftrightarrow> DependencyMap p n \<noteq> None" for n
    by (simp add: package_found_def F)
  have pc: "package_complies env (dependency_entries p) n m
             \<longleftrightarrow> (case DependencyMap p n of
                    None \<Rightarrow> False
                  | Some u \<Rightarrow> semiverComply (semiver env) u m)" for n m
    by (simp add: package_complies_def F split: option.splits)
  have ts: "ts_version_ok env
             \<longleftrightarrow> package_complies env (dependency_entries p) ''typescript''
                   (typescript MINIMUM_VERSIONS)"
    using assms(1) by (simp add: ts_version_ok_def)
  have ds: "dependencies_ok env
             \<longleftrightarrow> package_complies env (dependency_entries p) ''@0no-co/graphqlsp''
                   (lsp MINIMUM_VERSIONS)
                 \<and> package_complies env (dependency_entries p) ''gql.tada'' ''1.0.0''"
    using assms(1) by (simp add: dependencies_ok_def)
  show ?thesis
  proof (intro conjI impI)
    show "find (\<lambda>x. fst x = name) (dependency_entries p)
            = map_option (Pair name) (DependencyMap p name)"
      by (rule F)
  next
    assume "map_of (dependencies p) name = Some v \<and> map_of (devDependencies p) name = Some w"
    then show "DependencyMap p name = Some w"
      by (simp add: DependencyMap_def)
  next
    assume a: "DependencyMap p ''typescript'' = None"
    then show "run_events env = [title TITLE DESCRIPTION, runningTask CHECK_TS_VERSION,
                        failedTask CHECK_TS_VERSION]"
      and "run_outcome env = Inl (errorMessage (msg_no_typescript env))"
      using run_no_typescript[OF assms(1)]
      by (simp_all add: pf pc ts)
  next
    assume a: "DependencyMap p ''typescript'' = Some t
        \<and> \<not> semiverComply (semiver env) t (typescript MINIMUM_VERSIONS)"
    then show "run_events env = [title TITLE DESCRIPTION, runningTask CHECK_TS_VERSION,
                        failedTask CHECK_TS_VERSION]"
      and "run_outcome env = Inl (errorMessage (msg_old_typescript env))"
      using run_old_typescript[OF assms(1)]
      by (simp_all add: pf pc ts)
  next
    assume a: "DependencyMap p ''typescript'' = Some t
        \<and> semiverComply (semiver env) t (typescript MINIMUM_VERSIONS)
        \<and> DependencyMap p ''@0no-co/graphqlsp'' = None"
    then show "run_events env = [title TITLE DESCRIPTION,
                        runningTask CHECK_TS_VERSION, completedTask CHECK_TS_VERSION False,
                        runningTask CHECK_DEPENDENCIES, failedTask CHECK_DEPENDENCIES]"
      and "run_outcome env = Inl (errorMessage (msg_no_graphqlsp env))"
      using run_no_graphqlsp[OF _ assms(1)]
      by (simp_all add: pf pc ts)
  next
    assume a: "DependencyMap p ''typescript'' = Some t
        \<and> semiverComply (semiver env) t (typescript MINIMUM_VERSIONS)
        \<and> DependencyMap p ''@0no-co/graphqlsp'' = Some g
        \<and> \<not> semiverComply (semiver env) g (lsp MINIMUM_VERSIONS)"
    then show "run_events env = [title TITLE DESCRIPTION,
                        runningTask CHECK_TS_VERSION, completedTask CHECK_TS_VERSION False,
                        runningTask CHECK_DEPENDENCIES, failedTask CHECK_DEPENDENCIES]"
      and "run_outcome env = Inl (errorMessage (msg_old_graphqlsp env))"
      using run_old_graphqlsp[OF _ assms(1)]
      by (simp_all add: pf pc ts)
  next
    assume a: "DependencyMap p ''typescript'' = Some t
        \<and> semiverComply (semiver env) t (typescript MINIMUM_VERSIONS)
        \<and> DependencyMap p ''@0no-co/graphqlsp'' = Some g
        \<and> semiverComply (semiver env) g (lsp MINIMUM_VERSIONS)
        \<and> DependencyMap p ''gql.tada'' = None"
    then show "run_events env = [title TITLE DESCRIPTION,
                        runningTask CHECK_TS_VERSION, completedTask CHECK_TS_VERSION False,
                        runningTask CHECK_DEPENDENCIES, failedTask CHECK_DEPENDENCIES]"
      and "run_outcome env = Inl (errorMessage (msg_no_tada env))"
      using run_no_tada[OF _ assms(1)]
      by (simp_all add: pf pc ts)
  next
    assume a: "DependencyMap p ''typescript'' = Some t
        \<and> semiverComply (semiver env) t (typescript MINIMUM_VERSIONS)
        \<and> DependencyMap p ''@0no-co/graphqlsp'' = Some g
        \<and> semiverComply (semiver env) g (lsp MINIMUM_VERSIONS)
        \<and> DependencyMap p ''gql.tada'' = Some d
        \<and> \<not> semiverComply (semiver env) d ''1.0.0''"
    then show "run_events env = [title TITLE DESCRIPTION,
                        runningTask CHECK_TS_VERSION, completedTask CHECK_TS_VERSION False,
                        runningTask CHECK_DEPENDENCIES, failedTask CHECK_DEPENDENCIES]"
      and "run_outcome env = Inl (errorMessage (msg_old_tada env))"
      using run_old_tada[OF _ assms(1)]
      by (simp_all add: pf pc ts)
  next
    assume a: "DependencyMap p ''typescript'' = Some t
        \<and> semiverComply (semiver env) t (typescript MINIMUM_VERSIONS)
        \<and> DependencyMap p ''@0no-co/graphqlsp'' = Some g
        \<and> semiverComply (semiver env) g (lsp MINIMUM_VERSIONS)
        \<and> DependencyMap p ''gql.tada'' = Some d
        \<and> semiverComply (semiver env) d ''1.0.0''"
    then have "ts_version_ok env" and "dependencies_ok env"
      by (simp_all add: pc ts ds)
    then show "\<exists>rest. run_events env = [title TITLE DESCRIPTION,
                        runningTask CHECK_TS_VERSION, completedTask CHECK_TS_VERSION False,
                        runningTask CHECK_DEPENDENCIES, completedTask CHECK_DEPENDENCIES False] @ rest"
      by (rule run_through_dependencies)
  qed
qed

theorem run_consults_DependencyMap_witness:
  "(manifest example_env = Some example_manifest
      \<and> is_object (dependencies example_manifest)
      \<and> is_object (devDependencies example_manifest)
      \<and> map_of (dependencies example_manifest) ''typescript'' = Some ''3.9.0''
      \<and> map_of (devDependencies example_manifest) ''typescript'' = Some ''^5.3.3''
      \<and> DependencyMap example_manifest ''typescript'' = Some ''^5.3.3''
      \<and> semiverComply (semiver example_env) ''^5.3.3'' (typescript MINIMUM_VERSIONS)
      \<and> DependencyMap example_manifest ''@0no-co/graphqlsp'' = Some ''~1.1.0''
      \<and> semiverComply (semiver example_env) ''~1.1.0'' (lsp MINIMUM_VERSIONS)
      \<and> DependencyMap example_manifest ''gql.tada'' = Some ''^1.0.3''
      \<and> semiverComply (semiver example_env) ''^1.0.3'' ''1.0.0''
      \<and> find (\<lambda>x. fst x = ''typescript'') (dependency_entries example_manifest)
         = Some (''typescript'', ''^5.3.3'')
      \<and> (\<exists>rest. run_events example_env =
         [title TITLE DESCRIPTION,
          runningTask CHECK_TS_VERSION, completedTask CHECK_TS_VERSION False,
          runningTask CHECK_DEPENDENCIES, completedTask CHECK_DEPENDENCIES False] @ rest))
   \<and> (manifest (example_project \<lparr>dependencies = [], devDependencies = []\<rparr>) = Some \<lparr>dependencies = [], devDependencies = []\<rparr>
      \<and> is_object (dependencies \<lparr>dependencies = [], devDependencies = []\<rparr>)
      \<and> is_object (devDependencies \<lparr>dependencies = [], devDependencies = []\<rparr>)
      \<and> DependencyMap \<lparr>dependencies = [], devDependencies = []\<rparr> ''typescript'' = None
      \<and> run_events (example_project \<lparr>dependencies = [], devDependencies = []\<rparr>) =
         [title TITLE DESCRIPTION, runningTask CHECK_TS_VERSION, failedTask CHECK_TS_VERSION]
      \<and> run_outcome (example_project \<lparr>dependencies = [], devDependencies = []\<rparr>) =
         Inl (errorMessage (msg_no_typescript (example_project \<lparr>dependencies = [], devDependencies = []\<rparr>))))
   \<and> (manifest (example_project \<lparr>dependencies = [(''typescript'', ''^5.3.3'')], devDependencies = [(''typescript'', ''3.9.0'')]\<rparr>) = Some \<lparr>dependencies = [(''typescript'', ''^5.3.3'')], devDependencies = [(''typescript'', ''3.9.0'')]\<rparr>
      \<and> is_object (dependencies \<lparr>dependencies = [(''typescript'', ''^5.3.3'')], devDependencies = [(''typescript'', ''3.9.0'')]\<rparr>)
      \<and> is_object (devDependencies \<lparr>dependencies = [(''typescript'', ''^5.3.3'')], devDependencies = [(''typescript'', ''3.9.0'')]\<rparr>)
      \<and> DependencyMap \<lparr>dependencies = [(''typescript'', ''^5.3.3'')], devDependencies = [(''typescript'', ''3.9.0'')]\<rparr> ''typescript'' = Some ''3.9.0''
      \<and> \<not> semiverComply (semiver (example_project \<lparr>dependencies = [(''typescript'', ''^5.3.3'')], devDependencies = [(''typescript'', ''3.9.0'')]\<rparr>)) ''3.9.0'' (typescript MINIMUM_VERSIONS)
      \<and> run_events (example_project \<lparr>dependencies = [(''typescript'', ''^5.3.3'')], devDependencies = [(''typescript'', ''3.9.0'')]\<rparr>) =
         [title TITLE DESCRIPTION, runningTask CHECK_TS_VERSION, failedTask CHECK_TS_VERSION]
      \<and> run_outcome (example_project \<lparr>dependencies = [(''typescript'', ''^5.3.3'')], devDependencies = [(''typescript'', ''3.9.0'')]\<rparr>) =
         Inl (errorMessage (msg_old_typescript (example_project \<lparr>dependencies = [(''typescript'', ''^5.3.3'')], devDependencies = [(''typescript'', ''3.9.0'')]\<rparr>))))
   \<and> (manifest (example_project \<lparr>dependencies = [(''gql.tada'', ''0.5.0'')], devDependencies = [(''typescript'', ''^5.3.3'')]\<rparr>) = Some \<lparr>dependencies = [(''gql.tada'', ''0.5.0'')], devDependencies = [(''typescript'', ''^5.3.3'')]\<rparr>
      \<and> is_object (dependencies \<lparr>dependencies = [(''gql.tada'', ''0.5.0'')], devDependencies = [(''typescript'', ''^5.3.3'')]\<rparr>)
      \<and> is_object (devDependencies \<lparr>dependencies = [(''gql.tada'', ''0.5.0'')], devDependencies = [(''typescript'', ''^5.3.3'')]\<rparr>)
      \<and> DependencyMap \<lparr>dependencies = [(''gql.tada'', ''0.5.0'')], devDependencies = [(''typescript'', ''^5.3.3'')]\<rparr> ''typescript'' = Some ''^5.3.3''
      \<and> semiverComply (semiver (example_project \<lparr>dependencies = [(''gql.tada'', ''0.5.0'')], devDependencies = [(''typescript'', ''^5.3.3'')]\<rparr>)) ''^5.3.3'' (typescript MINIMUM_VERSIONS)
      \<and> DependencyMap \<lparr>dependencies = [(''gql.tada'', ''0.5.0'')], devDependencies = [(''typescript'', ''^5.3.3'')]\<rparr> ''@0no-co/graphqlsp'' = None
      \<and> run_events (example_project \<lparr>dependencies = [(''gql.tada'', ''0.5.0'')], devDependencies = [(''typescript'', ''^5.3.3'')]\<rparr>) =
         [title TITLE DESCRIPTION,
          runningTask CHECK_TS_VERSION, completedTask CHECK_TS_VERSION False,
          runningTask CHECK_DEPENDENCIES, failedTask CHECK_DEPENDENCIES]
      \<and> run_outcome (example_project \<lparr>dependencies = [(''gql.tada'', ''0.5.0'')], devDependencies = [(''typescript'', ''^5.3.3'')]\<rparr>) =
         Inl (errorMessage (msg_no_graphqlsp (example_project \<lparr>dependencies = [(''gql.tada'', ''0.5.0'')], devDependencies = [(''typescript'', ''^5.3.3'')]\<rparr>))))
   \<and> (manifest (example_project \<lparr>dependencies = [(''@0no-co/graphqlsp'', ''~1.1.0'')], devDependencies = [(''typescript'', ''^5.3.3''), (''@0no-co/graphqlsp'', ''0.9.0'')]\<rparr>) = Some \<lparr>dependencies = [(''@0no-co/graphqlsp'', ''~1.1.0'')], devDependencies = [(''typescript'', ''^5.3.3''), (''@0no-co/graphqlsp'', ''0.9.0'')]\<rparr>
      \<and> is_object (dependencies \<lparr>dependencies = [(''@0no-co/graphqlsp'', ''~1.1.0'')], devDependencies = [(''typescript'', ''^5.3.3''), (''@0no-co/graphqlsp'', ''0.9.0'')]\<rparr>)
      \<and> is_object (devDependencies \<lparr>dependencies = [(''@0no-co/graphqlsp'', ''~1.1.0'')], devDependencies = [(''typescript'', ''^5.3.3''), (''@0no-co/graphqlsp'', ''0.9.0'')]\<rparr>)
      \<and> DependencyMap \<lparr>dependencies = [(''@0no-co/graphqlsp'', ''~1.1.0'')], devDependencies = [(''typescript'', ''^5.3.3''), (''@0no-co/graphqlsp'', ''0.9.0'')]\<rparr> ''typescript'' = Some ''^5.3.3''
      \<and> semiverComply (semiver (example_project \<lparr>dependencies = [(''@0no-co/graphqlsp'', ''~1.1.0'')], devDependencies = [(''typescript'', ''^5.3.3''), (''@0no-co/graphqlsp'', ''0.9.0'')]\<rparr>)) ''^5.3.3'' (typescript MINIMUM_VERSIONS)
      \<and> DependencyMap \<lparr>dependencies = [(''@0no-co/graphqlsp'', ''~1.1.0'')], devDependencies = [(''typescript'', ''^5.3.3''), (''@0no-co/graphqlsp'', ''0.9.0'')]\<rparr> ''@0no-co/graphqlsp'' = Some ''0.9.0''
      \<and> \<not> semiverComply (semiver (example_project \<lparr>dependencies = [(''@0no-co/graphqlsp'', ''~1.1.0'')], devDependencies = [(''typescript'', ''^5.3.3''), (''@0no-co/graphqlsp'', ''0.9.0'')]\<rparr>)) ''0.9.0'' (lsp MINIMUM_VERSIONS)
      \<and> run_events (example_project \<lparr>dependencies = [(''@0no-co/graphqlsp'', ''~1.1.0'')], devDependencies = [(''typescript'', ''^5.3.3''), (''@0no-co/graphqlsp'', ''0.9.0'')]\<rparr>) =
         [title TITLE DESCRIPTION,
          runningTask CHECK_TS_VERSION, completedTask CHECK_TS_VERSION False,
          runningTask CHECK_DEPENDENCIES, failedTask CHECK_DEPENDENCIES]
      \<and> run_outcome (example_project \<lparr>dependencies = [(''@0no-co/graphqlsp'', ''~1.1.0'')], devDependencies = [(''typescript'', ''^5.3.3''), (''@0no-co/graphqlsp'', ''0.9.0'')]\<rparr>) =
         Inl (errorMessage (msg_old_graphqlsp (example_project \<lparr>dependencies = [(''@0no-co/graphqlsp'', ''~1.1.0'')], devDependencies = [(''typescript'', ''^5.3.3''), (''@0no-co/graphqlsp'', ''0.9.0'')]\<rparr>))))
   \<and> (manifest (example_project \<lparr>dependencies = [], devDependencies = [(''typescript'', ''^5.3.3''), (''@0no-co/graphqlsp'', ''~1.1.0'')]\<rparr>) = Some \<lparr>dependencies = [], devDependencies = [(''typescript'', ''^5.3.3''), (''@0no-co/graphqlsp'', ''~1.1.0'')]\<rparr>
      \<and> is_object (dependencies \<lparr>dependencies = [], devDependencies = [(''typescript'', ''^5.3.3''), (''@0no-co/graphqlsp'', ''~1.1.0'')]\<rparr>)
      \<and> is_object (devDependencies \<lparr>dependencies = [], devDependencies = [(''typescript'', ''^5.3.3''), (''@0no-co/graphqlsp'', ''~1.1.0'')]\<rparr>)
      \<and> DependencyMap \<lparr>dependencies = [], devDependencies = [(''typescript'', ''^5.3.3''), (''@0no-co/graphqlsp'', ''~1.1.0'')]\<rparr> ''typescript'' = Some ''^5.3.3''
      \<and> semiverComply (semiver (example_project \<lparr>dependencies = [], devDependencies = [(''typescript'', ''^5.3.3''), (''@0no-co/graphqlsp'', ''~1.1.0'')]\<rparr>)) ''^5.3.3'' (typescript MINIMUM_VERSIONS)
      \<and> DependencyMap \<lparr>dependencies = [], devDependencies = [(''typescript'', ''^5.3.3''), (''@0no-co/graphqlsp'', ''~1.1.0'')]\<rparr> ''@0no-co/graphqlsp'' = Some ''~1.1.0''
      \<and> semiverComply (semiver (example_project \<lparr>dependencies = [], devDependencies = [(''typescript'', ''^5.3.3''), (''@0no-co/graphqlsp'', ''~1.1.0'')]\<rparr>)) ''~1.1.0'' (lsp MINIMUM_VERSIONS)
      \<and> DependencyMap \<lparr>dependencies = [], devDependencies = [(''typescript'', ''^5.3.3''), (''@0no-co/graphqlsp'', ''~1.1.0'')]\<rparr> ''gql.tada'' = None
      \<and> run_events (example_project \<lparr>dependencies = [], devDependencies = [(''typescript'', ''^5.3.3''), (''@0no-co/graphqlsp'', ''~1.1.0'')]\<rparr>) =
         [title TITLE DESCRIPTION,
          runningTask CHECK_TS_VERSION, completedTask CHECK_TS_VERSION False,
          runningTask CHECK_DEPENDENCIES, failedTask CHECK_DEPENDENCIES]
      \<and> run_outcome (example_project \<lparr>dependencies = [], devDependencies = [(''typescript'', ''^5.3.3''), (''@0no-co/graphqlsp'', ''~1.1.0'')]\<rparr>) =
         Inl (errorMessage (msg_no_tada (example_project \<lparr>dependencies = [], devDependencies = [(''typescript'', ''^5.3.3''), (''@0no-co/graphqlsp'', ''~1.1.0'')]\<rparr>))))
   \<and> (manifest (example_project \<lparr>dependencies = [(''gql.tada'', ''^1.0.3'')], devDependencies = [(''typescript'', ''^5.3.3''), (''@0no-co/graphqlsp'', ''~1.1.0''), (''gql.tada'', ''0.5.0'')]\<rparr>) = Some \<lparr>dependencies = [(''gql.tada'', ''^1.0.3'')], devDependencies = [(''typescript'', ''^5.3.3''), (''@0no-co/graphqlsp'', ''~1.1.0''), (''gql.tada'', ''0.5.0'')]\<rparr>
      \<and> is_object (dependencies \<lparr>dependencies = [(''gql.tada'', ''^1.0.3'')], devDependencies = [(''typescript'', ''^5.3.3''), (''@0no-co/graphqlsp'', ''~1.1.0''), (''gql.tada'', ''0.5.0'')]\<rparr>)
      \<and> is_object (devDependencies \<lparr>dependencies = [(''gql.tada'', ''^1.0.3'')], devDependencies = [(''typescript'', ''^5.3.3''), (''@0no-co/graphqlsp'', ''~1.1.0''), (''gql.tada'', ''0.5.0'')]\<rparr>)
      \<and> DependencyMap \<lparr>dependencies = [(''gql.tada'', ''^1.0.3'')], devDependencies = [(''typescript'', ''^5.3.3''), (''@0no-co/graphqlsp'', ''~1.1.0''), (''gql.tada'', ''0.5.0'')]\<rparr> ''typescript'' = Some ''^5.3.3''
      \<and> semiverComply (semiver (example_project \<lparr>dependencies = [(''gql.tada'', ''^1.0.3'')], devDependencies = [(''typescript'', ''^5.3.3''), (''@0no-co/graphqlsp'', ''~1.1.0''), (''gql.tada'', ''0.5.0'')]\<rparr>)) ''^5.3.3'' (typescript MINIMUM_VERSIONS)
      \<and> DependencyMap \<lparr>dependencies = [(''gql.tada'', ''^1.0.3'')], devDependencies = [(''typescript'', ''^5.3.3''), (''@0no-co/graphqlsp'', ''~1.1.0''), (''gql.tada'', ''0.5.0'')]\<rparr> ''@0no-co/graphqlsp'' = Some ''~1.1.0''
      \<and> semiverComply (semiver (example_project \<lparr>dependencies = [(''gql.tada'', ''^1.0.3'')], devDependencies = [(''typescript'', ''^5.3.3''), (''@0no-co/graphqlsp'', ''~1.1.0''), (''gql.tada'', ''0.5.0'')]\<rparr>)) ''~1.1.0'' (lsp MINIMUM_VERSIONS)
      \<and> DependencyMap \<lparr>dependencies = [(''gql.tada'', ''^1.0.3'')], devDependencies = [(''typescript'', ''^5.3.3''), (''@0no-co/graphqlsp'', ''~1.1.0''), (''gql.tada'', ''0.5.0'')]\<rparr> ''gql.tada'' = Some ''0.5.0''
      \<and> \<not> semiverComply (semiver (example_project \<lparr>dependencies = [(''gql.tada'', ''^1.0.3'')], devDependencies = [(''typescript'', ''^5.3.3''), (''@0no-co/graphqlsp'', ''~1.1.0''), (''gql.tada'', ''0.5.0'')]\<rparr>)) ''0.5.0'' ''1.0.0''
      \<and> run_events (example_project \<lparr>dependencies = [(''gql.tada'', ''^1.0.3'')], devDependencies = [(''typescript'', ''^5.3.3''), (''@0no-co/graphqlsp'', ''~1.1.0''), (''gql.tada'', ''0.5.0'')]\<rparr>) =
         [title TITLE DESCRIPTION,
          runningTask CHECK_TS_VERSION, completedTask CHECK_TS_VERSION False,
          runningTask CHECK_DEPENDENCIES, failedTask CHECK_DEPENDENCIES]
      \<and> run_outcome (example_project \<lparr>dependencies = [(''gql.tada'', ''^1.0.3'')], devDependencies = [(''typescript'', ''^5.3.3''), (''@0no-co/graphqlsp'', ''~1.1.0''), (''gql.tada'', ''0.5.0'')]\<rparr>) =
         Inl (errorMessage (msg_old_tada (example_project \<lparr>dependencies = [(''gql.tada'', ''^1.0.3'')], devDependencies = [(''typescript'', ''^5.3.3''), (''@0no-co/graphqlsp'', ''~1.1.0''), (''gql.tada'', ''0.5.0'')]\<rparr>))))"
proof -
  have h0: "manifest example_env = Some example_manifest
      \<and> is_object (dependencies example_manifest)
      \<and> is_object (devDependencies example_manifest)
      \<and> map_of (dependencies example_manifest) ''typescript'' = Some ''3.9.0''
      \<and> map_of (devDependencies example_manifest) ''typescript'' = Some ''^5.3.3''
      \<and> DependencyMap example_manifest ''typescript'' = Some ''^5.3.3''
      \<and> semiverComply (semiver example_env) ''^5.3.3'' (typescript MINIMUM_VERSIONS)
      \<and> DependencyMap example_manifest ''@0no-co/graphqlsp'' = Some ''~1.1.0''
      \<and> semiverComply (semiver example_env) ''~1.1.0'' (lsp MINIMUM_VERSIONS)
      \<and> DependencyMap example_manifest ''gql.tada'' = Some ''^1.0.3''
      \<and> semiverComply (semiver example_env) ''^1.0.3'' ''1.0.0''"
    by (simp add: example_defs DependencyMap_def is_object_def)
  have w0: "(manifest example_env = Some example_manifest
      \<and> is_object (dependencies example_manifest)
      \<and> is_object (devDependencies example_manifest)
      \<and> map_of (dependencies example_manifest) ''typescript'' = Some ''3.9.0''
      \<and> map_of (devDependencies example_manifest) ''typescript'' = Some ''^5.3.3''
      \<and> DependencyMap example_manifest ''typescript'' = Some ''^5.3.3''
      \<and> semiverComply (semiver example_env) ''^5.3.3'' (typescript MINIMUM_VERSIONS)
      \<and> DependencyMap example_manifest ''@0no-co/graphqlsp'' = Some ''~1.1.0''
      \<and> semiverComply (semiver example_env) ''~1.1.0'' (lsp MINIMUM_VERSIONS)
      \<and> DependencyMap example_manifest ''gql.tada'' = Some ''^1.0.3''
      \<and> semiverComply (semiver example_env) ''^1.0.3'' ''1.0.0''
      \<and> find (\<lambda>x. fst x = ''typescript'') (dependency_entries example_manifest)
         = Some (''typescript'', ''^5.3.3'')
      \<and> (\<exists>rest. run_events example_env =
         [title TITLE DESCRIPTION,
          runningTask CHECK_TS_VERSION, completedTask CHECK_TS_VERSION False,
          runningTask CHECK_DEPENDENCIES, completedTask CHECK_DEPENDENCIES False] @ rest))"
    using run_consults_DependencyMap[where env = example_env and p = example_manifest
        and name = "''typescript''" and v = "''3.9.0''" and w = "''^5.3.3''"
        and t = "''^5.3.3''" and g = "''~1.1.0''" and d = "''^1.0.3''"] h0
    by simp
  define m1 where "m1 = \<lparr>dependencies = [], devDependencies = []\<rparr>"
  have h1: "manifest (example_project m1) = Some m1
      \<and> is_object (dependencies m1)
      \<and> is_object (devDependencies m1)
      \<and> DependencyMap m1 ''typescript'' = None"
    unfolding m1_def by (simp add: example_defs DependencyMap_def is_object_def)
  have w1: "(manifest (example_project m1) = Some m1
      \<and> is_object (dependencies m1)
      \<and> is_object (devDependencies m1)
      \<and> DependencyMap m1 ''typescript'' = None
      \<and> run_events (example_project m1) =
         [title TITLE DESCRIPTION, runningTask CHECK_TS_VERSION, failedTask CHECK_TS_VERSION]
      \<and> run_outcome (example_project m1) =
         Inl (errorMessage (msg_no_typescript (example_project m1))))"
    using run_consults_DependencyMap[where env = "example_project m1" and p = m1] h1
    by simp
  define m2 where "m2 = \<lparr>dependencies = [(''typescript'', ''^5.3.3'')], devDependencies = [(''typescript'', ''3.9.0'')]\<rparr>"
  have h2: "manifest (example_project m2) = Some m2
      \<and> is_object (dependencies m2)
      \<and> is_object (devDependencies m2)
      \<and> DependencyMap m2 ''typescript'' = Some ''3.9.0''
      \<and> \<not> semiverComply (semiver (example_project m2)) ''3.9.0'' (typescript MINIMUM_VERSIONS)"
    unfolding m2_def by (simp add: example_defs DependencyMap_def is_object_def)
  have w2: "(manifest (example_project m2) = Some m2
      \<and> is_object (dependencies m2)
      \<and> is_object (devDependencies m2)
      \<and> DependencyMap m2 ''typescript'' = Some ''3.9.0''
      \<and> \<not> semiverComply (semiver (example_project m2)) ''3.9.0'' (typescript MINIMUM_VERSIONS)
      \<and> run_events (example_project m2) =
         [title TITLE DESCRIPTION, runningTask CHECK_TS_VERSION, failedTask CHECK_TS_VERSION]
      \<and> run_outcome (example_project m2) =
         Inl (errorMessage (msg_old_typescript (example_project m2))))"
    using run_consults_DependencyMap[where env = "example_project m2" and p = m2 and t = "''3.9.0''"] h2
    by simp
  define m3 where "m3 = \<lparr>dependencies = [(''gql.tada'', ''0.5.0'')], devDependencies = [(''typescript'', ''^5.3.3'')]\<rparr>"
  have h3: "manifest (example_project m3) = Some m3
      \<and> is_object (dependencies m3)
      \<and> is_object (devDependencies m3)
      \<and> DependencyMap m3 ''typescript'' = Some ''^5.3.3''
      \<and> semiverComply (semiver (example_project m3)) ''^5.3.3'' (typescript MINIMUM_VERSIONS)
      \<and> DependencyMap m3 ''@0no-co/graphqlsp'' = None"
    unfolding m3_def by (simp add: example_defs DependencyMap_def is_object_def)
  have w3: "(manifest (example_project m3) = Some m3
      \<and> is_object (dependencies m3)
      \<and> is_object (devDependencies m3)
      \<and> DependencyMap m3 ''typescript'' = Some ''^5.3.3''
      \<and> semiverComply (semiver (example_project m3)) ''^5.3.3'' (typescript MINIMUM_VERSIONS)
      \<and> DependencyMap m3 ''@0no-co/graphqlsp'' = None
      \<and> run_events (example_project m3) =
         [title TITLE DESCRIPTION,
          runningTask CHECK_TS_VERSION, completedTask CHECK_TS_VERSION False,
          runningTask CHECK_DEPENDENCIES, failedTask CHECK_DEPENDENCIES]
      \<and> run_outcome (example_project m3) =
         Inl (errorMessage (msg_no_graphqlsp (example_project m3))))"
    using run_consults_DependencyMap[where env = "example_project m3" and p = m3 and t = "''^5.3.3''"] h3
    by simp
  define m4 where "m4 = \<lparr>dependencies = [(''@0no-co/graphqlsp'', ''~1.1.0'')], devDependencies = [(''typescript'', ''^5.3.3''), (''@0no-co/graphqlsp'', ''0.9.0'')]\<rparr>"
  have h4: "manifest (example_project m4) = Some m4
      \<and> is_object (dependencies m4)
      \<and> is_object (devDependencies m4)
      \<and> DependencyMap m4 ''typescript'' = Some ''^5.3.3''
      \<and> semiverComply (semiver (example_project m4)) ''^5.3.3'' (typescript MINIMUM_VERSIONS)
      \<and> DependencyMap m4 ''@0no-co/graphqlsp'' = Some ''0.9.0''
      \<and> \<not> semiverComply (semiver (example_project m4)) ''0.9.0'' (lsp MINIMUM_VERSIONS)"
    unfolding m4_def by (simp add: example_defs DependencyMap_def is_object_def)
  have w4: "(manifest (example_project m4) = Some m4
      \<and> is_object (dependencies m4)
      \<and> is_object (devDependencies m4)
      \<and> DependencyMap m4 ''typescript'' = Some ''^5.3.3''
      \<and> semiverComply (semiver (example_project m4)) ''^5.3.3'' (typescript MINIMUM_VERSIONS)
      \<and> DependencyMap m4 ''@0no-co/graphqlsp'' = Some ''0.9.0''
      \<and> \<not> semiverComply (semiver (example_project m4)) ''0.9.0'' (lsp MINIMUM_VERSIONS)
      \<and> run_events (example_project m4) =
         [title TITLE DESCRIPTION,
          runningTask CHECK_TS_VERSION, completedTask CHECK_TS_VERSION False,
          runningTask CHECK_DEPENDENCIES, failedTask CHECK_DEPENDENCIES]
      \<and> run_outcome (example_project m4) =
         Inl (errorMessage (msg_old_graphqlsp (example_project m4))))"
    using run_consults_DependencyMap[where env = "example_project m4" and p = m4 and t = "''^5.3.3''" and g = "''0.9.0''"] h4
    by simp
  define m5 where "m5 = \<lparr>dependencies = [], devDependencies = [(''typescript'', ''^5.3.3''), (''@0no-co/graphqlsp'', ''~1.1.0'')]\<rparr>"
  have h5: "manifest (example_project m5) = Some m5
      \<and> is_object (dependencies m5)
      \<and> is_object (devDependencies m5)
      \<and> DependencyMap m5 ''typescript'' = Some ''^5.3.3''
      \<and> semiverComply (semiver (example_project m5)) ''^5.3.3'' (typescript MINIMUM_VERSIONS)
      \<and> DependencyMap m5 ''@0no-co/graphqlsp'' = Some ''~1.1.0''
      \<and> semiverComply (semiver (example_project m5)) ''~1.1.0'' (lsp MINIMUM_VERSIONS)
      \<and> DependencyMap m5 ''gql.tada'' = None"
    unfolding m5_def by (simp add: example_defs DependencyMap_def is_object_def)
  have w5: "(manifest (example_project m5) = Some m5
      \<and> is_object (dependencies m5)
      \<and> is_object (devDependencies m5)
      \<and> DependencyMap m5 ''typescript'' = Some ''^5.3.3''
      \<and> semiverComply (semiver (example_project m5)) ''^5.3.3'' (typescript MINIMUM_VERSIONS)
      \<and> DependencyMap m5 ''@0no-co/graphqlsp'' = Some ''~1.1.0''
      \<and> semiverComply (semiver (example_project m5)) ''~1.1.0'' (lsp MINIMUM_VERSIONS)
      \<and> DependencyMap m5 ''gql.tada'' = None
      \<and> run_events (example_project m5) =
         [title TITLE DESCRIPTION,
          runningTask CHECK_TS_VERSION, completedTask CHECK_TS_VERSION False,
          runningTask CHECK_DEPENDENCIES, failedTask CHECK_DEPENDENCIES]
      \<and> run_outcome (example_project m5) =
         Inl (errorMessage (msg_no_tada (example_project m5))))"
    using run_consults_DependencyMap[where env = "example_project m5" and p = m5 and t = "''^5.3.3''" and g = "''~1.1.0''"] h5
    by simp
  define m6 where "m6 = \<lparr>dependencies = [(''gql.tada'', ''^1.0.3'')], devDependencies = [(''typescript'', ''^5.3.3''), (''@0no-co/graphqlsp'', ''~1.1.0''), (''gql.tada'', ''0.5.0'')]\<rparr>"
  have h6: "manifest (example_project m6) = Some m6
      \<and> is_object (dependencies m6)
      \<and> is_object (devDependencies m6)
      \<and> DependencyMap m6 ''typescript'' = Some ''^5.3.3''
      \<and> semiverComply (semiver (example_project m6)) ''^5.3.3'' (typescript MINIMUM_VERSIONS)
      \<and> DependencyMap m6 ''@0no-co/graphqlsp'' = Some ''~1.1.0''
      \<and> semiverComply (semiver (example_project m6)) ''~1.1.0'' (lsp MINIMUM_VERSIONS)
      \<and> DependencyMap m6 ''gql.tada'' = Some ''0.5.0''
      \<and> \<not> semiverComply (semiver (example_project m6)) ''0.5.0'' ''1.0.0''"
    unfolding m6_def by (simp add: example_defs DependencyMap_def is_object_def)
  have w6: "(manifest (example_project m6) = Some m6
      \<and> is_object (dependencies m6)
      \<and> is_object (devDependencies m6)
      \<and> DependencyMap m6 ''typescript'' = Some ''^5.3.3''
      \<and> semiverComply (semiver (example_project m6)) ''^5.3.3'' (typescript MINIMUM_VERSIONS)
      \<and> DependencyMap m6 ''@0no-co/graphqlsp'' = Some ''~1.1.0''
      \<and> semiverComply (semiver (example_project m6)) ''~1.1.0'' (lsp MINIMUM_VERSIONS)
      \<and> DependencyMap m6 ''gql.tada'' = Some ''0.5.0''
      \<and> \<not> semiverComply (semiver (example_project m6)) ''0.5.0'' ''1.0.0''
      \<and> run_events (example_project m6) =
         [title TITLE DESCRIPTION,
          runningTask CHECK_TS_VERSION, completedTask CHECK_TS_VERSION False,
          runningTask CHECK_DEPENDENCIES, failedTask CHECK_DEPENDENCIES]
      \<and> run_outcome (example_project m6) =
         Inl (errorMessage (msg_old_tada (example_project m6))))"
    using run_consults_DependencyMap[where env = "example_project m6" and p = m6 and t = "''^5.3.3''" and g = "''~1.1.0''" and d = "''0.5.0''"] h6
    by simp
  show ?thesis
    using w0 w1 w2 w3 w4 w5 w6
    unfolding m1_def m2_def m3_def m4_def m5_def m6_def by blast
qed

section \<open>The run when every check succeeds\<close>

text \<open>
  Claim C1, as amended.  When all four checks succeed, the events of the run are the
  title, then Running and Completed for each of the four checks in order, only the
  fourth Completed carrying final = true, then the success sentinel; the run then ends
  by returning, with nothing thrown.
\<close>

theorem run_success:
  assumes "ts_version_ok env" and "dependencies_ok env"
    and "tsconfig_ok env" and "schema_ok env"
  shows "run_events env =
           [title TITLE DESCRIPTION,
            runningTask CHECK_TS_VERSION, completedTask CHECK_TS_VERSION False,
            runningTask CHECK_DEPENDENCIES, completedTask CHECK_DEPENDENCIES False,
            runningTask CHECK_TSCONFIG, completedTask CHECK_TSCONFIG False,
            runningTask CHECK_SCHEMA, completedTask CHECK_SCHEMA True,
            success]
         \<and> run_outcome env = Inr ()"
  using run_all_ok[OF assms] by simp

theorem run_success_witness:
  "ts_version_ok example_env \<and> dependencies_ok example_env
   \<and> tsconfig_ok example_env \<and> schema_ok example_env
   \<and> run_events example_env =
           [title TITLE DESCRIPTION,
            runningTask CHECK_TS_VERSION, completedTask CHECK_TS_VERSION False,
            runningTask CHECK_DEPENDENCIES, completedTask CHECK_DEPENDENCIES False,
            runningTask CHECK_TSCONFIG, completedTask CHECK_TSCONFIG False,
            runningTask CHECK_SCHEMA, completedTask CHECK_SCHEMA True,
            success]
   \<and> run_outcome example_env = Inr ()"
  using run_success[OF example_env_checks] example_env_checks by simp

text \<open>
  The claim as it was stated leaves the title out: in the example project, where all four
  checks succeed, the events are not the list that starts with the first Running event.
\<close>

theorem run_success_counterexample:
  "ts_version_ok example_env \<and> dependencies_ok example_env
   \<and> tsconfig_ok example_env \<and> schema_ok example_env
   \<and> run_events example_env \<noteq>
       [runningTask CHECK_TS_VERSION, completedTask CHECK_TS_VERSION False,
        runningTask CHECK_DEPENDENCIES, completedTask CHECK_DEPENDENCIES False,
        runningTask CHECK_TSCONFIG, completedTask CHECK_TSCONFIG False,
        runningTask CHECK_SCHEMA, completedTask CHECK_SCHEMA True,
        success]"
  using run_all_ok(1)[OF example_env_checks] example_env_checks by simp

section \<open>Failures\<close>

text \<open>
  Claim C3.  Every way checks 1 and 2 can fail (the manifest cannot be read; the entry of
  typescript, of @0no-co/graphqlsp or of gql.tada is absent; its version does not comply)
  yields Failed for that check and ends the run with the UserError of that package, and
  the events stop there, so no later check is ever announced.  In check 2 the failures of
  @0no-co/graphqlsp need nothing of gql.tada: whatever its entry is, the error is the one
  of @0no-co/graphqlsp; gql.tada matters only once @0no-co/graphqlsp complies.
\<close>

theorem checks_1_2_failures:
  "(manifest env = None \<longrightarrow>
      run_events env = [title TITLE DESCRIPTION, runningTask CHECK_TS_VERSION,
                        failedTask CHECK_TS_VERSION]
      \<and> run_outcome env = Inl (errorMessage (msg_no_manifest env)))
   \<and> (manifest env = Some p \<and> \<not> package_found (dependency_entries p) ''typescript'' \<longrightarrow>
      run_events env = [title TITLE DESCRIPTION, runningTask CHECK_TS_VERSION,
                        failedTask CHECK_TS_VERSION]
      \<and> run_outcome env = Inl (errorMessage (msg_no_typescript env)))
   \<and> (manifest env = Some p \<and> package_found (dependency_entries p) ''typescript''
        \<and> \<not> package_complies env (dependency_entries p) ''typescript''
              (typescript MINIMUM_VERSIONS) \<longrightarrow>
      run_events env = [title TITLE DESCRIPTION, runningTask CHECK_TS_VERSION,
                        failedTask CHECK_TS_VERSION]
      \<and> run_outcome env = Inl (errorMessage (msg_old_typescript env)))
   \<and> (manifest env = Some p \<and> ts_version_ok env
        \<and> \<not> package_found (dependency_entries p) ''@0no-co/graphqlsp'' \<longrightarrow>
      run_events env = [title TITLE DESCRIPTION,
                        runningTask CHECK_TS_VERSION, completedTask CHECK_TS_VERSION False,
                        runningTask CHECK_DEPENDENCIES, failedTask CHECK_DEPENDENCIES]
      \<and> run_outcome env = Inl (errorMessage (msg_no_graphqlsp env)))
   \<and> (manifest env = Some p \<and> ts_version_ok env
        \<and> package_found (dependency_entries p) ''@0no-co/graphqlsp''
        \<and> \<not> package_complies env (dependency_entries p) ''@0no-co/graphqlsp''
              (lsp MINIMUM_VERSIONS) \<longrightarrow>
      run_events env = [title TITLE DESCRIPTION,
                        runningTask CHECK_TS_VERSION, completedTask CHECK_TS_VERSION False,
                        runningTask CHECK_DEPENDENCIES, failedTask CHECK_DEPENDENCIES]
      \<and> run_outcome env = Inl (errorMessage (msg_old_graphqlsp env)))
   \<and> (manifest env = Some p \<and> ts_version_ok env
        \<and> package_complies env (dependency_entries p) ''@0no-co/graphqlsp''
              (lsp MINIMUM_VERSIONS)
        \<and> \<not> package_found (dependency_entries p) ''gql.tada'' \<longrightarrow>
      run_events env = [title TITLE DESCRIPTION,
                        runningTask CHECK_TS_VERSION, completedTask CHECK_TS_VERSION False,
                        runningTask CHECK_DEPENDENCIES, failedTask CHECK_DEPENDENCIES]
      \<and> run_outcome env = Inl (errorMessage (msg_no_tada env)))
   \<and> (manifest env = Some p \<and> ts_version_ok env
        \<and> package_complies env (dependency_entries p) ''@0no-co/graphqlsp''
              (lsp MINIMUM_VERSIONS)
        \<and> package_found (dependency_entries p) ''gql.tada''
        \<and> \<not> package_complies env (dependency_entries p) ''gql.tada'' ''1.0.0'' \<longrightarrow>
      run_events env = [title TITLE DESCRIPTION,
                        runningTask CHECK_TS_VERSION, completedTask CHECK_TS_VERSION False,
                        runningTask CHECK_DEPENDENCIES, failedTask CHECK_DEPENDENCIES]
      \<and> run_outcome env = Inl (errorMessage (msg_old_tada env)))"
proof (intro conjI impI)
  assume "manifest env = None"
  then show "run_events env = [title TITLE DESCRIPTION, runningTask CHECK_TS_VERSION,
                        failedTask CHECK_TS_VERSION]"
    and "run_outcome env = Inl (errorMessage (msg_no_manifest env))"
    by (rule run_no_manifest)+
next
  assume a: "manifest env = Some p \<and> \<not> package_found (dependency_entries p) ''typescript''"
  then show "run_events env = [title TITLE DESCRIPTION, runningTask CHECK_TS_VERSION,
                        failedTask CHECK_TS_VERSION]"
    and "run_outcome env = Inl (errorMessage (msg_no_typescript env))"
    using run_no_typescript[of env p] by simp_all
next
  assume a: "manifest env = Some p \<and> package_found (dependency_entries p) ''typescript''
        \<and> \<not> package_complies env (dependency_entries p) ''typescript''
              (typescript MINIMUM_VERSIONS)"
  then show "run_events env = [title TITLE DESCRIPTION, runningTask CHECK_TS_VERSION,
                        failedTask CHECK_TS_VERSION]"
    and "run_outcome env = Inl (errorMessage (msg_old_typescript env))"
    using run_old_typescript[of env p] by simp_all
next
  assume a: "manifest env = Some p \<and> ts_version_ok env
        \<and> \<not> package_found (dependency_entries p) ''@0no-co/graphqlsp''"
  then show "run_events env = [title TITLE DESCRIPTION,
                        runningTask CHECK_TS_VERSION, completedTask CHECK_TS_VERSION False,
                        runningTask CHECK_DEPENDENCIES, failedTask CHECK_DEPENDENCIES]"
    and "run_outcome env = Inl (errorMessage (msg_no_graphqlsp env))"
    using run_no_graphqlsp[of env p] by simp_all
next
  assume a: "manifest env = Some p \<and> ts_version_ok env
        \<and> package_found (dependency_entries p) ''@0no-co/graphqlsp''
        \<and> \<not> package_complies env (dependency_entries p) ''@0no-co/graphqlsp''
              (lsp MINIMUM_VERSIONS)"
  then show "run_events env = [title TITLE DESCRIPTION,
                        runningTask CHECK_TS_VERSION, completedTask CHECK_TS_VERSION False,
                        runningTask CHECK_DEPENDENCIES, failedTask CHECK_DEPENDENCIES]"
    and "run_outcome env = Inl (errorMessage (msg_old_graphqlsp env))"
    using run_old_graphqlsp[of env p] by simp_all
next
  assume a: "manifest env = Some p \<and> ts_version_ok env
        \<and> package_complies env (dependency_entries p) ''@0no-co/graphqlsp''
              (lsp MINIMUM_VERSIONS)
        \<and> \<not> package_found (dependency_entries p) ''gql.tada''"
  then show "run_events env = [title TITLE DESCRIPTION,
                        runningTask CHECK_TS_VERSION, completedTask CHECK_TS_VERSION False,
                        runningTask CHECK_DEPENDENCIES, failedTask CHECK_DEPENDENCIES]"
    and "run_outcome env = Inl (errorMessage (msg_no_tada env))"
    using run_no_tada[of env p] by simp_all
next
  assume a: "manifest env = Some p \<and> ts_version_ok env
        \<and> package_complies env (dependency_entries p) ''@0no-co/graphqlsp''
              (lsp MINIMUM_VERSIONS)
        \<and> package_found (dependency_entries p) ''gql.tada''
        \<and> \<not> package_complies env (dependency_entries p) ''gql.tada'' ''1.0.0''"
  then show "run_events env = [title TITLE DESCRIPTION,
                        runningTask CHECK_TS_VERSION, completedTask CHECK_TS_VERSION False,
                        runningTask CHECK_DEPENDENCIES, failedTask CHECK_DEPENDENCIES]"
    and "run_outcome env = Inl (errorMessage (msg_old_tada env))"
    using run_old_tada[of env p] by simp_all
qed

theorem checks_1_2_failures_witness:
  "(manifest (example_env\<lparr>readFile := (\<lambda>file. Inl ''ENOENT'')\<rparr>) = None
      \<and> run_events (example_env\<lparr>readFile := (\<lambda>file. Inl ''ENOENT'')\<rparr>) =
         [title TITLE DESCRIPTION, runningTask CHECK_TS_VERSION, failedTask CHECK_TS_VERSION]
      \<and> run_outcome (example_env\<lparr>readFile := (\<lambda>file. Inl ''ENOENT'')\<rparr>) =
         Inl (errorMessage (msg_no_manifest (example_env\<lparr>readFile := (\<lambda>file. Inl ''ENOENT'')\<rparr>))))
   \<and> (manifest (example_project \<lparr>dependencies = [], devDependencies = []\<rparr>) = Some \<lparr>dependencies = [], devDependencies = []\<rparr>
      \<and> \<not> package_found (dependency_entries \<lparr>dependencies = [], devDependencies = []\<rparr>) ''typescript''
      \<and> run_events (example_project \<lparr>dependencies = [], devDependencies = []\<rparr>) =
         [title TITLE DESCRIPTION, runningTask CHECK_TS_VERSION, failedTask CHECK_TS_VERSION]
      \<and> run_outcome (example_project \<lparr>dependencies = [], devDependencies = []\<rparr>) =
         Inl (errorMessage (msg_no_typescript (example_project \<lparr>dependencies = [], devDependencies = []\<rparr>))))
   \<and> (manifest (example_project \<lparr>dependencies = [(''typescript'', ''3.9.0'')], devDependencies = []\<rparr>) = Some \<lparr>dependencies = [(''typescript'', ''3.9.0'')], devDependencies = []\<rparr>
      \<and> package_found (dependency_entries \<lparr>dependencies = [(''typescript'', ''3.9.0'')], devDependencies = []\<rparr>) ''typescript''
      \<and> \<not> package_complies (example_project \<lparr>dependencies = [(''typescript'', ''3.9.0'')], devDependencies = []\<rparr>) (dependency_entries \<lparr>dependencies = [(''typescript'', ''3.9.0'')], devDependencies = []\<rparr>) ''typescript'' (typescript MINIMUM_VERSIONS)
      \<and> run_events (example_project \<lparr>dependencies = [(''typescript'', ''3.9.0'')], devDependencies = []\<rparr>) =
         [title TITLE DESCRIPTION, runningTask CHECK_TS_VERSION, failedTask CHECK_TS_VERSION]
      \<and> run_outcome (example_project \<lparr>dependencies = [(''typescript'', ''3.9.0'')], devDependencies = []\<rparr>) =
         Inl (errorMessage (msg_old_typescript (example_project \<lparr>dependencies = [(''typescript'', ''3.9.0'')], devDependencies = []\<rparr>))))
   \<and> (manifest (example_project \<lparr>dependencies = [(''gql.tada'', ''0.5.0'')], devDependencies = [(''typescript'', ''^5.3.3'')]\<rparr>) = Some \<lparr>dependencies = [(''gql.tada'', ''0.5.0'')], devDependencies = [(''typescript'', ''^5.3.3'')]\<rparr>
      \<and> ts_version_ok (example_project \<lparr>dependencies = [(''gql.tada'', ''0.5.0'')], devDependencies = [(''typescript'', ''^5.3.3'')]\<rparr>)
      \<and> \<not> package_found (dependency_entries \<lparr>dependencies = [(''gql.tada'', ''0.5.0'')], devDependencies = [(''typescript'', ''^5.3.3'')]\<rparr>) ''@0no-co/graphqlsp''
      \<and> run_events (example_project \<lparr>dependencies = [(''gql.tada'', ''0.5.0'')], devDependencies = [(''typescript'', ''^5.3.3'')]\<rparr>) =
         [title TITLE DESCRIPTION,
          runningTask CHECK_TS_VERSION, completedTask CHECK_TS_VERSION False,
          runningTask CHECK_DEPENDENCIES, failedTask CHECK_DEPENDENCIES]
      \<and> run_outcome (example_project \<lparr>dependencies = [(''gql.tada'', ''0.5.0'')], devDependencies = [(''typescript'', ''^5.3.3'')]\<rparr>) =
         Inl (errorMessage (msg_no_graphqlsp (example_project \<lparr>dependencies = [(''gql.tada'', ''0.5.0'')], devDependencies = [(''typescript'', ''^5.3.3'')]\<rparr>))))
   \<and> (manifest (example_project \<lparr>dependencies = [], devDependencies = [(''typescript'', ''^5.3.3''), (''@0no-co/graphqlsp'', ''0.9.0'')]\<rparr>) = Some \<lparr>dependencies = [], devDependencies = [(''typescript'', ''^5.3.3''), (''@0no-co/graphqlsp'', ''0.9.0'')]\<rparr>
      \<and> ts_version_ok (example_project \<lparr>dependencies = [], devDependencies = [(''typescript'', ''^5.3.3''), (''@0no-co/graphqlsp'', ''0.9.0'')]\<rparr>)
      \<and> package_found (dependency_entries \<lparr>dependencies = [], devDependencies = [(''typescript'', ''^5.3.3''), (''@0no-co/graphqlsp'', ''0.9.0'')]\<rparr>) ''@0no-co/graphqlsp''
      \<and> \<not> package_complies (example_project \<lparr>dependencies = [], devDependencies = [(''typescript'', ''^5.3.3''), (''@0no-co/graphqlsp'', ''0.9.0'')]\<rparr>) (dependency_entries \<lparr>dependencies = [], devDependencies = [(''typescript'', ''^5.3.3''), (''@0no-co/graphqlsp'', ''0.9.0'')]\<rparr>) ''@0no-co/graphqlsp'' (lsp MINIMUM_VERSIONS)
      \<and> run_events (example_project \<lparr>dependencies = [], devDependencies = [(''typescript'', ''^5.3.3''), (''@0no-co/graphqlsp'', ''0.9.0'')]\<rparr>) =
         [title TITLE DESCRIPTION,
          runningTask CHECK_TS_VERSION, completedTask CHECK_TS_VERSION False,
          runningTask CHECK_DEPENDENCIES, failedTask CHECK_DEPENDENCIES]
      \<and> run_outcome (example_project \<lparr>dependencies = [], devDependencies = [(''typescript'', ''^5.3.3''), (''@0no-co/graphqlsp'', ''0.9.0'')]\<rparr>) =
         Inl (errorMessage (msg_old_graphqlsp (example_project \<lparr>dependencies = [], devDependencies = [(''typescript'', ''^5.3.3''), (''@0no-co/graphqlsp'', ''0.9.0'')]\<rparr>))))
   \<and> (manifest (example_project \<lparr>dependencies = [], devDependencies = [(''typescript'', ''^5.3.3''), (''@0no-co/graphqlsp'', ''~1.1.0'')]\<rparr>) = Some \<lparr>dependencies = [], devDependencies = [(''typescript'', ''^5.3.3''), (''@0no-co/graphqlsp'', ''~1.1.0'')]\<rparr>
      \<and> ts_version_ok (example_project \<lparr>dependencies = [], devDependencies = [(''typescript'', ''^5.3.3''), (''@0no-co/graphqlsp'', ''~1.1.0'')]\<rparr>)
      \<and> package_complies (example_project \<lparr>dependencies = [], devDependencies = [(''typescript'', ''^5.3.3''), (''@0no-co/graphqlsp'', ''~1.1.0'')]\<rparr>) (dependency_entries \<lparr>dependencies = [], devDependencies = [(''typescript'', ''^5.3.3''), (''@0no-co/graphqlsp'', ''~1.1.0'')]\<rparr>) ''@0no-co/graphqlsp'' (lsp MINIMUM_VERSIONS)
      \<and> \<not> package_found (dependency_entries \<lparr>dependencies = [], devDependencies = [(''typescript'', ''^5.3.3''), (''@0no-co/graphqlsp'', ''~1.1.0'')]\<rparr>) ''gql.tada''
      \<and> run_events (example_project \<lparr>dependencies = [], devDependencies = [(''typescript'', ''^5.3.3''), (''@0no-co/graphqlsp'', ''~1.1.0'')]\<rparr>) =
         [title TITLE DESCRIPTION,
          runningTask CHECK_TS_VERSION, completedTask CHECK_TS_VERSION False,
          runningTask CHECK_DEPENDENCIES, failedTask CHECK_DEPENDENCIES]
      \<and> run_outcome (example_project \<lparr>dependencies = [], devDependencies = [(''typescript'', ''^5.3.3''), (''@0no-co/graphqlsp'', ''~1.1.0'')]\<rparr>) =
         Inl (errorMessage (msg_no_tada (example_project \<lparr>dependencies = [], devDependencies = [(''typescript'', ''^5.3.3''), (''@0no-co/graphqlsp'', ''~1.1.0'')]\<rparr>))))
   \<and> (manifest (example_project \<lparr>dependencies = [(''gql.tada'', ''0.5.0'')], devDependencies = [(''typescript'', ''^5.3.3''), (''@0no-co/graphqlsp'', ''~1.1.0'')]\<rparr>) = Some \<lparr>dependencies = [(''gql.tada'', ''0.5.0'')], devDependencies = [(''typescript'', ''^5.3.3''), (''@0no-co/graphqlsp'', ''~1.1.0'')]\<rparr>
      \<and> ts_version_ok (example_project \<lparr>dependencies = [(''gql.tada'', ''0.5.0'')], devDependencies = [(''typescript'', ''^5.3.3''), (''@0no-co/graphqlsp'', ''~1.1.0'')]\<rparr>)
      \<and> package_complies (example_project \<lparr>dependencies = [(''gql.tada'', ''0.5.0'')], devDependencies = [(''typescript'', ''^5.3.3''), (''@0no-co/graphqlsp'', ''~1.1.0'')]\<rparr>) (dependency_entries \<lparr>dependencies = [(''gql.tada'', ''0.5.0'')], devDependencies = [(''typescript'', ''^5.3.3''), (''@0no-co/graphqlsp'', ''~1.1.0'')]\<rparr>) ''@0no-co/graphqlsp'' (lsp MINIMUM_VERSIONS)
      \<and> package_found (dependency_entries \<lparr>dependencies = [(''gql.tada'', ''0.5.0'')], devDependencies = [(''typescript'', ''^5.3.3''), (''@0no-co/graphqlsp'', ''~1.1.0'')]\<rparr>) ''gql.tada''
      \<and> \<not> package_complies (example_project \<lparr>dependencies = [(''gql.tada'', ''0.5.0'')], devDependencies = [(''typescript'', ''^5.3.3''), (''@0no-co/graphqlsp'', ''~1.1.0'')]\<rparr>) (dependency_entries \<lparr>dependencies = [(''gql.tada'', ''0.5.0'')], devDependencies = [(''typescript'', ''^5.3.3''), (''@0no-co/graphqlsp'', ''~1.1.0'')]\<rparr>) ''gql.tada'' ''1.0.0''
      \<and> run_events (example_project \<lparr>dependencies = [(''gql.tada'', ''0.5.0'')], devDependencies = [(''typescript'', ''^5.3.3''), (''@0no-co/graphqlsp'', ''~1.1.0'')]\<rparr>) =
         [title TITLE DESCRIPTION,
          runningTask CHECK_TS_VERSION, completedTask CHECK_TS_VERSION False,
          runningTask CHECK_DEPENDENCIES, failedTask CHECK_DEPENDENCIES]
      \<and> run_outcome (example_project \<lparr>dependencies = [(''gql.tada'', ''0.5.0'')], devDependencies = [(''typescript'', ''^5.3.3''), (''@0no-co/graphqlsp'', ''~1.1.0'')]\<rparr>) =
         Inl (errorMessage (msg_old_tada (example_project \<lparr>dependencies = [(''gql.tada'', ''0.5.0'')], devDependencies = [(''typescript'', ''^5.3.3''), (''@0no-co/graphqlsp'', ''~1.1.0'')]\<rparr>))))"
proof -
  have h1: "manifest (example_env\<lparr>readFile := (\<lambda>file. Inl ''ENOENT'')\<rparr>) = None"
    by (simp add: example_defs)
  have w1: "(manifest (example_env\<lparr>readFile := (\<lambda>file. Inl ''ENOENT'')\<rparr>) = None
      \<and> run_events (example_env\<lparr>readFile := (\<lambda>file. Inl ''ENOENT'')\<rparr>) =
         [title TITLE DESCRIPTION, runningTask CHECK_TS_VERSION, failedTask CHECK_TS_VERSION]
      \<and> run_outcome (example_env\<lparr>readFile := (\<lambda>file. Inl ''ENOENT'')\<rparr>) =
         Inl (errorMessage (msg_no_manifest (example_env\<lparr>readFile := (\<lambda>file. Inl ''ENOENT'')\<rparr>))))"
    using checks_1_2_failures[of "example_env\<lparr>readFile := (\<lambda>file. Inl ''ENOENT'')\<rparr>" example_manifest] h1 by simp
  define m2 where "m2 = \<lparr>dependencies = [], devDependencies = []\<rparr>"
  have h2: "manifest (example_project m2) = Some m2
      \<and> \<not> package_found (dependency_entries m2) ''typescript''"
    unfolding m2_def by (simp add: example_defs)
  have w2: "(manifest (example_project m2) = Some m2
      \<and> \<not> package_found (dependency_entries m2) ''typescript''
      \<and> run_events (example_project m2) =
         [title TITLE DESCRIPTION, runningTask CHECK_TS_VERSION, failedTask CHECK_TS_VERSION]
      \<and> run_outcome (example_project m2) =
         Inl (errorMessage (msg_no_typescript (example_project m2))))"
    using checks_1_2_failures[of "example_project m2" m2] h2 by simp
  define m3 where "m3 = \<lparr>dependencies = [(''typescript'', ''3.9.0'')], devDependencies = []\<rparr>"
  have h3: "manifest (example_project m3) = Some m3
      \<and> package_found (dependency_entries m3) ''typescript''
      \<and> \<not> package_complies (example_project m3) (dependency_entries m3) ''typescript'' (typescript MINIMUM_VERSIONS)"
    unfolding m3_def by (simp add: example_defs)
  have w3: "(manifest (example_project m3) = Some m3
      \<and> package_found (dependency_entries m3) ''typescript''
      \<and> \<not> package_complies (example_project m3) (dependency_entries m3) ''typescript'' (typescript MINIMUM_VERSIONS)
      \<and> run_events (example_project m3) =
         [title TITLE DESCRIPTION, runningTask CHECK_TS_VERSION, failedTask CHECK_TS_VERSION]
      \<and> run_outcome (example_project m3) =
         Inl (errorMessage (msg_old_typescript (example_project m3))))"
    using checks_1_2_failures[of "example_project m3" m3] h3 by simp
  define m4 where "m4 = \<lparr>dependencies = [(''gql.tada'', ''0.5.0'')], devDependencies = [(''typescript'', ''^5.3.3'')]\<rparr>"
  have h4: "manifest (example_project m4) = Some m4
      \<and> ts_version_ok (example_project m4)
      \<and> \<not> package_found (dependency_entries m4) ''@0no-co/graphqlsp''"
    unfolding m4_def by (simp add: example_defs)
  have w4: "(manifest (example_project m4) = Some m4
      \<and> ts_version_ok (example_project m4)
      \<and> \<not> package_found (dependency_entries m4) ''@0no-co/graphqlsp''
      \<and> run_events (example_project m4) =
         [title TITLE DESCRIPTION,
          runningTask CHECK_TS_VERSION, completedTask CHECK_TS_VERSION False,
          runningTask CHECK_DEPENDENCIES, failedTask CHECK_DEPENDENCIES]
      \<and> run_outcome (example_project m4) =
         Inl (errorMessage (msg_no_graphqlsp (example_project m4))))"
    using checks_1_2_failures[of "example_project m4" m4] h4 by simp
  define m5 where "m5 = \<lparr>dependencies = [], devDependencies = [(''typescript'', ''^5.3.3''), (''@0no-co/graphqlsp'', ''0.9.0'')]\<rparr>"
  have h5: "manifest (example_project m5) = Some m5
      \<and> ts_version_ok (example_project m5)
      \<and> package_found (dependency_entries m5) ''@0no-co/graphqlsp''
      \<and> \<not> package_complies (example_project m5) (dependency_entries m5) ''@0no-co/graphqlsp'' (lsp MINIMUM_VERSIONS)"
    unfolding m5_def by (simp add: example_defs)
  have w5: "(manifest (example_project m5) = Some m5
      \<and> ts_version_ok (example_project m5)
      \<and> package_found (dependency_entries m5) ''@0no-co/graphqlsp''
      \<and> \<not> package_complies (example_project m5) (dependency_entries m5) ''@0no-co/graphqlsp'' (lsp MINIMUM_VERSIONS)
      \<and> run_events (example_project m5) =
         [title TITLE DESCRIPTION,
          runningTask CHECK_TS_VERSION, completedTask CHECK_TS_VERSION False,
          runningTask CHECK_DEPENDENCIES, failedTask CHECK_DEPENDENCIES]
      \<and> run_outcome (example_project m5) =
         Inl (errorMessage (msg_old_graphqlsp (example_project m5))))"
    using checks_1_2_failures[of "example_project m5" m5] h5 by simp
  define m6 where "m6 = \<lparr>dependencies = [], devDependencies = [(''typescript'', ''^5.3.3''), (''@0no-co/graphqlsp'', ''~1.1.0'')]\<rparr>"
  have h6: "manifest (example_project m6) = Some m6
      \<and> ts_version_ok (example_project m6)
      \<and> package_complies (example_project m6) (dependency_entries m6) ''@0no-co/graphqlsp'' (lsp MINIMUM_VERSIONS)
      \<and> \<not> package_found (dependency_entries m6) ''gql.tada''"
    unfolding m6_def by (simp add: example_defs)
  have w6: "(manifest (example_project m6) = Some m6
      \<and> ts_version_ok (example_project m6)
      \<and> package_complies (example_project m6) (dependency_entries m6) ''@0no-co/graphqlsp'' (lsp MINIMUM_VERSIONS)
      \<and> \<not> package_found (dependency_entries m6) ''gql.tada''
      \<and> run_events (example_project m6) =
         [title TITLE DESCRIPTION,
          runningTask CHECK_TS_VERSION, completedTask CHECK_TS_VERSION False,
          runningTask CHECK_DEPENDENCIES, failedTask CHECK_DEPENDENCIES]
      \<and> run_outcome (example_project m6) =
         Inl (errorMessage (msg_no_tada (example_project m6))))"
    using checks_1_2_failures[of "example_project m6" m6] h6 by simp
  define m7 where "m7 = \<lparr>dependencies = [(''gql.tada'', ''0.5.0'')], devDependencies = [(''typescript'', ''^5.3.3''), (''@0no-co/graphqlsp'', ''~1.1.0'')]\<rparr>"
  have h7: "manifest (example_project m7) = Some m7
      \<and> ts_version_ok (example_project m7)
      \<and> package_complies (example_project m7) (dependency_entries m7) ''@0no-co/graphqlsp'' (lsp MINIMUM_VERSIONS)
      \<and> package_found (dependency_entries m7) ''gql.tada''
      \<and> \<not> package_complies (example_project m7) (dependency_entries m7) ''gql.tada'' ''1.0.0''"
    unfolding m7_def by (simp add: example_defs)
  have w7: "(manifest (example_project m7) = Some m7
      \<and> ts_version_ok (example_project m7)
      \<and> package_complies (example_project m7) (dependency_entries m7) ''@0no-co/graphqlsp'' (lsp MINIMUM_VERSIONS)
      \<and> package_found (dependency_entries m7) ''gql.tada''
      \<and> \<not> package_complies (example_project m7) (dependency_entries m7) ''gql.tada'' ''1.0.0''
      \<and> run_events (example_project m7) =
         [title TITLE DESCRIPTION,
          runningTask CHECK_TS_VERSION, completedTask CHECK_TS_VERSION False,
          runningTask CHECK_DEPENDENCIES, failedTask CHECK_DEPENDENCIES]
      \<and> run_outcome (example_project m7) =
         Inl (errorMessage (msg_old_tada (example_project m7))))"
    using checks_1_2_failures[of "example_project m7" m7] h7 by simp
  show ?thesis
    using w1 w2 w3 w4 w5 w6 w7
    unfolding m2_def m3_def m4_def m5_def m6_def m7_def by blast
qed

text \<open>
  Claim C4.  In check 3, after checks 1 and 2 have succeeded: when the resolver fails, the
  run ends with an ExternalError that wraps the resolver's exception; when the resolver
  succeeds and parsing fails, the run ends with an ExternalError that wraps the parser's
  exception and no Failed event has been yielded for the check; when parsing succeeds and
  the configuration has no schema, Failed is yielded for the check and the run ends with
  the UserError about the missing schema option.  The three messages are spelled out as
  the runner builds them.
\<close>

theorem check_3_failures:
  assumes "ts_version_ok env" and "dependencies_ok env"
  shows \<open>(loadConfig env = Inl x \<longrightarrow>
            run_events env =
              [title TITLE DESCRIPTION,
               runningTask CHECK_TS_VERSION, completedTask CHECK_TS_VERSION False,
               runningTask CHECK_DEPENDENCIES, completedTask CHECK_DEPENDENCIES False,
               runningTask CHECK_TSCONFIG, failedTask CHECK_TSCONFIG]
            \<and> run_outcome env =
              Inl (externalError
                     (''A '' @ code env ''tsconfig.json''
                        @ '' file was not found in the current working directory.'')
                     (exception x)))
       \<and> (loadConfig env = Inr configResult
            \<and> parseConfig env (pluginConfig configResult) = Inl x \<longrightarrow>
            run_events env =
              [title TITLE DESCRIPTION,
               runningTask CHECK_TS_VERSION, completedTask CHECK_TS_VERSION False,
               runningTask CHECK_DEPENDENCIES, completedTask CHECK_DEPENDENCIES False,
               runningTask CHECK_TSCONFIG]
            \<and> failedTask CHECK_TSCONFIG \<notin> set (run_events env)
            \<and> run_outcome env =
              Inl (externalError
                     (''The plugin configuration for '' @ code env ''"@0no-co/graphqlsp"''
                        @ '' seems to be invalid.'')
                     (exception x)))
       \<and> (loadConfig env = Inr configResult
            \<and> parseConfig env (pluginConfig configResult) = Inr pluginConfig'
            \<and> \<not> truthy_schema (schema pluginConfig') \<longrightarrow>
            run_events env =
              [title TITLE DESCRIPTION,
               runningTask CHECK_TS_VERSION, completedTask CHECK_TS_VERSION False,
               runningTask CHECK_DEPENDENCIES, completedTask CHECK_DEPENDENCIES False,
               runningTask CHECK_TSCONFIG, failedTask CHECK_TSCONFIG]
            \<and> run_outcome env =
              Inl (errorMessage
                     (''No '' @ code env ''"schema"''
                        @ '' option was found in your configuration.\<newline>''
                        @ hint env ''Have you specified your SDL file or URL in your configuration yet?'')))\<close>
proof (intro conjI impI)
  assume a: "loadConfig env = Inl x"
  from run_no_tsconfig[OF assms a]
  show \<open>run_events env =
              [title TITLE DESCRIPTION,
               runningTask CHECK_TS_VERSION, completedTask CHECK_TS_VERSION False,
               runningTask CHECK_DEPENDENCIES, completedTask CHECK_DEPENDENCIES False,
               runningTask CHECK_TSCONFIG, failedTask CHECK_TSCONFIG]\<close>
    and \<open>run_outcome env =
              Inl (externalError
                     (''A '' @ code env ''tsconfig.json''
                        @ '' file was not found in the current working directory.'')
                     (exception x))\<close>
    by (simp_all add: msg_no_tsconfig_def)
next
  assume a: "loadConfig env = Inr configResult
            \<and> parseConfig env (pluginConfig configResult) = Inl x"
  then have e: \<open>run_events env =
              [title TITLE DESCRIPTION,
               runningTask CHECK_TS_VERSION, completedTask CHECK_TS_VERSION False,
               runningTask CHECK_DEPENDENCIES, completedTask CHECK_DEPENDENCIES False,
               runningTask CHECK_TSCONFIG]\<close>
    and o: \<open>run_outcome env =
              Inl (externalError
                     (''The plugin configuration for '' @ code env ''"@0no-co/graphqlsp"''
                        @ '' seems to be invalid.'')
                     (exception x))\<close>
    using run_invalid_config[OF assms, of configResult x]
    by (simp_all add: msg_invalid_config_def)
  from e show \<open>run_events env =
              [title TITLE DESCRIPTION,
               runningTask CHECK_TS_VERSION, completedTask CHECK_TS_VERSION False,
               runningTask CHECK_DEPENDENCIES, completedTask CHECK_DEPENDENCIES False,
               runningTask CHECK_TSCONFIG]\<close> .
  from e show "failedTask CHECK_TSCONFIG \<notin> set (run_events env)" by simp
  from o show \<open>run_outcome env =
              Inl (externalError
                     (''The plugin configuration for '' @ code env ''"@0no-co/graphqlsp"''
                        @ '' seems to be invalid.'')
                     (exception x))\<close> .
next
  assume a: "loadConfig env = Inr configResult
            \<and> parseConfig env (pluginConfig configResult) = Inr pluginConfig'
            \<and> \<not> truthy_schema (schema pluginConfig')"
  then show \<open>run_events env =
              [title TITLE DESCRIPTION,
               runningTask CHECK_TS_VERSION, completedTask CHECK_TS_VERSION False,
               runningTask CHECK_DEPENDENCIES, completedTask CHECK_DEPENDENCIES False,
               runningTask CHECK_TSCONFIG, failedTask CHECK_TSCONFIG]\<close>
    and \<open>run_outcome env =
              Inl (errorMessage
                     (''No '' @ code env ''"schema"''
                        @ '' option was found in your configuration.\<newline>''
                        @ hint env ''Have you specified your SDL file or URL in your configuration yet?''))\<close>
    using run_no_schema[OF assms, of configResult pluginConfig']
    by (simp_all add: msg_no_schema_def)
qed

theorem check_3_failures_witness:
  \<open>(ts_version_ok (example_env\<lparr>loadConfig := Inl ''ENOENT''\<rparr>)
      \<and> dependencies_ok (example_env\<lparr>loadConfig := Inl ''ENOENT''\<rparr>)
      \<and> loadConfig (example_env\<lparr>loadConfig := Inl ''ENOENT''\<rparr>) = Inl ''ENOENT''
      \<and> run_events (example_env\<lparr>loadConfig := Inl ''ENOENT''\<rparr>) =
         [title TITLE DESCRIPTION,
          runningTask CHECK_TS_VERSION, completedTask CHECK_TS_VERSION False,
          runningTask CHECK_DEPENDENCIES, completedTask CHECK_DEPENDENCIES False,
          runningTask CHECK_TSCONFIG, failedTask CHECK_TSCONFIG]
      \<and> run_outcome (example_env\<lparr>loadConfig := Inl ''ENOENT''\<rparr>) =
         Inl (externalError
                ''A tsconfig.json file was not found in the current working directory.''
                (exception ''ENOENT'')))
   \<and> (ts_version_ok (example_env\<lparr>parseConfig := (\<lambda>raw. Inl ''invalid'')\<rparr>)
      \<and> dependencies_ok (example_env\<lparr>parseConfig := (\<lambda>raw. Inl ''invalid'')\<rparr>)
      \<and> loadConfig (example_env\<lparr>parseConfig := (\<lambda>raw. Inl ''invalid'')\<rparr>) =
           Inr \<lparr>pluginConfig = ''plugin'', configPath = ''/workspace/tsconfig.json''\<rparr>
      \<and> parseConfig (example_env\<lparr>parseConfig := (\<lambda>raw. Inl ''invalid'')\<rparr>) ''plugin'' = Inl ''invalid''
      \<and> run_events (example_env\<lparr>parseConfig := (\<lambda>raw. Inl ''invalid'')\<rparr>) =
         [title TITLE DESCRIPTION,
          runningTask CHECK_TS_VERSION, completedTask CHECK_TS_VERSION False,
          runningTask CHECK_DEPENDENCIES, completedTask CHECK_DEPENDENCIES False,
          runningTask CHECK_TSCONFIG]
      \<and> run_outcome (example_env\<lparr>parseConfig := (\<lambda>raw. Inl ''invalid'')\<rparr>) =
         Inl (externalError
                ''The plugin configuration for "@0no-co/graphqlsp" seems to be invalid.''
                (exception ''invalid'')))
   \<and> (ts_version_ok (example_env\<lparr>parseConfig := (\<lambda>raw. Inr \<lparr>schema = None\<rparr>)\<rparr>)
      \<and> dependencies_ok (example_env\<lparr>parseConfig := (\<lambda>raw. Inr \<lparr>schema = None\<rparr>)\<rparr>)
      \<and> loadConfig (example_env\<lparr>parseConfig := (\<lambda>raw. Inr \<lparr>schema = None\<rparr>)\<rparr>) =
           Inr \<lparr>pluginConfig = ''plugin'', configPath = ''/workspace/tsconfig.json''\<rparr>
      \<and> parseConfig (example_env\<lparr>parseConfig := (\<lambda>raw. Inr \<lparr>schema = None\<rparr>)\<rparr>) ''plugin''
           = Inr \<lparr>schema = None\<rparr>
      \<and> \<not> truthy_schema (schema (\<lparr>schema = None\<rparr> :: unit GraphQLSPConfig))
      \<and> run_events (example_env\<lparr>parseConfig := (\<lambda>raw. Inr \<lparr>schema = None\<rparr>)\<rparr>) =
         [title TITLE DESCRIPTION,
          runningTask CHECK_TS_VERSION, completedTask CHECK_TS_VERSION False,
          runningTask CHECK_DEPENDENCIES, completedTask CHECK_DEPENDENCIES False,
          runningTask CHECK_TSCONFIG, failedTask CHECK_TSCONFIG]
      \<and> run_outcome (example_env\<lparr>parseConfig := (\<lambda>raw. Inr \<lparr>schema = None\<rparr>)\<rparr>) =
         Inl (errorMessage
                (''No "schema" option was found in your configuration.\<newline>''
                   @ ''Have you specified your SDL file or URL in your configuration yet?'')))\<close>
proof -
  have a: "ts_version_ok (example_env\<lparr>loadConfig := Inl ''ENOENT''\<rparr>)"
      "dependencies_ok (example_env\<lparr>loadConfig := Inl ''ENOENT''\<rparr>)"
      "loadConfig (example_env\<lparr>loadConfig := Inl ''ENOENT''\<rparr>) = Inl ''ENOENT''"
      "code (example_env\<lparr>loadConfig := Inl ''ENOENT''\<rparr>) = (\<lambda>s. s)"
    by (simp_all add: example_defs)
  have b: "ts_version_ok (example_env\<lparr>parseConfig := (\<lambda>raw. Inl ''invalid'')\<rparr>)"
      "dependencies_ok (example_env\<lparr>parseConfig := (\<lambda>raw. Inl ''invalid'')\<rparr>)"
      "loadConfig (example_env\<lparr>parseConfig := (\<lambda>raw. Inl ''invalid'')\<rparr>) =
         Inr \<lparr>pluginConfig = ''plugin'', configPath = ''/workspace/tsconfig.json''\<rparr>"
      "parseConfig (example_env\<lparr>parseConfig := (\<lambda>raw. Inl ''invalid'')\<rparr>) ''plugin'' = Inl ''invalid''"
      "code (example_env\<lparr>parseConfig := (\<lambda>raw. Inl ''invalid'')\<rparr>) = (\<lambda>s. s)"
    by (simp_all add: example_defs)
  have c: "ts_version_ok (example_env\<lparr>parseConfig := (\<lambda>raw. Inr \<lparr>schema = None\<rparr>)\<rparr>)"
      "dependencies_ok (example_env\<lparr>parseConfig := (\<lambda>raw. Inr \<lparr>schema = None\<rparr>)\<rparr>)"
      "loadConfig (example_env\<lparr>parseConfig := (\<lambda>raw. Inr \<lparr>schema = None\<rparr>)\<rparr>) =
         Inr \<lparr>pluginConfig = ''plugin'', configPath = ''/workspace/tsconfig.json''\<rparr>"
      "parseConfig (example_env\<lparr>parseConfig := (\<lambda>raw. Inr \<lparr>schema = None\<rparr>)\<rparr>) ''plugin''
         = Inr \<lparr>schema = None\<rparr>"
      "code (example_env\<lparr>parseConfig := (\<lambda>raw. Inr \<lparr>schema = None\<rparr>)\<rparr>) = (\<lambda>s. s)"
      "hint (example_env\<lparr>parseConfig := (\<lambda>raw. Inr \<lparr>schema = None\<rparr>)\<rparr>) = (\<lambda>s. s)"
    by (simp_all add: example_defs)
  show ?thesis
    using check_3_failures[OF a(1,2), where x = "''ENOENT''"]
      check_3_failures[OF b(1,2), where x = "''invalid''"
        and configResult = "\<lparr>pluginConfig = ''plugin'', configPath = ''/workspace/tsconfig.json''\<rparr>"]
      check_3_failures[OF c(1,2),
        where configResult = "\<lparr>pluginConfig = ''plugin'', configPath = ''/workspace/tsconfig.json''\<rparr>"
        and pluginConfig' = "\<lparr>schema = None\<rparr>"]
      a b c
    by simp
qed

text \<open>
  Claim C5.  In check 4, after checks 1 to 3 have succeeded: when the loader throws, the
  run ends with an ExternalError whose cause is the loader's exception; when the loader
  gives nothing, the run ends with a UserError that has the same message text and no
  cause, and no Failed event has been yielded for check 4.
\<close>

theorem check_4_failures:
  assumes "ts_version_ok env" and "dependencies_ok env" and "tsconfig_ok env"
  shows "(introspection env = Some (Inl x) \<longrightarrow>
            run_events env =
              [title TITLE DESCRIPTION,
               runningTask CHECK_TS_VERSION, completedTask CHECK_TS_VERSION False,
               runningTask CHECK_DEPENDENCIES, completedTask CHECK_DEPENDENCIES False,
               runningTask CHECK_TSCONFIG, completedTask CHECK_TSCONFIG False,
               runningTask CHECK_SCHEMA]
            \<and> run_outcome env = Inl (externalError ''Failed to load schema.'' (exception x)))
       \<and> (introspection env = Some (Inr None) \<longrightarrow>
            run_events env =
              [title TITLE DESCRIPTION,
               runningTask CHECK_TS_VERSION, completedTask CHECK_TS_VERSION False,
               runningTask CHECK_DEPENDENCIES, completedTask CHECK_DEPENDENCIES False,
               runningTask CHECK_TSCONFIG, completedTask CHECK_TSCONFIG False,
               runningTask CHECK_SCHEMA]
            \<and> failedTask CHECK_SCHEMA \<notin> set (run_events env)
            \<and> run_outcome env = Inl (errorMessage ''Failed to load schema.''))"
proof (intro conjI impI)
  assume a: "introspection env = Some (Inl x)"
  from run_schema_exception[OF assms a]
  show "run_events env =
              [title TITLE DESCRIPTION,
               runningTask CHECK_TS_VERSION, completedTask CHECK_TS_VERSION False,
               runningTask CHECK_DEPENDENCIES, completedTask CHECK_DEPENDENCIES False,
               runningTask CHECK_TSCONFIG, completedTask CHECK_TSCONFIG False,
               runningTask CHECK_SCHEMA]"
    and "run_outcome env = Inl (externalError ''Failed to load schema.'' (exception x))"
    by (simp_all add: msg_load_failed_def)
next
  assume a: "introspection env = Some (Inr None)"
  from run_schema_nothing[OF assms a]
  have e: "run_events env =
              [title TITLE DESCRIPTION,
               runningTask CHECK_TS_VERSION, completedTask CHECK_TS_VERSION False,
               runningTask CHECK_DEPENDENCIES, completedTask CHECK_DEPENDENCIES False,
               runningTask CHECK_TSCONFIG, completedTask CHECK_TSCONFIG False,
               runningTask CHECK_SCHEMA]"
    and o: "run_outcome env = Inl (errorMessage ''Failed to load schema.'')"
    by (simp_all add: msg_load_failed_def)
  from e show "run_events env =
              [title TITLE DESCRIPTION,
               runningTask CHECK_TS_VERSION, completedTask CHECK_TS_VERSION False,
               runningTask CHECK_DEPENDENCIES, completedTask CHECK_DEPENDENCIES False,
               runningTask CHECK_TSCONFIG, completedTask CHECK_TSCONFIG False,
               runningTask CHECK_SCHEMA]" .
  from e show "failedTask CHECK_SCHEMA \<notin> set (run_events env)" by simp
  from o show "run_outcome env = Inl (errorMessage ''Failed to load schema.'')" .
qed

theorem check_4_failures_witness:
  "(ts_version_ok (example_env\<lparr>load := (\<lambda>origin rootPath. \<lparr>loadIntrospection = Inl ''ECONNREFUSED''\<rparr>)\<rparr>) \<and> dependencies_ok (example_env\<lparr>load := (\<lambda>origin rootPath. \<lparr>loadIntrospection = Inl ''ECONNREFUSED''\<rparr>)\<rparr>) \<and> tsconfig_ok (example_env\<lparr>load := (\<lambda>origin rootPath. \<lparr>loadIntrospection = Inl ''ECONNREFUSED''\<rparr>)\<rparr>)
      \<and> introspection (example_env\<lparr>load := (\<lambda>origin rootPath. \<lparr>loadIntrospection = Inl ''ECONNREFUSED''\<rparr>)\<rparr>) = Some (Inl ''ECONNREFUSED'')
      \<and> run_events (example_env\<lparr>load := (\<lambda>origin rootPath. \<lparr>loadIntrospection = Inl ''ECONNREFUSED''\<rparr>)\<rparr>) =
         [title TITLE DESCRIPTION,
          runningTask CHECK_TS_VERSION, completedTask CHECK_TS_VERSION False,
          runningTask CHECK_DEPENDENCIES, completedTask CHECK_DEPENDENCIES False,
          runningTask CHECK_TSCONFIG, completedTask CHECK_TSCONFIG False,
          runningTask CHECK_SCHEMA]
      \<and> run_outcome (example_env\<lparr>load := (\<lambda>origin rootPath. \<lparr>loadIntrospection = Inl ''ECONNREFUSED''\<rparr>)\<rparr>) =
         Inl (externalError ''Failed to load schema.'' (exception ''ECONNREFUSED'')))
   \<and> (ts_version_ok (example_env\<lparr>load := (\<lambda>origin rootPath. \<lparr>loadIntrospection = Inr None\<rparr>)\<rparr>) \<and> dependencies_ok (example_env\<lparr>load := (\<lambda>origin rootPath. \<lparr>loadIntrospection = Inr None\<rparr>)\<rparr>) \<and> tsconfig_ok (example_env\<lparr>load := (\<lambda>origin rootPath. \<lparr>loadIntrospection = Inr None\<rparr>)\<rparr>)
      \<and> introspection (example_env\<lparr>load := (\<lambda>origin rootPath. \<lparr>loadIntrospection = Inr None\<rparr>)\<rparr>) = Some (Inr None)
      \<and> run_events (example_env\<lparr>load := (\<lambda>origin rootPath. \<lparr>loadIntrospection = Inr None\<rparr>)\<rparr>) =
         [title TITLE DESCRIPTION,
          runningTask CHECK_TS_VERSION, completedTask CHECK_TS_VERSION False,
          runningTask CHECK_DEPENDENCIES, completedTask CHECK_DEPENDENCIES False,
          runningTask CHECK_TSCONFIG, completedTask CHECK_TSCONFIG False,
          runningTask CHECK_SCHEMA]
      \<and> run_outcome (example_env\<lparr>load := (\<lambda>origin rootPath. \<lparr>loadIntrospection = Inr None\<rparr>)\<rparr>) = Inl (errorMessage ''Failed to load schema.''))"
proof -
  have d: "ts_version_ok (example_env\<lparr>load := (\<lambda>origin rootPath. \<lparr>loadIntrospection = Inl ''ECONNREFUSED''\<rparr>)\<rparr>)" "dependencies_ok (example_env\<lparr>load := (\<lambda>origin rootPath. \<lparr>loadIntrospection = Inl ''ECONNREFUSED''\<rparr>)\<rparr>)" "tsconfig_ok (example_env\<lparr>load := (\<lambda>origin rootPath. \<lparr>loadIntrospection = Inl ''ECONNREFUSED''\<rparr>)\<rparr>)"
      "introspection (example_env\<lparr>load := (\<lambda>origin rootPath. \<lparr>loadIntrospection = Inl ''ECONNREFUSED''\<rparr>)\<rparr>) = Some (Inl ''ECONNREFUSED'')"
    by (simp_all add: example_defs)
  have e: "ts_version_ok (example_env\<lparr>load := (\<lambda>origin rootPath. \<lparr>loadIntrospection = Inr None\<rparr>)\<rparr>)" "dependencies_ok (example_env\<lparr>load := (\<lambda>origin rootPath. \<lparr>loadIntrospection = Inr None\<rparr>)\<rparr>)" "tsconfig_ok (example_env\<lparr>load := (\<lambda>origin rootPath. \<lparr>loadIntrospection = Inr None\<rparr>)\<rparr>)"
      "introspection (example_env\<lparr>load := (\<lambda>origin rootPath. \<lparr>loadIntrospection = Inr None\<rparr>)\<rparr>) = Some (Inr None)"
    by (simp_all add: example_defs)
  show ?thesis
    using check_4_failures[OF d(1,2,3), where x = "''ECONNREFUSED''"]
      check_4_failures[OF e(1,2,3)]
      d e
    by simp
qed

lemma manifest_None_iff:
  "manifest env = None \<longleftrightarrow>
     (\<exists>x. readFile env (packageJsonFile env) = Inl x)
     \<or> (\<exists>contents x. readFile env (packageJsonFile env) = Inr contents
                      \<and> JSON_parse env contents = Inl x)"
  by (auto simp: manifest_def split: sum.splits)

text \<open>
  Claim C9.  When the manifest is there and \<open>JSON.parse\<close> rejects its contents, or
  reading it fails, check 1 yields Failed and the run ends with the UserError that says
  the manifest was not found in the current working directory; the events and the error
  are those of a run in which the file is missing.
\<close>

theorem unreadable_manifest:
  "(readFile env (packageJsonFile env) = Inl x
     \<or> (readFile env (packageJsonFile env) = Inr contents \<and> JSON_parse env contents = Inl x)
    \<longrightarrow>
      run_events env = [title TITLE DESCRIPTION, runningTask CHECK_TS_VERSION,
                        failedTask CHECK_TS_VERSION]
      \<and> run_outcome env =
          Inl (errorMessage
                 (''A '' @ code env ''package.json''
                    @ '' file was not found in the current working directory.\<newline>''
                    @ hint env ''Try running the doctor command in your workspace folder.'')))
   \<and> (readFile env (packageJsonFile env) = Inl x
       \<and> readFile env' (packageJsonFile env') = Inr contents
       \<and> JSON_parse env' contents = Inl y
       \<and> code env' = code env \<and> hint env' = hint env
    \<longrightarrow> run_events env' = run_events env \<and> run_outcome env' = run_outcome env)"
proof (intro conjI impI)
  assume a: "readFile env (packageJsonFile env) = Inl x
     \<or> (readFile env (packageJsonFile env) = Inr contents \<and> JSON_parse env contents = Inl x)"
  then have m: "manifest env = None" unfolding manifest_None_iff by blast
  from run_no_manifest[OF m]
  show "run_events env = [title TITLE DESCRIPTION, runningTask CHECK_TS_VERSION,
                        failedTask CHECK_TS_VERSION]"
    and "run_outcome env =
          Inl (errorMessage
                 (''A '' @ code env ''package.json''
                    @ '' file was not found in the current working directory.\<newline>''
                    @ hint env ''Try running the doctor command in your workspace folder.''))"
    by (simp_all add: msg_no_manifest_def)
next
  assume a: "readFile env (packageJsonFile env) = Inl x
       \<and> readFile env' (packageJsonFile env') = Inr contents
       \<and> JSON_parse env' contents = Inl y
       \<and> code env' = code env \<and> hint env' = hint env"
  then have m: "manifest env = None" and m': "manifest env' = None"
    unfolding manifest_None_iff by blast+
  from a have "msg_no_manifest env' = msg_no_manifest env"
    by (simp add: msg_no_manifest_def)
  with run_no_manifest[OF m] run_no_manifest[OF m']
  show "run_events env' = run_events env" and "run_outcome env' = run_outcome env"
    by simp_all
qed

theorem unreadable_manifest_witness:
  "readFile (example_env\<lparr>readFile := (\<lambda>file. Inl ''ENOENT'')\<rparr>)
      (packageJsonFile (example_env\<lparr>readFile := (\<lambda>file. Inl ''ENOENT'')\<rparr>)) = Inl ''ENOENT''
   \<and> readFile (example_env\<lparr>JSON_parse := (\<lambda>contents. Inl ''SyntaxError'')\<rparr>)
      (packageJsonFile (example_env\<lparr>JSON_parse := (\<lambda>contents. Inl ''SyntaxError'')\<rparr>)) = Inr ''manifest''
   \<and> JSON_parse (example_env\<lparr>JSON_parse := (\<lambda>contents. Inl ''SyntaxError'')\<rparr>) ''manifest''
        = Inl ''SyntaxError''
   \<and> run_events (example_env\<lparr>JSON_parse := (\<lambda>contents. Inl ''SyntaxError'')\<rparr>)
        = [title TITLE DESCRIPTION, runningTask CHECK_TS_VERSION, failedTask CHECK_TS_VERSION]
   \<and> run_outcome (example_env\<lparr>JSON_parse := (\<lambda>contents. Inl ''SyntaxError'')\<rparr>)
        = Inl (errorMessage
                 (''A package.json file was not found in the current working directory.\<newline>''
                    @ ''Try running the doctor command in your workspace folder.''))
   \<and> run_events (example_env\<lparr>JSON_parse := (\<lambda>contents. Inl ''SyntaxError'')\<rparr>)
        = run_events (example_env\<lparr>readFile := (\<lambda>file. Inl ''ENOENT'')\<rparr>)
   \<and> run_outcome (example_env\<lparr>JSON_parse := (\<lambda>contents. Inl ''SyntaxError'')\<rparr>)
        = run_outcome (example_env\<lparr>readFile := (\<lambda>file. Inl ''ENOENT'')\<rparr>)"
proof -
  have a: "readFile (example_env\<lparr>readFile := (\<lambda>file. Inl ''ENOENT'')\<rparr>)
      (packageJsonFile (example_env\<lparr>readFile := (\<lambda>file. Inl ''ENOENT'')\<rparr>)) = Inl ''ENOENT''"
    by simp
  have b: "readFile (example_env\<lparr>JSON_parse := (\<lambda>contents. Inl ''SyntaxError'')\<rparr>)
      (packageJsonFile (example_env\<lparr>JSON_parse := (\<lambda>contents. Inl ''SyntaxError'')\<rparr>)) = Inr ''manifest''"
    and c: "JSON_parse (example_env\<lparr>JSON_parse := (\<lambda>contents. Inl ''SyntaxError'')\<rparr>) ''manifest''
        = Inl ''SyntaxError''"
    and f: "code (example_env\<lparr>JSON_parse := (\<lambda>contents. Inl ''SyntaxError'')\<rparr>) = (\<lambda>s. s)"
      "hint (example_env\<lparr>JSON_parse := (\<lambda>contents. Inl ''SyntaxError'')\<rparr>) = (\<lambda>s. s)"
      "code (example_env\<lparr>readFile := (\<lambda>file. Inl ''ENOENT'')\<rparr>) = (\<lambda>s. s)"
      "hint (example_env\<lparr>readFile := (\<lambda>file. Inl ''ENOENT'')\<rparr>) = (\<lambda>s. s)"
    by (simp_all add: example_defs)
  show ?thesis
    using unreadable_manifest[where env = "example_env\<lparr>JSON_parse := (\<lambda>contents. Inl ''SyntaxError'')\<rparr>"
            and x = "''SyntaxError''" and contents = "''manifest''"]
      unreadable_manifest[where env = "example_env\<lparr>readFile := (\<lambda>file. Inl ''ENOENT'')\<rparr>"
            and x = "''ENOENT''" and contents = "''manifest''"
            and env' = "example_env\<lparr>JSON_parse := (\<lambda>contents. Inl ''SyntaxError'')\<rparr>"
            and y = "''SyntaxError''"]
      a b c f
    by simp
qed

section \<open>How every run begins\<close>

lemma fst_bind_yield: "fst (bind (yield e) f) = Yield e # fst (f ())"
  by (simp add: bind_def yield_def split: prod.splits)

lemma fst_bind:
  "fst (bind m f) = fst m @ (case snd m of Inl x \<Rightarrow> [] | Inr a \<Rightarrow> fst (f a))"
  by (cases m) (auto simp: bind_def split: sum.splits prod.splits)

lemma snd_bind:
  "snd (bind m f) = (case snd m of Inl x \<Rightarrow> Inl x | Inr a \<Rightarrow> snd (f a))"
  by (cases m) (auto simp: bind_def split: sum.splits prod.splits)

text \<open>
  Claim C10.  Whatever the outcome, the first two steps of a run are yielding the title
  and yielding Running for check 1: both come before every pacing delay, before the file
  read and before every other event.
\<close>

theorem run_begins_with_title:
  "(\<exists>rest. fst (run env) =
       Yield (title TITLE DESCRIPTION) # Yield (runningTask CHECK_TS_VERSION) # rest)
   \<and> (\<exists>rest. run_events env =
       title TITLE DESCRIPTION # runningTask CHECK_TS_VERSION # rest)"
proof -
  have c: "\<exists>t. fst (check_ts_version env) = Yield (runningTask CHECK_TS_VERSION) # t"
    by (simp add: check_ts_version_def fst_bind_yield)
  then obtain t where t: "fst (check_ts_version env) = Yield (runningTask CHECK_TS_VERSION) # t"
    by blast
  have "\<exists>rest. fst (run env) =
       Yield (title TITLE DESCRIPTION) # Yield (runningTask CHECK_TS_VERSION) # rest"
    unfolding run_def fst_bind_yield by (simp add: fst_bind[of "check_ts_version env"] t)
  then obtain rest where r: "fst (run env) =
       Yield (title TITLE DESCRIPTION) # Yield (runningTask CHECK_TS_VERSION) # rest"
    by blast
  then have "run_events env = title TITLE DESCRIPTION # runningTask CHECK_TS_VERSION # events rest"
    by (simp add: run_events_def)
  with r show ?thesis by blast
qed

section \<open>The comparator against its specification\<close>

lemma contains_first: "contains_triple s \<Longrightarrow> \<exists>t. first_triple s t"
proof -
  assume "contains_triple s"
  then obtain m where "match_triple s = Some m"
    using match_triple_None_contains[of s] by (cases "match_triple s") auto
  then show ?thesis using match_triple_first by blast
qed

lemma first_triple_is_triple: "first_triple s t \<Longrightarrow> triple t"
  by (simp add: first_triple_def)

text \<open>
  Claim C6.  For every pair of strings: when \<open>discovered\<close> contains no dotted triple
  of digits, \<open>semiverComply\<close> is false (the function is total: it never throws).
  Otherwise \<open>discovered\<close> has a first triple; the result is the comparator's verdict
  on that triple against \<open>minimum\<close>, is the same as for the triple alone (the text
  around it is ignored), and, for a comparator that orders versions numerically by their
  three components and a \<open>minimum\<close> that is a dotted triple, is true exactly when the
  triple is greater than or equal to \<open>minimum\<close>.  In particular 4.1.0 complies with
  4.1.0.
\<close>

theorem semiverComply_spec:
  "(\<not> contains_triple discovered \<longrightarrow> semiverComply sv discovered minimum = False)
   \<and> (contains_triple discovered \<longrightarrow> (\<exists>t. first_triple discovered t))
   \<and> (first_triple discovered t \<longrightarrow>
        semiverComply sv discovered minimum = (sv t minimum \<ge> 0)
        \<and> semiverComply sv discovered minimum = semiverComply sv t minimum)
   \<and> (numeric_comparator sv \<and> first_triple discovered t
        \<and> parse_version t = Some v \<and> parse_version minimum = Some w \<longrightarrow>
        semiverComply sv discovered minimum = version_ge v w)
   \<and> (numeric_comparator sv \<longrightarrow> semiverComply sv ''4.1.0'' ''4.1.0'')"
proof (intro conjI impI)
  assume "\<not> contains_triple discovered"
  then have "match_triple discovered = None" by (simp add: match_triple_None_contains)
  then show "semiverComply sv discovered minimum = False" by (simp add: semiverComply_def)
next
  assume "contains_triple discovered"
  then show "\<exists>t. first_triple discovered t" by (rule contains_first)
next
  assume f: "first_triple discovered t"
  then have m: "match_triple discovered = Some t" by (simp add: match_triple_iff_first)
  then show 1: "semiverComply sv discovered minimum = (sv t minimum \<ge> 0)"
    by (simp add: semiverComply_def)
  from f have "match_triple t = Some t"
    by (simp add: match_triple_self first_triple_is_triple)
  with 1 show "semiverComply sv discovered minimum = semiverComply sv t minimum"
    by (simp add: semiverComply_def)
next
  assume a: "numeric_comparator sv \<and> first_triple discovered t
        \<and> parse_version t = Some v \<and> parse_version minimum = Some w"
  then have "match_triple discovered = Some t" by (simp add: match_triple_iff_first)
  moreover from a have "sv t minimum = compare_version v w"
    unfolding numeric_comparator_def by blast
  ultimately show "semiverComply sv discovered minimum = version_ge v w"
    by (simp add: semiverComply_def compare_version_ge)
next
  assume a: "numeric_comparator sv"
  have p: "parse_version ''4.1.0'' = Some (4, 1, 0)"
    by (simp add: parse_version_def triple_def digits_def digit_def number_def digit_val_def)
  have "match_triple ''4.1.0'' = Some ''4.1.0''"
    by (simp add: match_here_def digit_def)
  moreover from a p have "sv ''4.1.0'' ''4.1.0'' = compare_version (4, 1, 0) (4, 1, 0)"
    unfolding numeric_comparator_def by blast
  ultimately show "semiverComply sv ''4.1.0'' ''4.1.0''"
    by (simp add: semiverComply_def compare_nat_def)
qed

theorem semiverComply_spec_witness:
  "\<not> contains_triple ''workspace:*''
   \<and> semiverComply semiver_numeric ''workspace:*'' ''4.1.0'' = False
   \<and> contains_triple ''>=4.9.5-beta.1 <5.0.0''
   \<and> first_triple ''>=4.9.5-beta.1 <5.0.0'' ''4.9.5''
   \<and> numeric_comparator semiver_numeric
   \<and> parse_version ''4.9.5'' = Some (4, 9, 5)
   \<and> parse_version ''4.1.0'' = Some (4, 1, 0)
   \<and> semiverComply semiver_numeric ''>=4.9.5-beta.1 <5.0.0'' ''4.1.0'' = version_ge (4, 9, 5) (4, 1, 0)
   \<and> semiverComply semiver_numeric ''>=4.9.5-beta.1 <5.0.0'' ''4.1.0''
        = semiverComply semiver_numeric ''4.9.5'' ''4.1.0''
   \<and> semiverComply semiver_numeric ''4.1.0'' ''4.1.0''"
proof -
  have n: "\<not> contains_triple ''workspace:*''"
    unfolding match_triple_None_contains[symmetric] by (simp add: match_here_def digit_def)
  have f: "first_triple ''>=4.9.5-beta.1 <5.0.0'' ''4.9.5''"
    unfolding match_triple_iff_first[symmetric] by (simp add: match_here_def digit_def)
  then have c: "contains_triple ''>=4.9.5-beta.1 <5.0.0''"
    unfolding first_triple_def contains_triple_def sublist_def by blast
  have p: "parse_version ''4.9.5'' = Some (4, 9, 5)" "parse_version ''4.1.0'' = Some (4, 1, 0)"
    by (simp_all add: parse_version_def triple_def digits_def digit_def number_def digit_val_def)
  note k = semiver_numeric_ok
  show ?thesis
    using semiverComply_spec[of "''workspace:*''" semiver_numeric "''4.1.0''"]
      semiverComply_spec[of "''>=4.9.5-beta.1 <5.0.0''" semiver_numeric "''4.1.0''" "''4.9.5''"
        "(4, 9, 5)" "(4, 1, 0)"]
      n f c p k
    by (simp add: semiver_numeric_def compare_nat_def semiverComply_def match_here_def digit_def)
qed

section \<open>The pacing delay\<close>

lemma unpaced_append: "unpaced (s @ t) = unpaced s @ unpaced t"
  by (simp add: unpaced_def)

lemma unpaced_pacing: "unpaced (pacing env) = []"
  by (simp add: unpaced_def pacing_cases)

lemma bind_unpaced:
  assumes "unpaced (fst m') = unpaced (fst m)" and "snd m' = snd m"
    and "\<And>a. unpaced (fst (f' a)) = unpaced (fst (f a)) \<and> snd (f' a) = snd (f a)"
  shows "unpaced (fst (bind m' f')) = unpaced (fst (bind m f)) \<and> snd (bind m' f') = snd (bind m f)"
  using assms by (simp add: fst_bind snd_bind unpaced_append split: sum.splits)

lemmas msg_defs =
  msg_no_manifest_def msg_no_typescript_def msg_old_typescript_def msg_no_graphqlsp_def
  msg_old_graphqlsp_def msg_no_tada_def msg_old_tada_def msg_no_tsconfig_def
  msg_invalid_config_def msg_no_schema_def

lemma unpaced_Nil: "unpaced [] = []"
  by (simp add: unpaced_def)

lemma unpaced_Cons: "unpaced (s # t) = (if is_Sleep s then unpaced t else s # unpaced t)"
  by (simp add: unpaced_def)

lemma manifest_CI: "manifest (env\<lparr>CI := c\<rparr>) = manifest env"
  by (simp add: manifest_def packageJsonFile_def split: sum.splits)

lemma packageJsonFile_CI: "packageJsonFile (env\<lparr>CI := c\<rparr>) = packageJsonFile env"
  by (simp add: packageJsonFile_def)

lemma package_complies_CI:
  "package_complies (env\<lparr>CI := c\<rparr>) deps name minimum = package_complies env deps name minimum"
  by (simp add: package_complies_def split: option.splits)

lemmas unpaced_simps = unpaced_append unpaced_pacing unpaced_Nil unpaced_Cons

lemma check_ts_version_CI:
  "unpaced (fst (check_ts_version (env\<lparr>CI := c\<rparr>))) = unpaced (fst (check_ts_version env))
   \<and> snd (check_ts_version (env\<lparr>CI := c\<rparr>)) = snd (check_ts_version env)"
proof (cases "manifest env")
  case None
  then have "manifest (env\<lparr>CI := c\<rparr>) = None" by (simp add: manifest_CI)
  from check_ts_version_no_manifest[OF this] check_ts_version_no_manifest[OF None]
  show ?thesis by (simp add: unpaced_simps packageJsonFile_CI msg_defs)
next
  case (Some p)
  then have m: "manifest (env\<lparr>CI := c\<rparr>) = Some p" by (simp add: manifest_CI)
  show ?thesis
  proof (cases "find (\<lambda>x. fst x = ''typescript'') (dependency_entries p)")
    case None
    from check_ts_version_no_typescript[OF m None] check_ts_version_no_typescript[OF Some None]
    show ?thesis by (simp add: unpaced_simps packageJsonFile_CI msg_defs)
  next
    case v: (Some v)
    show ?thesis
    proof (cases "semiverComply (semiver env) (snd v) (typescript MINIMUM_VERSIONS)")
      case True
      with v have ok: "package_complies env (dependency_entries p) ''typescript'' (typescript MINIMUM_VERSIONS)"
        by (simp add: package_complies_def)
      then have ok': "package_complies (env\<lparr>CI := c\<rparr>) (dependency_entries p) ''typescript'' (typescript MINIMUM_VERSIONS)"
        by (simp add: package_complies_CI)
      from check_ts_version_ok[OF m ok'] check_ts_version_ok[OF Some ok]
      show ?thesis by (simp add: unpaced_simps packageJsonFile_CI)
    next
      case False
      then have n: "\<not> semiverComply (semiver (env\<lparr>CI := c\<rparr>)) (snd v) (typescript MINIMUM_VERSIONS)"
        by simp
      from check_ts_version_old_typescript[OF m v n] check_ts_version_old_typescript[OF Some v False]
      show ?thesis by (simp add: unpaced_simps packageJsonFile_CI msg_defs)
    qed
  qed
qed

lemma check_dependencies_CI:
  "unpaced (fst (check_dependencies (env\<lparr>CI := c\<rparr>) deps)) = unpaced (fst (check_dependencies env deps))
   \<and> snd (check_dependencies (env\<lparr>CI := c\<rparr>) deps) = snd (check_dependencies env deps)"
proof (cases "find (\<lambda>x. fst x = ''@0no-co/graphqlsp'') deps")
  case None
  from check_dependencies_no_graphqlsp[OF None, of "env\<lparr>CI := c\<rparr>"]
    check_dependencies_no_graphqlsp[OF None, of env]
  show ?thesis by (simp add: unpaced_simps msg_defs)
next
  case g: (Some g)
  show ?thesis
  proof (cases "semiverComply (semiver env) (snd g) (lsp MINIMUM_VERSIONS)")
    case False
    then have n: "\<not> semiverComply (semiver (env\<lparr>CI := c\<rparr>)) (snd g) (lsp MINIMUM_VERSIONS)"
      by simp
    from check_dependencies_old_graphqlsp[OF g n] check_dependencies_old_graphqlsp[OF g False]
    show ?thesis by (simp add: unpaced_simps msg_defs)
  next
    case True
    with g have ok: "package_complies env deps ''@0no-co/graphqlsp'' (lsp MINIMUM_VERSIONS)"
      by (simp add: package_complies_def)
    then have ok': "package_complies (env\<lparr>CI := c\<rparr>) deps ''@0no-co/graphqlsp'' (lsp MINIMUM_VERSIONS)"
      by (simp add: package_complies_CI)
    show ?thesis
    proof (cases "find (\<lambda>x. fst x = ''gql.tada'') deps")
      case None
      from check_dependencies_no_tada[OF ok' None] check_dependencies_no_tada[OF ok None]
      show ?thesis by (simp add: unpaced_simps msg_defs)
    next
      case t: (Some t)
      show ?thesis
      proof (cases "semiverComply (semiver env) (snd t) ''1.0.0''")
        case False
        then have n: "\<not> semiverComply (semiver (env\<lparr>CI := c\<rparr>)) (snd t) ''1.0.0''"
          by simp
        from check_dependencies_old_tada[OF ok' t n] check_dependencies_old_tada[OF ok t False]
        show ?thesis by (simp add: unpaced_simps msg_defs)
      next
        case True
        with t have k: "package_complies env deps ''gql.tada'' ''1.0.0''"
          by (simp add: package_complies_def)
        then have k': "package_complies (env\<lparr>CI := c\<rparr>) deps ''gql.tada'' ''1.0.0''"
          by (simp add: package_complies_CI)
        from check_dependencies_ok[OF ok' k'] check_dependencies_ok[OF ok k]
        show ?thesis by (simp add: unpaced_simps)
      qed
    qed
  qed
qed

lemma check_tsconfig_CI:
  "unpaced (fst (check_tsconfig (env\<lparr>CI := c\<rparr>))) = unpaced (fst (check_tsconfig env))
   \<and> snd (check_tsconfig (env\<lparr>CI := c\<rparr>)) = snd (check_tsconfig env)"
proof (cases "loadConfig env")
  case (Inl x)
  then have l: "loadConfig (env\<lparr>CI := c\<rparr>) = Inl x" by simp
  from check_tsconfig_no_tsconfig[OF l] check_tsconfig_no_tsconfig[OF Inl]
  show ?thesis by (simp add: unpaced_simps msg_defs)
next
  case (Inr configResult)
  then have l: "loadConfig (env\<lparr>CI := c\<rparr>) = Inr configResult" by simp
  show ?thesis
  proof (cases "parseConfig env (pluginConfig configResult)")
    case x: (Inl x)
    then have q: "parseConfig (env\<lparr>CI := c\<rparr>) (pluginConfig configResult) = Inl x" by simp
    from check_tsconfig_invalid[OF l q] check_tsconfig_invalid[OF Inr x]
    show ?thesis by (simp add: unpaced_simps msg_defs)
  next
    case pc: (Inr pc)
    then have q: "parseConfig (env\<lparr>CI := c\<rparr>) (pluginConfig configResult) = Inr pc" by simp
    show ?thesis
    proof (cases "truthy_schema (schema pc)")
      case True
      from check_tsconfig_ok[OF l q True] check_tsconfig_ok[OF Inr pc True]
      show ?thesis by (simp add: unpaced_simps)
    next
      case False
      from check_tsconfig_no_schema[OF l q False] check_tsconfig_no_schema[OF Inr pc False]
      show ?thesis by (simp add: unpaced_simps msg_defs)
    qed
  qed
qed

lemma check_schema_CI:
  "unpaced (fst (check_schema (env\<lparr>CI := c\<rparr>) configResult pluginConfig'))
     = unpaced (fst (check_schema env configResult pluginConfig'))
   \<and> snd (check_schema (env\<lparr>CI := c\<rparr>) configResult pluginConfig')
     = snd (check_schema env configResult pluginConfig')"
proof (cases "loadIntrospection (load env (schema pluginConfig') (dirname env (configPath configResult)))")
  case (Inl x)
  then have l: "loadIntrospection (load (env\<lparr>CI := c\<rparr>) (schema pluginConfig')
                   (dirname (env\<lparr>CI := c\<rparr>) (configPath configResult))) = Inl x"
    by simp
  from check_schema_exception[OF l] check_schema_exception[OF Inl]
  show ?thesis by (simp add: unpaced_simps)
next
  case (Inr r)
  show ?thesis
  proof (cases r)
    case None
    with Inr have a: "loadIntrospection (load env (schema pluginConfig')
                   (dirname env (configPath configResult))) = Inr None"
      by simp
    then have l: "loadIntrospection (load (env\<lparr>CI := c\<rparr>) (schema pluginConfig')
                   (dirname (env\<lparr>CI := c\<rparr>) (configPath configResult))) = Inr None"
      by simp
    from check_schema_nothing[OF l] check_schema_nothing[OF a]
    show ?thesis by (simp add: unpaced_simps)
  next
    case (Some i)
    with Inr have a: "loadIntrospection (load env (schema pluginConfig')
                   (dirname env (configPath configResult))) = Inr (Some i)"
      by simp
    then have l: "loadIntrospection (load (env\<lparr>CI := c\<rparr>) (schema pluginConfig')
                   (dirname (env\<lparr>CI := c\<rparr>) (configPath configResult))) = Inr (Some i)"
      by simp
    from check_schema_ok[OF l] check_schema_ok[OF a]
    show ?thesis by (simp add: unpaced_simps)
  qed
qed

lemma run_CI:
  "unpaced (fst (run (env\<lparr>CI := c\<rparr>))) = unpaced (fst (run env))
   \<and> snd (run (env\<lparr>CI := c\<rparr>)) = snd (run env)"
  unfolding run_def
  apply (rule bind_unpaced, simp, simp)
  apply (rule bind_unpaced)
    apply (simp add: check_ts_version_CI)
   apply (simp add: check_ts_version_CI)
  apply (rule bind_unpaced)
    apply (simp add: check_dependencies_CI)
   apply (simp add: check_dependencies_CI)
  apply (rule bind_unpaced)
    apply (simp add: check_tsconfig_CI)
   apply (simp add: check_tsconfig_CI)
  apply (simp add: check_schema_CI split: prod.splits)
  done

lemma events_unpaced: "events (unpaced t) = events t"
  by (induction t rule: events.induct) (auto simp: unpaced_def)

lemma still_bind:
  "unpaced (fst m) = fst m \<Longrightarrow> (\<And>a. unpaced (fst (f a)) = fst (f a))
     \<Longrightarrow> unpaced (fst (bind m f)) = fst (bind m f)"
  by (simp add: fst_bind unpaced_append unpaced_Nil split: sum.splits)

lemma fst_try_catch:
  "fst (try_catch m h) = fst m @ (case snd m of Inl x \<Rightarrow> fst (h x) | Inr a \<Rightarrow> [])"
  by (cases m) (auto simp: try_catch_def split: sum.splits prod.splits)

lemma still_try_catch:
  "unpaced (fst m) = fst m \<Longrightarrow> (\<And>x. unpaced (fst (h x)) = fst (h x))
     \<Longrightarrow> unpaced (fst (try_catch m h)) = fst (try_catch m h)"
  by (simp add: fst_try_catch unpaced_append unpaced_Nil split: sum.splits)

lemma still_basic:
  "unpaced (fst (yield e)) = fst (yield e)"
  "unpaced (fst (throw x)) = fst (throw x)"
  "unpaced (fst (pure a)) = fst (pure a)"
  "unpaced (fst (call r)) = fst (call r)"
  "\<not> is_Sleep s \<Longrightarrow> unpaced (fst (await s r)) = fst (await s r)"
  by (simp_all add: yield_def throw_def pure_def call_def await_def unpaced_def)

lemma still_delay:
  "truthy_string (CI env) \<Longrightarrow> unpaced (fst (delay env ms)) = fst (delay env ms)"
  by (simp add: delay_def pure_def unpaced_def)

lemma still_if:
  "unpaced (fst x) = fst x \<Longrightarrow> unpaced (fst y) = fst y
     \<Longrightarrow> unpaced (fst (if b then x else y)) = fst (if b then x else y)"
  by simp

lemma still_option:
  "unpaced (fst x) = fst x \<Longrightarrow> (\<And>v. unpaced (fst (y v)) = fst (y v))
     \<Longrightarrow> unpaced (fst (case opt of None \<Rightarrow> x | Some v \<Rightarrow> y v))
         = fst (case opt of None \<Rightarrow> x | Some v \<Rightarrow> y v)"
  by (cases opt) simp_all

lemma still_prod:
  "(\<And>a b. unpaced (fst (f a b)) = fst (f a b))
     \<Longrightarrow> unpaced (fst (case p of (a, b) \<Rightarrow> f a b)) = fst (case p of (a, b) \<Rightarrow> f a b)"
  by (cases p) simp

lemmas still_rules = still_bind still_try_catch still_basic still_delay still_if still_option
  still_prod

lemma check_ts_version_still:
  "truthy_string (CI env) \<Longrightarrow> unpaced (fst (check_ts_version env)) = fst (check_ts_version env)"
  unfolding check_ts_version_def Let_def by (intro still_rules) simp_all

lemma check_dependencies_still:
  "truthy_string (CI env) \<Longrightarrow>
     unpaced (fst (check_dependencies env deps)) = fst (check_dependencies env deps)"
  unfolding check_dependencies_def Let_def by (intro still_rules) simp_all

lemma check_tsconfig_still:
  "truthy_string (CI env) \<Longrightarrow> unpaced (fst (check_tsconfig env)) = fst (check_tsconfig env)"
  unfolding check_tsconfig_def Let_def by (intro still_rules) simp_all

lemma check_schema_still:
  "truthy_string (CI env) \<Longrightarrow>
     unpaced (fst (check_schema env configResult pluginConfig'))
       = fst (check_schema env configResult pluginConfig')"
  unfolding check_schema_def Let_def by (intro still_rules) simp_all

lemma run_still:
  "truthy_string (CI env) \<Longrightarrow> unpaced (fst (run env)) = fst (run env)"
  unfolding run_def
  by (intro still_rules check_ts_version_still check_dependencies_still check_tsconfig_still
      check_schema_still) simp_all

text \<open>
  Claim C8.  When \<open>process.env.CI\<close> is set (to a truthy value), every pacing delay
  resolves at once and the run starts no timer.  Whatever \<open>CI\<close> is, the run performs
  the same steps apart from the timers, yields the same events and ends the same way:
  the delay changes the timing and nothing else.
\<close>

theorem pacing_affects_timing_only:
  "(truthy_string (CI env) \<longrightarrow>
      delay env ms = pure () \<and> unpaced (fst (run env)) = fst (run env))
   \<and> unpaced (fst (run (env\<lparr>CI := c\<rparr>))) = unpaced (fst (run env))
   \<and> run_events (env\<lparr>CI := c\<rparr>) = run_events env
   \<and> run_outcome (env\<lparr>CI := c\<rparr>) = run_outcome env"
proof (intro conjI impI)
  assume t: "truthy_string (CI env)"
  then show "delay env ms = pure ()" by (simp add: delay_def)
  from t show "unpaced (fst (run env)) = fst (run env)" by (rule run_still)
next
  show u: "unpaced (fst (run (env\<lparr>CI := c\<rparr>))) = unpaced (fst (run env))"
    using run_CI[where env = env and c = c] by simp
  have "events (unpaced (fst (run (env\<lparr>CI := c\<rparr>)))) = events (unpaced (fst (run env)))"
    using u by simp
  then show "run_events (env\<lparr>CI := c\<rparr>) = run_events env"
    by (simp add: run_events_def events_unpaced)
  show "run_outcome (env\<lparr>CI := c\<rparr>) = run_outcome env"
    using run_CI[where env = env and c = c] by (simp add: run_outcome_def)
qed

theorem pacing_affects_timing_only_witness:
  "truthy_string (CI (example_env\<lparr>CI := Some ''true''\<rparr>))
   \<and> delay (example_env\<lparr>CI := Some ''true''\<rparr>) 700 = (pure () :: (string, unit) gen)
   \<and> unpaced (fst (run (example_env\<lparr>CI := Some ''true''\<rparr>)))
        = fst (run (example_env\<lparr>CI := Some ''true''\<rparr>))
   \<and> run_events (example_env\<lparr>CI := Some ''true''\<rparr>) = run_events example_env
   \<and> run_outcome (example_env\<lparr>CI := Some ''true''\<rparr>) = run_outcome example_env"
proof -
  have t: "truthy_string (CI (example_env\<lparr>CI := Some ''true''\<rparr>))" by simp
  show ?thesis
    using pacing_affects_timing_only[where env = "example_env\<lparr>CI := Some ''true''\<rparr>"
        and ms = 700 and c = "Some ''true''"]
      pacing_affects_timing_only[where env = example_env and ms = 700 and c = "Some ''true''"] t
    by simp
qed

section \<open>One check at a time\<close>

lemma run_events_shapes:
  "run_events env \<in>
     {[title TITLE DESCRIPTION, runningTask CHECK_TS_VERSION, failedTask CHECK_TS_VERSION],
      [title TITLE DESCRIPTION,
       runningTask CHECK_TS_VERSION, completedTask CHECK_TS_VERSION False,
       runningTask CHECK_DEPENDENCIES, failedTask CHECK_DEPENDENCIES],
      [title TITLE DESCRIPTION,
       runningTask CHECK_TS_VERSION, completedTask CHECK_TS_VERSION False,
       runningTask CHECK_DEPENDENCIES, completedTask CHECK_DEPENDENCIES False,
       runningTask CHECK_TSCONFIG, failedTask CHECK_TSCONFIG],
      [title TITLE DESCRIPTION,
       runningTask CHECK_TS_VERSION, completedTask CHECK_TS_VERSION False,
       runningTask CHECK_DEPENDENCIES, completedTask CHECK_DEPENDENCIES False,
       runningTask CHECK_TSCONFIG],
      [title TITLE DESCRIPTION,
       runningTask CHECK_TS_VERSION, completedTask CHECK_TS_VERSION False,
       runningTask CHECK_DEPENDENCIES, completedTask CHECK_DEPENDENCIES False,
       runningTask CHECK_TSCONFIG, completedTask CHECK_TSCONFIG False,
       runningTask CHECK_SCHEMA],
      [title TITLE DESCRIPTION,
       runningTask CHECK_TS_VERSION, completedTask CHECK_TS_VERSION False,
       runningTask CHECK_DEPENDENCIES, completedTask CHECK_DEPENDENCIES False,
       runningTask CHECK_TSCONFIG, completedTask CHECK_TSCONFIG False,
       runningTask CHECK_SCHEMA, completedTask CHECK_SCHEMA True,
       success]}"
proof (cases "manifest env")
  case None
  from run_no_manifest(1)[OF None] show ?thesis by simp
next
  case (Some p)
  show ?thesis
  proof (cases "ts_version_ok env")
    case False
    show ?thesis
    proof (cases "package_found (dependency_entries p) ''typescript''")
      case nf: False
      from run_no_typescript(1)[OF Some nf] show ?thesis by simp
    next
      case True
      from False Some
      have "\<not> package_complies env (dependency_entries p) ''typescript'' (typescript MINIMUM_VERSIONS)"
        by (simp add: ts_version_ok_def)
      from run_old_typescript(1)[OF Some True this] show ?thesis by simp
    qed
  next
    case ts: True
    show ?thesis
    proof (cases "dependencies_ok env")
      case False
      show ?thesis
      proof (cases "package_complies env (dependency_entries p) ''@0no-co/graphqlsp'' (lsp MINIMUM_VERSIONS)")
        case g: True
        with False Some
        have nt: "\<not> package_complies env (dependency_entries p) ''gql.tada'' ''1.0.0''"
          by (simp add: dependencies_ok_def)
        show ?thesis
        proof (cases "package_found (dependency_entries p) ''gql.tada''")
          case True
          from run_old_tada(1)[OF ts Some g True nt] show ?thesis by simp
        next
          case nf: False
          from run_no_tada(1)[OF ts Some g nf] show ?thesis by simp
        qed
      next
        case ng: False
        show ?thesis
        proof (cases "package_found (dependency_entries p) ''@0no-co/graphqlsp''")
          case True
          from run_old_graphqlsp(1)[OF ts Some True ng] show ?thesis by simp
        next
          case nf: False
          from run_no_graphqlsp(1)[OF ts Some nf] show ?thesis by simp
        qed
      qed
    next
      case deps: True
      show ?thesis
      proof (cases "loadConfig env")
        case (Inl x)
        from run_no_tsconfig(1)[OF ts deps Inl] show ?thesis by simp
      next
        case (Inr configResult)
        show ?thesis
        proof (cases "parseConfig env (pluginConfig configResult)")
          case x: (Inl x)
          from run_invalid_config(1)[OF ts deps Inr x] show ?thesis by simp
        next
          case pc: (Inr pc)
          show ?thesis
          proof (cases "truthy_schema (schema pc)")
            case False
            from run_no_schema(1)[OF ts deps Inr pc False] show ?thesis by simp
          next
            case True
            with Inr pc have cfg: "tsconfig_ok env" by (simp add: tsconfig_ok_def)
            from Inr pc obtain r where i: "introspection env = Some r"
              by (simp add: introspection_def)
            show ?thesis
            proof (cases r)
              case x: (Inl x)
              with i have "introspection env = Some (Inl x)" by simp
              from run_schema_exception(1)[OF ts deps cfg this] show ?thesis by simp
            next
              case d: (Inr d)
              show ?thesis
              proof (cases d)
                case None
                with i d have "introspection env = Some (Inr None)" by simp
                from run_schema_nothing(1)[OF ts deps cfg this] show ?thesis by simp
              next
                case (Some data)
                with i d have "schema_ok env" by (simp add: schema_ok_def)
                from run_all_ok(1)[OF ts deps cfg this] show ?thesis by simp
              qed
            qed
          qed
        qed
      qed
    qed
  qed
qed

lemma run_sequential: "sequential None (run_events env)"
  using run_events_shapes[of env] by auto

text \<open>
  Claim C2, at an input where the runner departs from it.  The claim asks that every
  check that starts is followed by exactly one of Completed and Failed.  In a project
  whose plugin configuration does not parse, check 3 is announced as running and the run
  then ends with the error, with neither Completed nor Failed for check 3.  (The order of
  the checks, and that at most one is running at any moment, hold on every run:
  \<open>run_sequential\<close>.)
\<close>

theorem invalid_config_leaves_check_running:
  "run_events (example_env\<lparr>parseConfig := (\<lambda>raw. Inl ''invalid'')\<rparr>) =
     [title TITLE DESCRIPTION,
      runningTask CHECK_TS_VERSION, completedTask CHECK_TS_VERSION False,
      runningTask CHECK_DEPENDENCIES, completedTask CHECK_DEPENDENCIES False,
      runningTask CHECK_TSCONFIG]
   \<and> run_outcome (example_env\<lparr>parseConfig := (\<lambda>raw. Inl ''invalid'')\<rparr>) =
       Inl (externalError
              (msg_invalid_config (example_env\<lparr>parseConfig := (\<lambda>raw. Inl ''invalid'')\<rparr>))
              (exception ''invalid''))
   \<and> lifecycle CHECK_DEPENDENCIES
        (run_events (example_env\<lparr>parseConfig := (\<lambda>raw. Inl ''invalid'')\<rparr>))
   \<and> \<not> lifecycle CHECK_TSCONFIG
        (run_events (example_env\<lparr>parseConfig := (\<lambda>raw. Inl ''invalid'')\<rparr>))"
proof -
  have b: "ts_version_ok (example_env\<lparr>parseConfig := (\<lambda>raw. Inl ''invalid'')\<rparr>)"
      "dependencies_ok (example_env\<lparr>parseConfig := (\<lambda>raw. Inl ''invalid'')\<rparr>)"
      "loadConfig (example_env\<lparr>parseConfig := (\<lambda>raw. Inl ''invalid'')\<rparr>)
         = Inr \<lparr>pluginConfig = ''plugin'', configPath = ''/workspace/tsconfig.json''\<rparr>"
      "parseConfig (example_env\<lparr>parseConfig := (\<lambda>raw. Inl ''invalid'')\<rparr>)
         (pluginConfig \<lparr>pluginConfig = ''plugin'', configPath = ''/workspace/tsconfig.json''\<rparr>)
         = Inl ''invalid''"
    by (simp_all add: example_defs)
  from run_invalid_config[OF b]
  show ?thesis
    by (simp add: lifecycle_def CHECK_TS_VERSION_def CHECK_DEPENDENCIES_def CHECK_TSCONFIG_def)
qed

end
